(* ===== verification/Prelude.thy ===== *)
theory Prelude
  imports Main "HOL-Library.AList" "HOL-Library.Sublist"
begin

text \<open>
  Shared vocabulary of the development: the Python exceptions the modelled code can
  raise, names for the model's string types, the error-propagating bind that threads
  a file-system state through a sequence of calls (the Python statements run one after
  the other and an exception aborts the rest), and generic lemmas on association lists,
  which model directory listings.
\<close>

named_theorems model_simps \<open>unfolding equations of the model's operations, used to
  evaluate them on concrete inputs\<close>

type_synonym name = string
type_synonym path = string

text \<open>
  The exceptions of the Python code, each carrying the path or message that CPython puts
  in it.
\<close>

datatype py_error =
    FileNotFoundError path
  | FileExistsError path
  | IsADirectoryError path
  | NotADirectoryError path
  | DirectoryNotEmpty path
  | SameFileError path
  | InvalidArgument path
  | ImageIOError path
  | ValueError string
  | ZeroDivisionError
  | AttributeError string
  | UnicodeDecodeError
  | TypeError string
  | AssertionError string

type_synonym 'a result = "py_error + 'a"

text \<open>Sequencing of two statements: an exception of the first skips the second. The
  error side is generic, so that an exception can carry the state in which it was raised.\<close>

definition sbind :: "'e + 'a \<Rightarrow> ('a \<Rightarrow> 'e + 'b) \<Rightarrow> 'e + 'b" where
  "sbind m f = (case m of Inl e \<Rightarrow> Inl e | Inr a \<Rightarrow> f a)"

lemma sbind_Inl [simp]: "sbind (Inl e) f = Inl e"
  by (simp add: sbind_def)

lemma sbind_Inr [simp]: "sbind (Inr a) f = f a"
  by (simp add: sbind_def)

lemma sbind_eq_Inr:
  "sbind m f = Inr b \<longleftrightarrow> (\<exists>a. m = Inr a \<and> f a = Inr b)"
  by (cases m) simp_all

lemma sbind_eq_Inl:
  "sbind m f = Inl e \<longleftrightarrow> m = Inl e \<or> (\<exists>a. m = Inr a \<and> f a = Inl e)"
  by (cases m) simp_all

lemma sbind_assoc: "sbind (sbind m f) g = sbind m (\<lambda>x. sbind (f x) g)"
  by (cases m) simp_all

subsection \<open>Association lists as directory listings\<close>

text \<open>
  A directory listing is an association list from entry names to entries whose keys are
  distinct; \<open>keys\<close> is its listing order.
\<close>

abbreviation keys :: "('k \<times> 'v) list \<Rightarrow> 'k list" where
  "keys al \<equiv> map fst al"

lemma keys_update_present:
  "k \<in> set (keys al) \<Longrightarrow> keys (AList.update k v al) = keys al"
  by (induction al) auto

lemma keys_update_absent:
  "k \<notin> set (keys al) \<Longrightarrow> keys (AList.update k v al) = keys al @ [k]"
  by (induction al) auto

text \<open>Stated on \<open>fst ` set\<close>, the simplifier's normal form of \<open>set (keys al)\<close>.\<close>

lemma set_keys_update [simp]:
  "fst ` set (AList.update k v al) = insert k (fst ` set al)"
  by (induction al) auto

lemma set_keys_delete [simp]:
  "fst ` set (AList.delete k al) = fst ` set al - {k}"
  by (auto simp: AList.delete_eq image_iff)

lemma distinct_keys_update [intro]:
  "distinct (keys al) \<Longrightarrow> distinct (keys (AList.update k v al))"
  by (rule distinct_update)

lemma distinct_keys_delete [intro]:
  "distinct (keys al) \<Longrightarrow> distinct (keys (AList.delete k al))"
  by (rule distinct_delete)

lemma map_of_update_same [simp]: "map_of (AList.update k v al) k = Some v"
  by (simp add: update_conv')

lemma map_of_update_other [simp]:
  "k' \<noteq> k \<Longrightarrow> map_of (AList.update k v al) k' = map_of al k'"
  by (simp add: update_conv')

lemma map_of_delete_same [simp]: "map_of (AList.delete k al) k = None"
  by (simp add: delete_conv')

lemma map_of_None_keys: "map_of al k = None \<longleftrightarrow> k \<notin> set (keys al)"
  by (simp add: map_of_eq_None_iff)

lemma update_absent_append:
  "k \<notin> set (keys al) \<Longrightarrow> AList.update k v al = al @ [(k, v)]"
  by (induction al) auto

lemma set_update_absent:
  "k \<notin> set (keys al) \<Longrightarrow> set (AList.update k v al) = insert (k, v) (set al)"
  by (induction al) auto

lemma set_delete_distinct:
  "distinct (keys al) \<Longrightarrow> map_of al k = Some v \<Longrightarrow> set (AList.delete k al) = set al - {(k, v)}"
  by (induction al) (auto simp: AList.delete_eq image_iff split: if_splits)

subsection \<open>Numbers\<close>

lemma nat_int_plus_one [simp]: "nat (int n + 1) = Suc n"
  by arith

subsection \<open>Lists\<close>

lemma drop_append_length [simp]: "drop (length xs) (xs @ ys) = ys"
  by simp

lemma takeWhile_neq_append: "a \<notin> set xs \<Longrightarrow> takeWhile (\<lambda>c. c \<noteq> a) (xs @ a # ys) = xs"
  by (induction xs) auto

lemma dropWhile_neq_append: "a \<notin> set xs \<Longrightarrow> dropWhile (\<lambda>c. c \<noteq> a) (xs @ a # ys) = a # ys"
  by (induction xs) auto

lemma in_set_tl: "x \<in> set (tl l) \<Longrightarrow> x \<in> set l"
  by (cases l) auto

lemma last_take_append:
  assumes "1 \<le> k" "k \<le> length ts"
  shows "last (take (length hs + k) (hs @ ts)) = ts ! (k - 1)"
proof -
  have ne: "take k ts \<noteq> []" using assms by (cases ts) auto
  have "last (take k ts) = take k ts ! (k - 1)"
    using ne assms by (simp add: last_conv_nth min_def)
  moreover have "take k ts ! (k - 1) = ts ! (k - 1)"
    using assms(1) by (intro nth_take) arith
  moreover have "take (length hs + k) (hs @ ts) = hs @ take k ts" by simp
  ultimately show ?thesis using last_appendR [OF ne, of hs] by simp
qed

lemma prefix_drop_append: "prefix p s \<Longrightarrow> p @ drop (length p) s = s"
  by (auto simp: prefix_def)

end
