(* ===== verification/PyStr.thy ===== *)
theory PyStr
  imports Prelude
begin

text \<open>
  The CPython string operations the program calls, on \<open>string\<close> (a character list; the
  file names and paths the code handles are modelled as such lists): \<open>sub in s\<close>,
  \<open>s.startswith(p)\<close>, \<open>s.replace(old, new)\<close>, \<open>s.split(sep)\<close>, \<open>sep.join(parts)\<close> and
  \<open>s.count(sub)\<close>. Each scans left to right and matches non-overlapping occurrences, as
  CPython's \<open>Objects/stringlib\<close> routines do; the empty pattern is special-cased exactly
  where CPython special-cases it (\<open>replace\<close> inserts between all characters, \<open>split\<close>
  raises \<open>ValueError\<close>, \<open>count\<close> returns \<open>len(s) + 1\<close>).
\<close>

fun starts_with :: "string \<Rightarrow> string \<Rightarrow> bool" where
  "starts_with [] s = True"
| "starts_with (p # ps) [] = False"
| "starts_with (p # ps) (c # cs) = (p = c \<and> starts_with ps cs)"

fun py_contains :: "string \<Rightarrow> string \<Rightarrow> bool" where
  "py_contains sub [] = (sub = [])"
| "py_contains sub (c # cs) = (starts_with sub (c # cs) \<or> py_contains sub cs)"

function replace_scan :: "string \<Rightarrow> string \<Rightarrow> string \<Rightarrow> string" where
  "replace_scan old new [] = []"
| "replace_scan old new (c # cs) =
     (if old \<noteq> [] \<and> starts_with old (c # cs)
      then new @ replace_scan old new (drop (length old) (c # cs))
      else c # replace_scan old new cs)"
  by pat_completeness auto
termination
  by (relation "measure (\<lambda>(_, _, s). length s)") auto

definition py_replace :: "string \<Rightarrow> string \<Rightarrow> string \<Rightarrow> string" where
  "py_replace old new s =
     (if old = [] then new @ concat (map (\<lambda>c. c # new) s) else replace_scan old new s)"

function split_scan :: "string \<Rightarrow> string \<Rightarrow> string \<Rightarrow> string list" where
  "split_scan sep acc [] = [acc]"
| "split_scan sep acc (c # cs) =
     (if sep \<noteq> [] \<and> starts_with sep (c # cs)
      then acc # split_scan sep [] (drop (length sep) (c # cs))
      else split_scan sep (acc @ [c]) cs)"
  by pat_completeness auto
termination
  by (relation "measure (\<lambda>(_, _, s). length s)") auto

definition py_split :: "string \<Rightarrow> string \<Rightarrow> string list result" where
  "py_split sep s =
     (if sep = [] then Inl (ValueError ''empty separator'') else Inr (split_scan sep [] s))"

fun py_join :: "string \<Rightarrow> string list \<Rightarrow> string" where
  "py_join sep [] = []"
| "py_join sep [x] = x"
| "py_join sep (x # y # ys) = x @ sep @ py_join sep (y # ys)"

function count_scan :: "string \<Rightarrow> string \<Rightarrow> nat" where
  "count_scan sub [] = 0"
| "count_scan sub (c # cs) =
     (if sub \<noteq> [] \<and> starts_with sub (c # cs)
      then Suc (count_scan sub (drop (length sub) (c # cs)))
      else count_scan sub cs)"
  by pat_completeness auto
termination
  by (relation "measure (\<lambda>(_, s). length s)") auto

definition py_count :: "string \<Rightarrow> string \<Rightarrow> nat" where
  "py_count sub s = (if sub = [] then Suc (length s) else count_scan sub s)"

text \<open>\<open>str(i)\<close> for a natural number: its decimal digits; for an integer, with a minus
  sign when negative.\<close>

fun py_str_nat :: "nat \<Rightarrow> string" where
  "py_str_nat n =
     (if n < 10 then [''0123456789'' ! n]
      else py_str_nat (n div 10) @ [''0123456789'' ! (n mod 10)])"

declare py_str_nat.simps [simp del]

definition py_str_int :: "int \<Rightarrow> string" where
  "py_str_int i = (if i < 0 then ''-'' @ py_str_nat (nat (- i)) else py_str_nat (nat i))"

declare py_str_int_def [model_simps] py_replace_def [model_simps] py_split_def [model_simps]
  py_count_def [model_simps]

lemma py_str_nat_0 [simp]: "py_str_nat 0 = ''0''"
  by (simp add: py_str_nat.simps)

subsection \<open>Basic facts\<close>

lemma starts_with_prefix: "starts_with p s \<longleftrightarrow> prefix p s"
  by (induction p s rule: starts_with.induct) auto

lemma py_contains_sublist: "py_contains sub s \<longleftrightarrow> sublist sub s"
  by (induction s) (auto simp: starts_with_prefix sublist_Cons_right)

lemma py_contains_Nil [simp]: "py_contains [] s"
  by (cases s) simp_all

lemma py_join_Cons: "ys \<noteq> [] \<Longrightarrow> py_join sep (x # ys) = x @ sep @ py_join sep ys"
  by (cases ys) simp_all

lemma split_scan_nonempty [simp]: "split_scan sep acc s \<noteq> []"
  by (induction sep acc s rule: split_scan.induct) auto

lemma starts_with_drop: "starts_with p s \<Longrightarrow> p @ drop (length p) s = s"
  by (simp add: starts_with_prefix prefix_drop_append)

subsection \<open>\<open>replace\<close> is \<open>split\<close> followed by \<open>join\<close>\<close>

text \<open>
  The scanners for \<open>replace\<close> and \<open>split\<close> recurse in the same way; the lemma below is
  stated for any accumulated first piece, so that the induction goes through.
\<close>

lemma replace_scan_split_scan:
  "acc @ replace_scan sep new s = py_join new (split_scan sep acc s)"
proof (induction sep acc s rule: split_scan.induct)
  case (1 sep acc)
  then show ?case by simp
next
  case (2 sep acc c cs)
  show ?case
  proof (cases "sep \<noteq> [] \<and> starts_with sep (c # cs)")
    case True
    with "2.IH"(1) show ?thesis
      by (simp add: py_join_Cons)
  next
    case False
    then have "replace_scan sep new (c # cs) = c # replace_scan sep new cs"
      and "split_scan sep acc (c # cs) = split_scan sep (acc @ [c]) cs"
      by (simp_all only: replace_scan.simps split_scan.simps if_not_P if_False)
    with "2.IH"(2) [OF False] show ?thesis by simp
  qed
qed

lemma replace_scan_same: "old = new \<Longrightarrow> replace_scan old new s = s"
  by (induction old new s rule: replace_scan.induct) (auto simp: starts_with_drop)

lemma count_scan_split_scan: "length (split_scan sep acc s) = Suc (count_scan sep s)"
  by (induction sep acc s rule: split_scan.induct) auto

lemma count_scan_single: "count_scan [c] s = count_list s c"
  by (induction s) auto

lemma replace_scan_absent: "\<not> py_contains old s \<Longrightarrow> replace_scan old new s = s"
  by (induction old new s rule: replace_scan.induct) auto

lemma py_count_char: "py_count [c] s = count_list s c"
  by (simp add: py_count_def count_scan_single)

lemma py_split_pieces: "py_split sep s = Inr parts \<Longrightarrow> length parts = Suc (py_count sep s)"
  by (auto simp: py_split_def py_count_def count_scan_split_scan split: if_splits)

lemma py_replace_absent: "\<not> py_contains old s \<Longrightarrow> py_replace old new s = s"
  by (auto simp: py_replace_def replace_scan_absent)

lemma py_replace_same: "py_replace old old s = s"
  by (simp add: py_replace_def replace_scan_same)

end
