(* ===== verification/OsPath.thy ===== *)
theory OsPath
  imports PyStr
begin

text \<open>
  The \<open>posixpath\<close> functions the transformer calls (the code runs on Linux, natively or
  inside WSL): \<open>os.path.join(a, b)\<close>, \<open>os.path.basename(p)\<close> and
  \<open>os.path.splitext(p)\<close>, written after CPython's \<open>Lib/posixpath.py\<close> and
  \<open>Lib/genericpath.py\<close>, with \<open>str.rfind\<close> returning \<open>-1\<close> when the character is absent.
\<close>

fun rfind_from :: "char \<Rightarrow> string \<Rightarrow> nat \<Rightarrow> int \<Rightarrow> int" where
  "rfind_from c [] i r = r"
| "rfind_from c (x # xs) i r = rfind_from c xs (Suc i) (if x = c then int i else r)"

definition py_rfind :: "char \<Rightarrow> string \<Rightarrow> int" where
  "py_rfind c s = rfind_from c s 0 (-1)"

text \<open>\<open>basename\<close>: \<open>i = p.rfind(sep) + 1; return p[i:]\<close>.\<close>

definition basename :: "path \<Rightarrow> name" where
  "basename p = drop (nat (py_rfind CHR ''/'' p + 1)) p"

text \<open>\<open>join(a, b)\<close>: an absolute \<open>b\<close> replaces \<open>a\<close>; a separator is inserted unless
  \<open>a\<close> is empty or already ends with one.\<close>

definition path_join :: "path \<Rightarrow> name \<Rightarrow> path" where
  "path_join a b =
     (if starts_with ''/'' b then b
      else if a = [] \<or> last a = CHR ''/'' then a @ b
      else a @ ''/'' @ b)"

text \<open>
  \<open>splitext\<close> (\<open>genericpath._splitext(p, '/', None, '.')\<close>): the extension starts at the
  last dot if that dot lies in the last path component and some character other than a
  dot precedes it in that component (the \<open>while filenameIndex < dotIndex\<close> loop);
  otherwise the extension is empty.
\<close>

definition splitext :: "path \<Rightarrow> path \<times> string" where
  "splitext p =
     (let sepIndex = py_rfind CHR ''/'' p; dotIndex = py_rfind CHR ''.'' p in
      if dotIndex > sepIndex then
        (let fi = nat (sepIndex + 1); di = nat dotIndex in
         if \<not> list_all (\<lambda>c. c = CHR ''.'') (take (di - fi) (drop fi p))
         then (take di p, drop di p) else (p, []))
      else (p, []))"

declare py_rfind_def [model_simps] basename_def [model_simps]
  path_join_def [model_simps] splitext_def [model_simps]

subsection \<open>\<open>rfind\<close>\<close>

lemma rfind_from_notin: "c \<notin> set xs \<Longrightarrow> rfind_from c xs i r = r"
  by (induction xs arbitrary: i) auto

lemma rfind_from_append:
  "rfind_from c (xs @ ys) i r = rfind_from c ys (i + length xs) (rfind_from c xs i r)"
  by (induction xs arbitrary: i r) auto

lemma py_rfind_notin: "c \<notin> set s \<Longrightarrow> py_rfind c s = -1"
  by (simp add: py_rfind_def rfind_from_notin)

lemma py_rfind_last: "c \<notin> set ys \<Longrightarrow> py_rfind c (xs @ c # ys) = int (length xs)"
  by (simp add: py_rfind_def rfind_from_append rfind_from_notin)

lemma py_rfind_append_notin: "c \<notin> set ys \<Longrightarrow> py_rfind c (xs @ ys) = py_rfind c xs"
  by (simp add: py_rfind_def rfind_from_append rfind_from_notin)

lemma py_rfind_cases:
  obtains "c \<notin> set s" "py_rfind c s = -1"
  | xs ys where "s = xs @ c # ys" "c \<notin> set ys" "py_rfind c s = int (length xs)"
proof (cases "c \<in> set s")
  case True
  then obtain xs ys where "s = xs @ c # ys" "c \<notin> set ys"
    using split_list_last by metis
  then show ?thesis using that(2) py_rfind_last by blast
next
  case False
  then show ?thesis using that(1) py_rfind_notin by blast
qed

lemma py_rfind_less: "py_rfind c s < int (length s)"
  by (cases rule: py_rfind_cases [of c s]) auto

subsection \<open>A file name joined to a folder\<close>

text \<open>
  \<open>os.listdir\<close> yields names without a separator; joined to the folder path, such a name
  is the last path component again, after a prefix that is empty or ends with \<open>/\<close>.
\<close>

lemma path_join_split:
  assumes "CHR ''/'' \<notin> set item"
  obtains pre where "path_join d item = pre @ item" "pre = [] \<or> last pre = CHR ''/''"
proof -
  from assms have ns: "\<not> starts_with ''/'' item" by (cases item) auto
  show ?thesis
  proof (cases "d = [] \<or> last d = CHR ''/''")
    case True
    then show ?thesis using that [of d] ns by (simp add: path_join_def)
  next
    case False
    then show ?thesis using that [of "d @ ''/''"] ns by (simp add: path_join_def)
  qed
qed

lemma basename_prefix:
  assumes "CHR ''/'' \<notin> set item" and "pre = [] \<or> last pre = CHR ''/''"
  shows "basename (pre @ item) = item"
proof (cases "pre = []")
  case True
  with assms(1) show ?thesis by (simp add: basename_def py_rfind_notin)
next
  case False
  with assms(2) obtain pre' where "pre = pre' @ ''/''"
    by (metis append_butlast_last_id)
  with assms(1) show ?thesis
    by (simp add: basename_def py_rfind_last)
qed

lemma basename_path_join:
  "CHR ''/'' \<notin> set item \<Longrightarrow> basename (path_join d item) = item"
  by (metis path_join_split basename_prefix)

lemma splitext_prefix:
  assumes item: "CHR ''/'' \<notin> set item" and pre: "pre = [] \<or> last pre = CHR ''/''"
  shows "snd (splitext (pre @ item)) = snd (splitext item)"
proof (cases "pre = []")
  case True
  then show ?thesis by simp
next
  case False
  with pre obtain pre' where pre': "pre = pre' @ ''/''"
    by (metis append_butlast_last_id)
  have sep: "py_rfind CHR ''/'' (pre @ item) = int (length pre')"
    using item pre' py_rfind_last [of "CHR ''/''" item pre'] by simp
  have sep1: "py_rfind CHR ''/'' item = -1"
    using item by (rule py_rfind_notin)
  show ?thesis
  proof (cases rule: py_rfind_cases [of "CHR ''.''" item])
    case 1
    then have "py_rfind CHR ''.'' (pre @ item) = py_rfind CHR ''.'' pre'"
      using pre' py_rfind_append_notin [of "CHR ''.''" "''/'' @ item" pre'] by simp
    moreover have "py_rfind CHR ''.'' pre' < int (length pre')"
      by (rule py_rfind_less)
    ultimately show ?thesis
      using sep sep1 1 by (simp add: splitext_def Let_def)
  next
    case (2 a b)
    have e1: "py_rfind CHR ''.'' (pre' @ CHR ''/'' # a @ CHR ''.'' # b) =
        int (Suc (length pre' + length a))"
      using 2 py_rfind_last [of "CHR ''.''" b "pre' @ CHR ''/'' # a"] by simp
    have e2: "py_rfind CHR ''/'' (pre' @ CHR ''/'' # a @ CHR ''.'' # b) = int (length pre')"
      using sep 2 pre' by simp
    have e3: "py_rfind CHR ''/'' (a @ CHR ''.'' # b) = -1"
      using sep1 2 by simp
    have e4: "py_rfind CHR ''.'' (a @ CHR ''.'' # b) = int (length a)"
      using 2 by simp
    show ?thesis
      unfolding 2(1) pre'
      using e1 e2 e3 e4 by (simp del: of_nat_Suc add: splitext_def Let_def)
  qed
qed

end
