(* ===== verification/FileSystem.thy ===== *)
theory FileSystem
  imports OsPath
begin

text \<open>
  The part of the file system the transformer touches, and the library calls it makes on
  it: \<open>os.listdir\<close>, \<open>os.path.exists\<close>, \<open>os.mkdir\<close>, \<open>os.rename\<close> (POSIX \<open>rename(2)\<close>
  inside one folder), \<open>shutil.copy2\<close>, SimpleITK's \<open>ReadImage\<close>/\<open>WriteImage\<close> and the two
  \<open>open\<close> modes used on the progress log (\<open>'w'\<close> then \<open>truncate(0)\<close>, and \<open>'r+'\<close> then
  \<open>write\<close>). Each call returns the new state or the exception it raises.

  A folder is an association list from entry names to entries (the listing order of
  \<open>os.listdir\<close>); an entry is a file with its bytes or a directory with its own listing.
  The folders the run names (input, output) are looked up by path; the log files are kept
  apart, with their content and, as ghost state, the history of their modification
  times, read from a clock that every write advances.
\<close>

datatype node = File string | Dir "(name \<times> node) list"

record logfile =
  lcontent :: string
  mtimes :: "nat list"

record fs =
  folders :: "path \<Rightarrow> (name \<times> node) list option"
  logs :: "path \<Rightarrow> logfile option"
  clock :: nat

text \<open>SimpleITK, an external library, is a parameter: how it decodes a file's bytes into
  an image (\<open>None\<close>: \<open>ReadImage\<close> raises) and how it encodes an image for a destination
  name (the format follows the name's extension).\<close>

text \<open>A call that changes the file system returns the new state, or the exception together
  with the state in which it was raised: what the code did before the exception stays
  done, as in Python.\<close>

type_synonym 'a fs_result = "(py_error \<times> fs) + 'a"

record 'img image_io =
  img_read :: "string \<Rightarrow> 'img option"
  img_write :: "'img \<Rightarrow> name \<Rightarrow> string"

definition lookup_entry :: "fs \<Rightarrow> path \<Rightarrow> name \<Rightarrow> node option" where
  "lookup_entry fs d n = (case folders fs d of None \<Rightarrow> None | Some es \<Rightarrow> map_of es n)"

definition set_folder :: "path \<Rightarrow> (name \<times> node) list \<Rightarrow> fs \<Rightarrow> fs" where
  "set_folder d es fs = fs\<lparr>folders := (folders fs)(d \<mapsto> es)\<rparr>"

text \<open>Writing a file \<open>d/n\<close>: the folder must exist; the entry is created or replaced.\<close>

definition put_file :: "path \<Rightarrow> name \<Rightarrow> string \<Rightarrow> fs \<Rightarrow> fs fs_result" where
  "put_file d n c fs =
     (case folders fs d of
        None \<Rightarrow> Inl (FileNotFoundError (path_join d n), fs)
      | Some es \<Rightarrow> Inr (set_folder d (AList.update n (File c) es) fs))"

definition listdir :: "fs \<Rightarrow> path \<Rightarrow> name list fs_result" where
  "listdir fs d =
     (case folders fs d of None \<Rightarrow> Inl (FileNotFoundError d, fs) | Some es \<Rightarrow> Inr (keys es))"

definition path_exists :: "fs \<Rightarrow> path \<Rightarrow> bool" where
  "path_exists fs d \<longleftrightarrow> folders fs d \<noteq> None"

definition mkdir :: "path \<Rightarrow> fs \<Rightarrow> fs fs_result" where
  "mkdir d fs =
     (if folders fs d \<noteq> None then Inl (FileExistsError d, fs) else Inr (set_folder d [] fs))"

text \<open>\<open>sitk.ReadImage(join(d, n))\<close>: any failure (no such file, a directory, bytes the
  library cannot decode) raises.\<close>

definition read_image :: "'img image_io \<Rightarrow> fs \<Rightarrow> path \<Rightarrow> name \<Rightarrow> 'img fs_result" where
  "read_image io fs d n =
     (case lookup_entry fs d n of
        Some (File c) \<Rightarrow>
          (case img_read io c of
             None \<Rightarrow> Inl (ImageIOError (path_join d n), fs)
           | Some im \<Rightarrow> Inr im)
      | _ \<Rightarrow> Inl (ImageIOError (path_join d n), fs))"

definition write_image :: "'img image_io \<Rightarrow> 'img \<Rightarrow> path \<Rightarrow> name \<Rightarrow> fs \<Rightarrow> fs fs_result" where
  "write_image io im d n fs =
     (case lookup_entry fs d n of
        Some (Dir _) \<Rightarrow> Inl (ImageIOError (path_join d n), fs)
      | _ \<Rightarrow> (case put_file d n (img_write io im n) fs of
               Inl _ \<Rightarrow> Inl (ImageIOError (path_join d n), fs) | Inr fs' \<Rightarrow> Inr fs'))"

text \<open>
  \<open>shutil.copy2(join(sd, n), join(dd, n))\<close>: a destination that is a directory receives the
  file under its base name; \<open>copyfile\<close> raises \<open>SameFileError\<close> when source and destination
  are one file, and opening a missing or directory source raises. The copied metadata
  (\<open>copystat\<close>) is not modelled.
\<close>

definition copy2 :: "path \<Rightarrow> name \<Rightarrow> path \<Rightarrow> fs \<Rightarrow> fs fs_result" where
  "copy2 sd n dd fs =
     (case lookup_entry fs dd n of
        Some (Dir ch) \<Rightarrow>
          (case lookup_entry fs sd n of
             None \<Rightarrow> Inl (FileNotFoundError (path_join sd n), fs)
           | Some (Dir _) \<Rightarrow> Inl (IsADirectoryError (path_join sd n), fs)
           | Some (File c) \<Rightarrow>
               (case map_of ch n of
                  Some (Dir _) \<Rightarrow> Inl (IsADirectoryError (path_join (path_join dd n) n), fs)
                | _ \<Rightarrow> Inr (set_folder dd (AList.update n (Dir (AList.update n (File c) ch))
                                          (the (folders fs dd))) fs)))
      | _ \<Rightarrow>
          (if sd = dd then Inl (SameFileError (path_join sd n), fs)
           else case lookup_entry fs sd n of
             None \<Rightarrow> Inl (FileNotFoundError (path_join sd n), fs)
           | Some (Dir _) \<Rightarrow> Inl (IsADirectoryError (path_join sd n), fs)
           | Some (File c) \<Rightarrow> put_file dd n c fs))"

text \<open>
  \<open>os.rename(join(d, old), join(d, new))\<close>, POSIX semantics: renaming onto itself does
  nothing; an existing target is replaced when both are files or the target is an empty
  directory; a file onto a directory, a directory onto a file and a directory onto a
  non-empty directory fail. A target name that is not a plain entry name (empty, \<open>.\<close>,
  \<open>..\<close>, or containing \<open>/\<close>) is reported as an invalid argument: moving into a
  subfolder is not modelled.
\<close>

definition valid_name :: "name \<Rightarrow> bool" where
  "valid_name n \<longleftrightarrow> n \<noteq> [] \<and> CHR ''/'' \<notin> set n \<and> n \<noteq> ''.'' \<and> n \<noteq> ''..''"

text \<open>Well-formedness of a listing: \<open>os.listdir\<close> yields distinct plain entry names.\<close>

definition wf_listing :: "(name \<times> node) list \<Rightarrow> bool" where
  "wf_listing L \<longleftrightarrow> distinct (keys L) \<and> list_all valid_name (keys L)"

fun rename_check :: "node \<Rightarrow> node option \<Rightarrow> path \<Rightarrow> py_error option" where
  "rename_check _ None p = None"
| "rename_check (File _) (Some (File _)) p = None"
| "rename_check (File _) (Some (Dir _)) p = Some (IsADirectoryError p)"
| "rename_check (Dir _) (Some (File _)) p = Some (NotADirectoryError p)"
| "rename_check (Dir _) (Some (Dir ch)) p = (if ch = [] then None else Some (DirectoryNotEmpty p))"

definition rename_entry :: "path \<Rightarrow> name \<Rightarrow> name \<Rightarrow> fs \<Rightarrow> fs fs_result" where
  "rename_entry d old new fs =
     (case folders fs d of
        None \<Rightarrow> Inl (FileNotFoundError (path_join d old), fs)
      | Some es \<Rightarrow>
          (case map_of es old of
             None \<Rightarrow> Inl (FileNotFoundError (path_join d old), fs)
           | Some sn \<Rightarrow>
               if \<not> valid_name new then Inl (InvalidArgument (path_join d new), fs)
               else if new = old then Inr fs
               else (case rename_check sn (map_of es new) (path_join d new) of
                       Some e \<Rightarrow> Inl (e, fs)
                     | None \<Rightarrow> Inr (set_folder d (AList.update new sn (AList.delete old es)) fs))))"

subsection \<open>The progress log\<close>

text \<open>\<open>open(p, 'w')\<close> followed by \<open>truncate(0)\<close>: the file is created or emptied, and its
  modification time is set.\<close>

definition truncate_log :: "path \<Rightarrow> fs \<Rightarrow> fs fs_result" where
  "truncate_log p fs =
     (let hist = (case logs fs p of None \<Rightarrow> [] | Some l \<Rightarrow> mtimes l) in
      Inr (fs\<lparr>logs := (logs fs)(p \<mapsto> \<lparr>lcontent = [], mtimes = hist @ [clock fs]\<rparr>),
             clock := Suc (clock fs)\<rparr>))"

text \<open>\<open>open(p, 'r+')\<close> followed by \<open>write(s)\<close>: the file must exist; \<open>s\<close> overwrites the
  first \<open>len(s)\<close> characters (the position is the start of the file).\<close>

definition write_log :: "path \<Rightarrow> string \<Rightarrow> fs \<Rightarrow> fs fs_result" where
  "write_log p s fs =
     (case logs fs p of
        None \<Rightarrow> Inl (FileNotFoundError p, fs)
      | Some l \<Rightarrow>
          Inr (fs\<lparr>logs := (logs fs)(p \<mapsto> \<lparr>lcontent = s @ drop (length s) (lcontent l),
                                            mtimes = mtimes l @ [clock fs]\<rparr>),
                 clock := Suc (clock fs)\<rparr>))"

declare lookup_entry_def [model_simps] set_folder_def [model_simps] put_file_def [model_simps]
  listdir_def [model_simps] path_exists_def [model_simps] mkdir_def [model_simps]
  read_image_def [model_simps] write_image_def [model_simps] copy2_def [model_simps]
  valid_name_def [model_simps] rename_entry_def [model_simps] truncate_log_def [model_simps]
  write_log_def [model_simps]

subsection \<open>Frame facts\<close>

lemma folders_set_folder [simp]:
  "folders (set_folder d es fs) d' = (if d' = d then Some es else folders fs d')"
  by (simp add: set_folder_def)

lemma logs_set_folder [simp]: "logs (set_folder d es fs) = logs fs"
  by (simp add: set_folder_def)

lemma clock_set_folder [simp]: "clock (set_folder d es fs) = clock fs"
  by (simp add: set_folder_def)

lemma set_folder_same [simp]: "folders fs d = Some es \<Longrightarrow> set_folder d es fs = fs"
  by (simp add: set_folder_def map_upd_triv)

lemma set_folder_twice [simp]: "set_folder d es (set_folder d es' fs) = set_folder d es fs"
  by (simp add: set_folder_def)

lemma folders_update_same [simp]:
  "folders fs d = Some es \<Longrightarrow> fs\<lparr>folders := (folders fs)(d \<mapsto> es)\<rparr> = fs"
  by (simp add: map_upd_triv)

end
