(* ===== verification/Extension.thy ===== *)
theory Extension
  imports OsPath
begin

text \<open>
  \<open>get_file_extension\<close> of \<open>replaceAll_WSL.py\<close> and the test of the copy loop that
  chooses, from the extension, between an image conversion, a plain copy and nothing.
  The main facts: the extension of a listed entry does not depend on the folder it is
  joined to, and it equals a short reference description (everything from the first
  dot, unless the only dot starts the name).
\<close>

definition get_file_extension :: "path \<Rightarrow> string" where
  "get_file_extension source_path =
     (let name = basename source_path in
      if py_count ''.'' name > 1
      then ''.'' @ py_join ''.'' (tl (split_scan ''.'' [] name))
      else snd (splitext source_path))"

datatype copy_action = ConvertImage | CopyFile | Skip

definition classify_extension :: "string \<Rightarrow> copy_action" where
  "classify_extension ext =
     (if ext = ''.nii'' \<or> ext = ''.nii.gz'' then ConvertImage
      else if ext = ''.vtk'' then CopyFile
      else Skip)"

declare get_file_extension_def [model_simps] classify_extension_def [model_simps]

text \<open>The reference description of the extension of a name without a separator.\<close>

definition ext_spec :: "name \<Rightarrow> string" where
  "ext_spec name =
     (if CHR ''.'' \<in> set name \<and> (count_list name CHR ''.'' > 1 \<or> hd name \<noteq> CHR ''.'')
      then dropWhile (\<lambda>c. c \<noteq> CHR ''.'') name else [])"

lemma py_split_dot: "py_split ''.'' s = Inr (split_scan ''.'' [] s)"
  by (simp add: py_split_def)

lemma split_scan_char_first:
  "d \<notin> set xs \<Longrightarrow> split_scan [d] acc (xs @ d # ys) = (acc @ xs) # split_scan [d] [] ys"
proof (induction xs arbitrary: acc)
  case Nil
  then show ?case by simp
next
  case (Cons x xs)
  then have "split_scan [d] acc ((x # xs) @ d # ys) = split_scan [d] (acc @ [x]) (xs @ d # ys)"
    by simp
  with Cons show ?case by simp
qed

lemma join_split_scan: "py_join sep (split_scan sep [] s) = s"
  using replace_scan_split_scan [of "[]" sep sep s] replace_scan_same [of sep sep s] by simp

lemma basename_no_sep: "CHR ''/'' \<notin> set name \<Longrightarrow> basename name = name"
  using basename_prefix [of name "[]"] by simp

lemma ext_multi_dot:
  assumes "CHR ''.'' \<notin> set xs"
  shows "''.'' @ py_join ''.'' (tl (split_scan ''.'' [] (xs @ CHR ''.'' # ys))) = CHR ''.'' # ys"
  using split_scan_char_first [OF assms, of "[]" ys] join_split_scan [of "''.''" ys] by simp

lemma splitext_one_dot:
  assumes "CHR ''/'' \<notin> set a" "CHR ''/'' \<notin> set b" "CHR ''.'' \<notin> set a" "CHR ''.'' \<notin> set b"
  shows "snd (splitext (a @ CHR ''.'' # b)) = (if a = [] then [] else CHR ''.'' # b)"
proof -
  have "py_rfind CHR ''.'' (a @ CHR ''.'' # b) = int (length a)"
    using assms(4) by (rule py_rfind_last)
  moreover have "py_rfind CHR ''/'' (a @ CHR ''.'' # b) = -1"
    using assms(1,2) by (simp add: py_rfind_notin)
  moreover have "list_all (\<lambda>c. c = CHR ''.'') a \<longleftrightarrow> a = []"
    using assms(3) by (cases a) auto
  ultimately show ?thesis by (simp add: splitext_def Let_def)
qed

lemma dropWhile_first:
  "d \<notin> set xs \<Longrightarrow> dropWhile (\<lambda>c. c \<noteq> d) (xs @ d # ys) = d # ys"
  by (induction xs) auto

lemma get_file_extension_name:
  assumes "CHR ''/'' \<notin> set name"
  shows "get_file_extension name = ext_spec name"
proof (cases "CHR ''.'' \<in> set name")
  case False
  then have "count_list name CHR ''.'' = 0" by (simp add: count_list_0_iff)
  with False assms show ?thesis
    by (simp add: get_file_extension_def ext_spec_def basename_no_sep py_count_char
        splitext_def py_rfind_notin)
next
  case True
  then obtain xs ys where name: "name = xs @ CHR ''.'' # ys" and xs: "CHR ''.'' \<notin> set xs"
    by (meson split_list_first)
  have dw: "dropWhile (\<lambda>c. c \<noteq> CHR ''.'') name = CHR ''.'' # ys"
    using name xs by (simp add: dropWhile_first)
  have cnt: "count_list name CHR ''.'' = Suc (count_list ys CHR ''.'')"
    using name xs by (simp add: count_list_0_iff)
  show ?thesis
  proof (cases "count_list name CHR ''.'' > 1")
    case True
    then show ?thesis
      using assms name ext_multi_dot [OF xs, of ys] dw
      by (simp add: get_file_extension_def ext_spec_def basename_no_sep py_count_char)
  next
    case False
    with cnt have ys: "CHR ''.'' \<notin> set ys" by (simp add: count_list_0_iff)
    have "snd (splitext name) = (if xs = [] then [] else CHR ''.'' # ys)"
      using name assms xs ys by (simp add: splitext_one_dot)
    moreover have "hd name \<noteq> CHR ''.'' \<longleftrightarrow> xs \<noteq> []"
      using name xs by (cases xs) auto
    ultimately show ?thesis
      using False name dw assms by (simp add: get_file_extension_def ext_spec_def
          basename_no_sep py_count_char)
  qed
qed

lemma ext_of_listed:
  "CHR ''/'' \<notin> set item \<Longrightarrow> get_file_extension (path_join d item) = ext_spec item"
proof -
  assume item: "CHR ''/'' \<notin> set item"
  then obtain pre where j: "path_join d item = pre @ item" and pre: "pre = [] \<or> last pre = CHR ''/''"
    by (rule path_join_split)
  have "basename (path_join d item) = item"
    using item by (rule basename_path_join)
  moreover have "snd (splitext (path_join d item)) = snd (splitext item)"
    using j splitext_prefix [OF item pre] by simp
  ultimately have "get_file_extension (path_join d item) = get_file_extension item"
    using item by (simp add: get_file_extension_def basename_no_sep)
  with item show ?thesis by (simp add: get_file_extension_name)
qed

text \<open>
  C16: the extension \<open>get_file_extension\<close> computes for an entry listed by
  \<open>os.listdir\<close> (a name without \<open>/\<close>), joined to any folder, is the reference
  extension of the name alone: everything from the first dot when the name has a dot and
  either has several dots or does not start with its only dot, and the empty string
  otherwise.
\<close>

theorem get_file_extension_listed:
  "CHR ''/'' \<notin> set item \<Longrightarrow> get_file_extension (path_join d item) = ext_spec item"
  by (rule ext_of_listed)

theorem get_file_extension_listed_witness:
  "CHR ''/'' \<notin> set ''scan.nii.gz'' \<and>
   get_file_extension (path_join ''/data/in'' ''scan.nii.gz'') = ''.nii.gz''"
proof -
  have h: "CHR ''/'' \<notin> set ''scan.nii.gz''" by simp
  show ?thesis
    using h get_file_extension_listed [OF h, of "''/data/in''"] by (simp add: ext_spec_def)
qed

end
