(* ===== verification/BatchTransform.thy ===== *)
theory BatchTransform
  imports FileSystem Extension
begin

text \<open>
  \<open>src/replaceAll/replaceAll_utils/replaceAll_WSL.py\<close>, function \<open>main\<close>: truncate the
  progress log; unless \<open>overwrite\<close> is the string \<open>"False"\<close> skip to the renaming; else, for
  every entry of the input folder, create the output folder if it is missing, convert
  \<open>.nii\<close>/\<open>.nii.gz\<close> images through SimpleITK, copy \<open>.vtk\<close> files, skip anything else,
  and write the loop index into the log; finally rename every entry of the output folder
  whose name contains \<open>replace\<close>. The arguments are the six positional strings of the
  command line (\<open>argparse\<close>, lines 62--73).
\<close>

record args =
  input_folder :: path
  replace :: string
  by_str :: string
  output_folder :: path
  overwrite :: string
  log_path :: path

text \<open>One iteration of the copy loop (lines 34--51).\<close>

definition copy_item :: "'img image_io \<Rightarrow> args \<Rightarrow> nat \<Rightarrow> name \<Rightarrow> fs \<Rightarrow> fs fs_result" where
  "copy_item io a index item fs =
     (let source_path = path_join (input_folder a) item in
      sbind (if path_exists fs (output_folder a) then Inr fs else mkdir (output_folder a) fs)
        (\<lambda>fs1. let file_extension = get_file_extension source_path in
           sbind (case classify_extension file_extension of
                    ConvertImage \<Rightarrow>
                      sbind (read_image io fs1 (input_folder a) item)
                        (\<lambda>image. write_image io image (output_folder a) item fs1)
                  | CopyFile \<Rightarrow> copy2 (input_folder a) item (output_folder a) fs1
                  | Skip \<Rightarrow> Inr fs1)
             (\<lambda>fs2. write_log (log_path a) (py_str_nat index) fs2)))"

text \<open>The loop itself. The source increments \<open>index\<close> after the loop (line 53 is
  indented at the level of the \<open>for\<close>), so every iteration writes the same index.\<close>

fun copy_loop :: "'img image_io \<Rightarrow> args \<Rightarrow> nat \<Rightarrow> name list \<Rightarrow> fs \<Rightarrow> fs fs_result" where
  "copy_loop io a index [] fs = Inr fs"
| "copy_loop io a index (item # items) fs =
     sbind (copy_item io a index item fs) (copy_loop io a index items)"

text \<open>One iteration of the rename loop (lines 56--59).\<close>

definition rename_item :: "args \<Rightarrow> name \<Rightarrow> fs \<Rightarrow> fs fs_result" where
  "rename_item a item fs =
     (if py_contains (replace a) item
      then (let new_name = py_replace (replace a) (by_str a) item in
            rename_entry (output_folder a) item new_name fs)
      else Inr fs)"

fun rename_loop :: "args \<Rightarrow> name list \<Rightarrow> fs \<Rightarrow> fs fs_result" where
  "rename_loop a [] fs = Inr fs"
| "rename_loop a (item # items) fs = sbind (rename_item a item fs) (rename_loop a items)"

definition main :: "'img image_io \<Rightarrow> args \<Rightarrow> fs \<Rightarrow> fs fs_result" where
  "main io a fs =
     sbind (truncate_log (log_path a) fs)
       (\<lambda>fs1. let index = 0 in
          sbind (if overwrite a = ''False''
                 then sbind (listdir fs1 (input_folder a)) (\<lambda>items. copy_loop io a index items fs1)
                 else Inr fs1)
            (\<lambda>fs2. sbind (listdir fs2 (output_folder a)) (\<lambda>items. rename_loop a items fs2)))"

text \<open>The scenario of the specification, and an image library that decodes a file to its
  bytes and encodes an image as its bytes.\<close>

definition scenario_fs :: fs where
  "scenario_fs =
     \<lparr>folders = [''/in'' \<mapsto> [(''scan.nii'', File ''S''), (''mesh.vtk'', File ''M''),
                              (''notes.txt'', File ''N'')]],
      logs = Map.empty, clock = 0\<rparr>"

definition scenario_args :: args where
  "scenario_args =
     \<lparr>input_folder = ''/in'', replace = ''scan'', by_str = ''study'', output_folder = ''/out'',
      overwrite = ''False'', log_path = ''/tmp/process.log''\<rparr>"

definition identity_io :: "string image_io" where
  "identity_io = \<lparr>img_read = Some, img_write = (\<lambda>im n. im)\<rparr>"

text \<open>
  The reference description of the copy pass: what an entry of the input folder
  contributes to the output folder (the converted image, the copied file, or nothing),
  when the conversion can succeed; the log after writes; and the name the rename pass
  gives to an entry.
\<close>

fun entry_copyable :: "'img image_io \<Rightarrow> name \<Rightarrow> node \<Rightarrow> bool" where
  "entry_copyable io n (File c) =
     (classify_extension (ext_spec n) = ConvertImage \<longrightarrow> img_read io c \<noteq> None)"
| "entry_copyable io n (Dir _) = (classify_extension (ext_spec n) = Skip)"

fun copied_entry :: "'img image_io \<Rightarrow> name \<Rightarrow> node \<Rightarrow> (name \<times> node) list" where
  "copied_entry io n (File c) =
     (case classify_extension (ext_spec n) of
        ConvertImage \<Rightarrow> (case img_read io c of Some im \<Rightarrow> [(n, File (img_write io im n))] | None \<Rightarrow> [])
      | CopyFile \<Rightarrow> [(n, File c)]
      | Skip \<Rightarrow> [])"
| "copied_entry io n (Dir _) = []"

definition expected_copy :: "'img image_io \<Rightarrow> (name \<times> node) list \<Rightarrow> (name \<times> node) list" where
  "expected_copy io es = concat (map (\<lambda>(n, v). copied_entry io n v) es)"

definition log_written :: "logfile \<Rightarrow> string \<Rightarrow> nat \<Rightarrow> logfile" where
  "log_written l s t = \<lparr>lcontent = s @ drop (length s) (lcontent l), mtimes = mtimes l @ [t]\<rparr>"

definition log_after :: "logfile \<Rightarrow> string \<Rightarrow> nat \<Rightarrow> nat \<Rightarrow> logfile" where
  "log_after l s t k =
     (if k = 0 then l
      else \<lparr>lcontent = s @ drop (length s) (lcontent l), mtimes = mtimes l @ [t..<t + k]\<rparr>)"

definition rename_target :: "args \<Rightarrow> name \<Rightarrow> name" where
  "rename_target a n = (if py_contains (replace a) n then py_replace (replace a) (by_str a) n else n)"

definition renamed :: "(name \<Rightarrow> name) \<Rightarrow> name set \<Rightarrow> (name \<times> node) set \<Rightarrow> (name \<times> node) set" where
  "renamed rn N S = (\<lambda>(k, v). (if k \<in> N then rn k else k, v)) ` S"

definition clean_renaming :: "args \<Rightarrow> name list \<Rightarrow> bool" where
  "clean_renaming a ns \<longleftrightarrow>
     list_all (\<lambda>n. rename_target a n \<noteq> n \<longrightarrow>
                   valid_name (rename_target a n) \<and> rename_target a n \<notin> set ns) ns
     \<and> distinct (map (rename_target a) ns)"

text \<open>The modification times of a log so far (none when it does not exist).\<close>

definition log_hist :: "fs \<Rightarrow> path \<Rightarrow> nat list" where
  "log_hist fs p = (case logs fs p of None \<Rightarrow> [] | Some l \<Rightarrow> mtimes l)"

declare copy_item_def [model_simps] rename_item_def [model_simps] main_def [model_simps]

subsection \<open>The copy pass\<close>

lemma truncate_log_hist:
  "truncate_log p fs =
     Inr (fs\<lparr>logs := (logs fs)(p \<mapsto> \<lparr>lcontent = [], mtimes = log_hist fs p @ [clock fs]\<rparr>),
            clock := Suc (clock fs)\<rparr>)"
  by (simp add: truncate_log_def log_hist_def)

lemma copy_loop_append:
  "copy_loop io a i (xs @ ys) fs = sbind (copy_loop io a i xs fs) (copy_loop io a i ys)"
proof (induction xs arbitrary: fs)
  case (Cons x xs)
  have "copy_loop io a i (xs @ ys) = (\<lambda>fs. sbind (copy_loop io a i xs fs) (copy_loop io a i ys))"
    using Cons.IH by (rule ext)
  then show ?case by (simp add: sbind_assoc)
qed simp

lemma write_log_Some:
  "logs fs p = Some l \<Longrightarrow>
   write_log p s fs = Inr (fs\<lparr>logs := (logs fs)(p \<mapsto> log_written l s (clock fs)), clock := Suc (clock fs)\<rparr>)"
  by (simp add: write_log_def log_written_def)

lemma copy_item_step:
  assumes io: "input_folder a \<noteq> output_folder a"
    and fin: "folders fs (input_folder a) = Some es" and ent: "map_of es n = Some v"
    and fout: "folders fs (output_folder a) = Some acc" and fresh: "n \<notin> set (keys acc)"
    and slash: "CHR ''/'' \<notin> set n" and ok: "entry_copyable io n v"
    and lg: "logs fs (log_path a) = Some l"
  shows "copy_item io a idx n fs =
    Inr (fs\<lparr>folders := (folders fs)(output_folder a \<mapsto> acc @ copied_entry io n v),
           logs := (logs fs)(log_path a \<mapsto> log_written l (py_str_nat idx) (clock fs)),
           clock := Suc (clock fs)\<rparr>)"
proof -
  have ext: "get_file_extension (path_join (input_folder a) n) = ext_spec n"
    using slash by (rule ext_of_listed)
  have none: "map_of acc n = None"
    using fresh by (simp add: map_of_None_keys)
  have upd: "\<And>x. AList.update n x acc = acc @ [(n, x)]"
    using fresh by (rule update_absent_append)
  show ?thesis
  proof (cases v)
    case (File c)
    show ?thesis
    proof (cases "classify_extension (ext_spec n)")
      case ConvertImage
      with ok File obtain im where im: "img_read io c = Some im" by auto
      show ?thesis
        using io fin ent fout none lg File ConvertImage im ext
        by (simp add: copy_item_def path_exists_def read_image_def write_image_def
            lookup_entry_def put_file_def set_folder_def write_log_Some upd)
    next
      case CopyFile
      show ?thesis
        using io fin ent fout none lg File CopyFile ext
        by (simp add: copy_item_def path_exists_def copy2_def
            lookup_entry_def put_file_def set_folder_def write_log_Some upd)
    next
      case Skip
      show ?thesis
        using fout lg File Skip ext
        by (simp add: copy_item_def path_exists_def write_log_Some)
    qed
  next
    case (Dir ch)
    with ok have "classify_extension (ext_spec n) = Skip" by simp
    then show ?thesis
      using fout lg Dir ext
      by (simp add: copy_item_def path_exists_def write_log_Some)
  qed
qed

lemma log_after_written:
  "log_after (log_written l s t) s (Suc t) k = log_after l s t (Suc k)"
proof -
  have "[t..<Suc (t + k)] = t # [Suc t..<Suc (t + k)]"
    by (rule upt_conv_Cons) simp
  then show ?thesis
    by (simp del: upt_Suc add: log_after_def log_written_def)
qed

lemma keys_copied_entry: "set (keys (copied_entry io n v)) \<subseteq> {n}"
  by (cases v) (auto split: copy_action.splits option.splits)

lemma expected_copy_Cons [simp]:
  "expected_copy io ((n, v) # ps) = copied_entry io n v @ expected_copy io ps"
  by (simp add: expected_copy_def)

lemma expected_copy_Nil [simp]: "expected_copy io [] = []"
  by (simp add: expected_copy_def)

lemma copy_loop_spec:
  assumes io: "input_folder a \<noteq> output_folder a"
    and fin: "folders fs (input_folder a) = Some es" and dk: "distinct (keys es)"
    and sub: "set ps \<subseteq> set es" and dps: "distinct (keys ps)"
    and fout: "folders fs (output_folder a) = Some acc"
    and disj: "set (keys ps) \<inter> set (keys acc) = {}"
    and slash: "\<forall>n \<in> set (keys ps). CHR ''/'' \<notin> set n"
    and ok: "\<forall>(n, v) \<in> set ps. entry_copyable io n v"
    and lg: "logs fs (log_path a) = Some l"
  shows "copy_loop io a idx (keys ps) fs =
    Inr (fs\<lparr>folders := (folders fs)(output_folder a \<mapsto> acc @ expected_copy io ps),
           logs := (logs fs)(log_path a \<mapsto> log_after l (py_str_nat idx) (clock fs) (length ps)),
           clock := clock fs + length ps\<rparr>)"
  using fin sub dps fout disj slash ok lg
proof (induction ps arbitrary: fs acc l)
  case Nil
  then have "(folders fs)(output_folder a \<mapsto> acc) = folders fs"
    and "(logs fs)(log_path a \<mapsto> l) = logs fs"
    by (simp_all add: map_upd_triv)
  then show ?case by (simp add: log_after_def)
next
  case (Cons p ps)
  obtain n v where p: "p = (n, v)" by (cases p)
  have ent: "map_of es n = Some v"
    using Cons.prems(2) dk p by (simp add: map_of_is_SomeI)
  have fresh: "n \<notin> set (keys acc)"
    using Cons.prems(5) p by auto
  let ?fs1 = "fs\<lparr>folders := (folders fs)(output_folder a \<mapsto> acc @ copied_entry io n v),
                 logs := (logs fs)(log_path a \<mapsto> log_written l (py_str_nat idx) (clock fs)),
                 clock := Suc (clock fs)\<rparr>"
  have step: "copy_item io a idx n fs = Inr ?fs1"
  proof -
    have sl: "CHR ''/'' \<notin> set n" using Cons.prems(6) p by simp
    have okn: "entry_copyable io n v" using Cons.prems(7) p by simp
    show ?thesis by (rule copy_item_step [OF io Cons.prems(1) ent Cons.prems(4) fresh sl okn Cons.prems(8)])
  qed
  have disj1: "set (keys ps) \<inter> set (keys (acc @ copied_entry io n v)) = {}"
    using Cons.prems(3,5) p keys_copied_entry [of io n v] by auto
  have f1: "folders ?fs1 (input_folder a) = Some es"
    using Cons.prems(1) io by simp
  have o1: "folders ?fs1 (output_folder a) = Some (acc @ copied_entry io n v)"
    by simp
  have l1: "logs ?fs1 (log_path a) = Some (log_written l (py_str_nat idx) (clock fs))"
    by simp
  have s1: "set ps \<subseteq> set es" and d1: "distinct (keys ps)"
    and sl1: "\<forall>n \<in> set (keys ps). CHR ''/'' \<notin> set n"
    and ok1: "\<forall>(n, v) \<in> set ps. entry_copyable io n v"
    using Cons.prems(2,3,6,7) by auto
  note rest = Cons.IH [OF f1 s1 d1 o1 disj1 sl1 ok1 l1]
  show ?case
    using step rest p by (simp add: log_after_written fun_eq_iff)
qed

text \<open>The output folder is created by the first iteration, before anything else happens.\<close>

lemma copy_item_mkdir:
  "folders fs (output_folder a) = None \<Longrightarrow>
   copy_item io a idx n fs = copy_item io a idx n (set_folder (output_folder a) [] fs)"
  by (simp add: copy_item_def path_exists_def mkdir_def)

lemma copy_loop_mkdir:
  "folders fs (output_folder a) = None \<Longrightarrow> ns \<noteq> [] \<Longrightarrow>
   copy_loop io a idx ns fs = copy_loop io a idx ns (set_folder (output_folder a) [] fs)"
  by (cases ns) (simp_all add: copy_item_mkdir)

lemma keys_expected_copy: "set (keys (expected_copy io es)) \<subseteq> set (keys es)"
proof (induction es)
  case Nil
  then show ?case by simp
next
  case (Cons p es)
  obtain n v where p: "p = (n, v)" by (cases p)
  have "set (keys (copied_entry io n v)) \<subseteq> {n}" by (rule keys_copied_entry)
  with Cons.IH p show ?case by auto
qed

lemma distinct_expected_copy:
  "distinct (keys es) \<Longrightarrow> distinct (keys (expected_copy io es))"
proof (induction es)
  case Nil
  then show ?case by simp
next
  case (Cons p es)
  obtain n v where p: "p = (n, v)" by (cases p)
  have "n \<notin> set (keys es)" using Cons.prems p by simp
  then have "set (keys (copied_entry io n v)) \<inter> set (keys (expected_copy io es)) = {}"
    using keys_copied_entry [of io n v] keys_expected_copy [of io es] by blast
  moreover have "distinct (keys (copied_entry io n v))"
    by (cases v) (auto split: copy_action.splits option.splits)
  ultimately show ?case using Cons p by auto
qed

lemma wf_expected_copy:
  assumes "wf_listing es" shows "wf_listing (expected_copy io es)"
proof -
  from assms have d: "distinct (keys es)" and v: "\<forall>k \<in> set (keys es). valid_name k"
    by (simp_all add: wf_listing_def list_all_iff)
  have "\<forall>k \<in> set (keys (expected_copy io es)). valid_name k"
    using v keys_expected_copy [of io es] by blast
  then show ?thesis
    using distinct_expected_copy [OF d] unfolding wf_listing_def list_all_iff by blast
qed

text \<open>An image the library cannot read aborts the iteration before anything is written.\<close>

lemma copy_item_read_fail:
  assumes "folders fs (input_folder a) = Some es" "map_of es n = Some (File c)"
    and "folders fs (output_folder a) = Some acc" "CHR ''/'' \<notin> set n"
    and "classify_extension (ext_spec n) = ConvertImage" "img_read io c = None"
  shows "copy_item io a idx n fs = Inl (ImageIOError (path_join (input_folder a) n), fs)"
  using assms ext_of_listed [OF assms(4), of "input_folder a"]
  by (simp add: copy_item_def path_exists_def read_image_def lookup_entry_def)

subsection \<open>The rename pass\<close>

lemma rename_item_same:
  assumes "folders fs (output_folder a) = Some L" "wf_listing L" "x \<in> set (keys L)"
    and "rename_target a x = x"
  shows "rename_item a x fs = Inr fs"
proof -
  from assms(1,3) obtain v where "map_of L x = Some v"
    by (metis map_of_None_keys not_Some_eq)
  moreover have "valid_name x" using assms(2,3) by (force simp: wf_listing_def list_all_iff)
  ultimately show ?thesis using assms(1,4)
    by (auto simp: rename_item_def rename_target_def rename_entry_def Let_def)
qed

lemma rename_item_move:
  assumes "folders fs (output_folder a) = Some L" "map_of L x = Some v"
    and "rename_target a x \<noteq> x" "valid_name (rename_target a x)"
    and "rename_target a x \<notin> set (keys L)"
  shows "rename_item a x fs =
    Inr (set_folder (output_folder a) (AList.update (rename_target a x) v (AList.delete x L)) fs)"
proof -
  have c: "py_contains (replace a) x"
    using assms(3) unfolding rename_target_def by (auto split: if_splits)
  have "map_of L (rename_target a x) = None" using assms(5) by (simp add: map_of_None_keys)
  with assms c show ?thesis
    by (simp add: rename_item_def rename_target_def rename_entry_def Let_def)
qed

lemma renamed_empty [simp]: "renamed rn {} S = S"
  by (simp add: renamed_def case_prod_unfold)

lemma renamed_insert_fixed: "rn x = x \<Longrightarrow> renamed rn (insert x N) S = renamed rn N S"
  unfolding renamed_def by (rule image_cong) auto

lemma renamed_move:
  assumes "(x, v) \<in> S" "\<forall>w. (x, w) \<in> S \<longrightarrow> w = v" "x \<notin> N" "rn x \<notin> N"
  shows "renamed rn N (insert (rn x, v) (S - {(x, v)})) = renamed rn (insert x N) S"
proof -
  have rest: "renamed rn (insert x N) (S - {(x, v)}) = renamed rn N (S - {(x, v)})"
    unfolding renamed_def
  proof (rule image_cong [OF refl])
    fix z assume z: "z \<in> S - {(x, v)}"
    obtain k w where kw: "z = (k, w)" by (cases z)
    with z assms(2) have "k \<noteq> x" by auto
    with kw show "(case z of (k, v) \<Rightarrow> (if k \<in> insert x N then rn k else k, v)) =
                  (case z of (k, v) \<Rightarrow> (if k \<in> N then rn k else k, v))" by simp
  qed
  have "renamed rn (insert x N) (insert (x, v) (S - {(x, v)})) =
        insert (rn x, v) (renamed rn (insert x N) (S - {(x, v)}))"
    unfolding renamed_def image_insert by simp
  then have "renamed rn (insert x N) S = insert (rn x, v) (renamed rn N (S - {(x, v)}))"
    using rest insert_Diff [OF assms(1)] by simp
  moreover have "renamed rn N (insert (rn x, v) (S - {(x, v)})) =
                 insert (rn x, v) (renamed rn N (S - {(x, v)}))"
    using assms(4) by (simp add: renamed_def)
  ultimately show ?thesis by simp
qed

lemma wf_listing_move:
  assumes "wf_listing L" "valid_name y"
  shows "wf_listing (AList.update y v (AList.delete x L))"
  using assms by (auto simp: wf_listing_def list_all_iff distinct_update distinct_delete)

lemma rename_loop_spec:
  assumes "folders fs (output_folder a) = Some L" "wf_listing L"
    and "set ns \<subseteq> set (keys L)" "distinct ns"
    and "\<forall>n \<in> set ns. rename_target a n \<noteq> n \<longrightarrow>
           valid_name (rename_target a n) \<and> rename_target a n \<notin> set (keys L)"
    and "inj_on (rename_target a) (set ns)"
  shows "\<exists>L'. rename_loop a ns fs = Inr (set_folder (output_folder a) L' fs) \<and>
           wf_listing L' \<and> set L' = renamed (rename_target a) (set ns) (set L)"
  using assms
proof (induction ns arbitrary: fs L)
  case Nil
  then show ?case by (intro exI [of _ L]) simp
next
  case (Cons x ns)
  let ?rn = "rename_target a"
  from Cons.prems(3) obtain v where v: "map_of L x = Some v"
    by (metis list.set_intros(1) map_of_None_keys not_Some_eq subset_iff)
  have dk: "distinct (keys L)" using Cons.prems(2) by (simp add: wf_listing_def)
  have xv: "(x, v) \<in> set L" using v by (rule map_of_SomeD)
  have uniq: "\<forall>w. (x, w) \<in> set L \<longrightarrow> w = v"
    using dk v by (metis map_of_is_SomeI option.inject)
  have xns: "x \<notin> set ns" using Cons.prems(4) by simp
  show ?case
  proof (cases "?rn x = x")
    case True
    have step: "rename_item a x fs = Inr fs"
      using Cons.prems(1,2,3) True by (intro rename_item_same) auto
    have "\<exists>L'. rename_loop a ns fs = Inr (set_folder (output_folder a) L' fs) \<and>
           wf_listing L' \<and> set L' = renamed ?rn (set ns) (set L)"
      using Cons.prems by (intro Cons.IH) (auto intro: inj_on_subset)
    then show ?thesis
      using step True by (simp add: renamed_insert_fixed)
  next
    case False
    let ?L1 = "AList.update (?rn x) v (AList.delete x L)"
    have valid: "valid_name (?rn x)" and fresh: "?rn x \<notin> set (keys L)"
      using Cons.prems(5) False by auto
    have step: "rename_item a x fs = Inr (set_folder (output_folder a) ?L1 fs)"
      using Cons.prems(1) v False valid fresh by (rule rename_item_move)
    have inj: "\<forall>n \<in> set ns. ?rn n \<noteq> ?rn x"
      using Cons.prems(6) xns by (auto simp: inj_on_def)
    have "\<exists>L'. rename_loop a ns (set_folder (output_folder a) ?L1 fs) =
             Inr (set_folder (output_folder a) L' (set_folder (output_folder a) ?L1 fs)) \<and>
           wf_listing L' \<and> set L' = renamed ?rn (set ns) (set ?L1)"
    proof (rule Cons.IH)
      show "folders (set_folder (output_folder a) ?L1 fs) (output_folder a) = Some ?L1"
        by simp
      show "wf_listing ?L1" using Cons.prems(2) valid by (rule wf_listing_move)
      show "set ns \<subseteq> set (keys ?L1)" using Cons.prems(3) xns by auto
      show "distinct ns" using Cons.prems(4) by simp
      show "\<forall>n \<in> set ns. ?rn n \<noteq> n \<longrightarrow> valid_name (?rn n) \<and> ?rn n \<notin> set (keys ?L1)"
        using Cons.prems(5) inj by auto
      show "inj_on ?rn (set ns)" using Cons.prems(6) by (auto intro: inj_on_subset)
    qed
    then obtain L' where run: "rename_loop a ns (set_folder (output_folder a) ?L1 fs) =
             Inr (set_folder (output_folder a) L' fs)"
        and wf': "wf_listing L'" and set': "set L' = renamed ?rn (set ns) (set ?L1)"
      by auto
    have d1: "set (AList.delete x L) = set L - {(x, v)}"
      using dk v by (rule set_delete_distinct)
    have "?rn x \<notin> set (keys (AList.delete x L))"
      using fresh by simp
    then have "set ?L1 = insert (?rn x, v) (set (AList.delete x L))"
      by (rule set_update_absent)
    with d1 have L1: "set ?L1 = insert (?rn x, v) (set L - {(x, v)})"
      by simp
    have rnx: "?rn x \<notin> set ns" using fresh Cons.prems(3) by auto
    have "set L' = renamed ?rn (set ns) (insert (?rn x, v) (set L - {(x, v)}))"
      using set' L1 by simp
    also have "\<dots> = renamed ?rn (insert x (set ns)) (set L)"
      by (rule renamed_move [where rn = "rename_target a", OF xv uniq xns rnx])
    finally have "set L' = renamed ?rn (insert x (set ns)) (set L)" .
    then show ?thesis using step run wf' by auto
  qed
qed

lemma renamed_all: "renamed rn (fst ` S) S = (\<lambda>(k, v). (rn k, v)) ` S"
  unfolding renamed_def by (rule image_cong [OF refl]) force

lemma clean_renaming_D:
  assumes "clean_renaming a ns" "distinct ns"
  shows "\<forall>n \<in> set ns. rename_target a n \<noteq> n \<longrightarrow>
           valid_name (rename_target a n) \<and> rename_target a n \<notin> set ns"
    and "inj_on (rename_target a) (set ns)"
  using assms by (auto simp: clean_renaming_def list_all_iff distinct_map)


end
