(* ===== verification/MainRun.thy ===== *)
theory MainRun
  imports BatchTransform
begin

text \<open>
  Properties of a whole run of \<open>main\<close> (\<open>replaceAll_WSL.py\<close> lines 16--59): the contract of
  a successful run (output folder and progress log), the failures the code can raise and
  the state they leave behind, the behaviour with \<open>overwrite\<close> set, and the loss of a file
  by chained renaming. The fixtures below are concrete folders and image libraries on
  which the properties are instantiated.
\<close>

definition abort_fs :: fs where
  "abort_fs =
     \<lparr>folders = [''/in'' \<mapsto> [(''mesh.vtk'', File ''M''), (''bad.nii'', File ''B''),
                              (''scan.nii'', File ''S'')]],
      logs = Map.empty, clock = 0\<rparr>"

definition strict_io :: "string image_io" where
  "strict_io = \<lparr>img_read = (\<lambda>c. if c = ''B'' then None else Some c), img_write = (\<lambda>im n. im)\<rparr>"

definition chain_fs :: fs where
  "chain_fs =
     \<lparr>folders = [''/out'' \<mapsto> [(''x'', File ''A''), (''xx'', File ''B'')]], logs = Map.empty, clock = 0\<rparr>"

definition chain_args :: args where
  "chain_args =
     \<lparr>input_folder = ''/in'', replace = ''x'', by_str = ''xx'', output_folder = ''/out'',
      overwrite = ''True'', log_path = ''/tmp/process.log''\<rparr>"

subsection \<open>A successful run\<close>

lemma main_run:
  assumes ow: "overwrite a = ''False''" and io: "input_folder a \<noteq> output_folder a"
    and fin: "folders fs (input_folder a) = Some es" and wf: "wf_listing es" and ne: "es \<noteq> []"
    and fout: "folders fs (output_folder a) = None"
    and ok: "list_all (\<lambda>(n, v). entry_copyable io n v) es"
    and clean: "clean_renaming a (keys (expected_copy io es))"
  shows "\<exists>fs' L. main io a fs = Inr fs' \<and> folders fs' (output_folder a) = Some L \<and> wf_listing L
     \<and> set L = (\<lambda>(k, v). (rename_target a k, v)) ` set (expected_copy io es)
     \<and> folders fs' (input_folder a) = Some es
     \<and> logs fs' (log_path a) =
         Some \<lparr>lcontent = ''0'', mtimes = log_hist fs (log_path a) @ [clock fs..<clock fs + Suc (length es)]\<rparr>"
proof -
  let ?p = "log_path a" and ?out = "output_folder a" and ?E = "expected_copy io es"
  let ?l1 = "\<lparr>lcontent = [], mtimes = log_hist fs ?p @ [clock fs]\<rparr>"
  let ?fs1 = "fs\<lparr>logs := (logs fs)(?p \<mapsto> ?l1), clock := Suc (clock fs)\<rparr>"
  let ?fs0 = "set_folder ?out [] ?fs1"
  have dk: "distinct (keys es)" and slash: "\<forall>n \<in> set (keys es). CHR ''/'' \<notin> set n"
    using wf by (auto simp: wf_listing_def list_all_iff valid_name_def)
  have copy: "copy_loop io a 0 (keys es) ?fs0 =
    Inr (?fs0\<lparr>folders := (folders ?fs0)(?out \<mapsto> [] @ ?E),
           logs := (logs ?fs0)(?p \<mapsto> log_after ?l1 (py_str_nat 0) (clock ?fs0) (length es)),
           clock := clock ?fs0 + length es\<rparr>)"
    by (rule copy_loop_spec [OF io _ dk])
      (use fin io fout slash ok dk in \<open>auto simp: list_all_iff\<close>)
  let ?fs2 = "?fs0\<lparr>folders := (folders ?fs0)(?out \<mapsto> [] @ ?E),
           logs := (logs ?fs0)(?p \<mapsto> log_after ?l1 (py_str_nat 0) (clock ?fs0) (length es)),
           clock := clock ?fs0 + length es\<rparr>"
  have "copy_loop io a 0 (keys es) ?fs1 = copy_loop io a 0 (keys es) ?fs0"
    by (rule copy_loop_mkdir) (use fout ne in auto)
  from this copy have copy': "copy_loop io a 0 (keys es) ?fs1 = Inr ?fs2"
    by (rule trans)
  have f2o: "folders ?fs2 ?out = Some ?E" and f2i: "folders ?fs2 (input_folder a) = Some es"
    and l2: "logs ?fs2 ?p = Some (log_after ?l1 ''0'' (Suc (clock fs)) (length es))"
    using fin io by simp_all
  have wfE: "wf_listing ?E" using wf by (rule wf_expected_copy)
  have dE: "distinct (keys ?E)" using wfE by (simp add: wf_listing_def)
  have "\<forall>n \<in> set (keys ?E). rename_target a n \<noteq> n \<longrightarrow>
           valid_name (rename_target a n) \<and> rename_target a n \<notin> set (keys ?E)"
      and "inj_on (rename_target a) (set (keys ?E))"
    using clean_renaming_D [OF clean dE] by blast+
  from rename_loop_spec [OF f2o wfE subset_refl dE this]
  obtain L' where ren: "rename_loop a (keys ?E) ?fs2 = Inr (set_folder ?out L' ?fs2)"
      and wfL: "wf_listing L'" and setL: "set L' = renamed (rename_target a) (set (keys ?E)) (set ?E)"
    by blast
  have "main io a fs = Inr (set_folder ?out L' ?fs2)"
    using truncate_log_hist copy' ren ow f2o fin io by (simp add: main_def listdir_def)
  moreover have "log_after ?l1 ''0'' (Suc (clock fs)) (length es) =
      \<lparr>lcontent = ''0'', mtimes = log_hist fs ?p @ [clock fs..<clock fs + Suc (length es)]\<rparr>"
  proof -
    have "[clock fs..<Suc (clock fs + length es)] = clock fs # [Suc (clock fs)..<Suc (clock fs + length es)]"
      by (rule upt_conv_Cons) simp
    then show ?thesis using ne by (simp del: upt_Suc add: log_after_def)
  qed
  ultimately show ?thesis
    using wfL setL f2i l2 io by (simp add: renamed_all)
qed

text \<open>
  C1: the end-to-end contract of a run without overwrite into a fresh output folder.
  For every non-empty input folder of plain entry names, whose images the library can
  read and whose directories are skipped, and for a search string whose replacements
  neither collide with each other nor with an existing name, \<open>main\<close> succeeds; the
  output folder then holds exactly the entries of the copy pass (converted images, copied
  \<open>.vtk\<close> files, nothing else), each under its replaced name, as a well-formed listing,
  and the input folder is unchanged.
\<close>

theorem main_correct:
  assumes "overwrite a = ''False''" "input_folder a \<noteq> output_folder a"
    and "folders fs (input_folder a) = Some es" "wf_listing es" "es \<noteq> []"
    and "folders fs (output_folder a) = None"
    and "list_all (\<lambda>(n, v). entry_copyable io n v) es"
    and "clean_renaming a (keys (expected_copy io es))"
  shows "\<exists>fs' L. main io a fs = Inr fs' \<and> folders fs' (output_folder a) = Some L \<and> wf_listing L
     \<and> set L = (\<lambda>(k, v). (rename_target a k, v)) ` set (expected_copy io es)
     \<and> folders fs' (input_folder a) = Some es"
  using main_run [OF assms] by blast

theorem main_correct_witness:
  "\<exists>fs' L. main identity_io scenario_args scenario_fs = Inr fs' \<and> folders fs' ''/out'' = Some L
     \<and> set L = {(''study.nii'', File ''S''), (''mesh.vtk'', File ''M'')}"
proof -
  let ?es = "[(''scan.nii'', File ''S''), (''mesh.vtk'', File ''M''), (''notes.txt'', File ''N'')]"
  have "\<exists>fs' L. main identity_io scenario_args scenario_fs = Inr fs'
     \<and> folders fs' (output_folder scenario_args) = Some L \<and> wf_listing L
     \<and> set L = (\<lambda>(k, v). (rename_target scenario_args k, v)) ` set (expected_copy identity_io ?es)
     \<and> folders fs' (input_folder scenario_args) = Some ?es"
    by (rule main_correct)
      (simp_all add: scenario_args_def scenario_fs_def identity_io_def wf_listing_def
        clean_renaming_def rename_target_def expected_copy_def ext_spec_def model_simps)
  then show ?thesis
    by (simp add: scenario_args_def identity_io_def expected_copy_def rename_target_def ext_spec_def
        classify_extension_def py_replace_def insert_commute) blast
qed

text \<open>
  C2: the progress log under the same conditions: it is truncated once and then
  written once per input entry, so it receives \<open>1 + N\<close> writes at strictly increasing
  times, and its final content is \<open>"0"\<close>: every iteration writes the index \<open>0\<close> at the
  start of the file, because \<open>index += 1\<close> (line 53) sits after the loop.
\<close>

theorem main_progress_log:
  assumes "overwrite a = ''False''" "input_folder a \<noteq> output_folder a"
    and "folders fs (input_folder a) = Some es" "wf_listing es" "es \<noteq> []"
    and "folders fs (output_folder a) = None"
    and "list_all (\<lambda>(n, v). entry_copyable io n v) es"
    and "clean_renaming a (keys (expected_copy io es))"
  shows "\<exists>fs'. main io a fs = Inr fs' \<and> logs fs' (log_path a) =
     Some \<lparr>lcontent = ''0'', mtimes = log_hist fs (log_path a) @ [clock fs..<clock fs + Suc (length es)]\<rparr>"
  using main_run [OF assms] by blast

theorem main_progress_log_witness:
  "\<exists>fs'. main identity_io scenario_args scenario_fs = Inr fs'
     \<and> logs fs' ''/tmp/process.log'' = Some \<lparr>lcontent = ''0'', mtimes = [0, 1, 2, 3]\<rparr>"
proof -
  let ?es = "[(''scan.nii'', File ''S''), (''mesh.vtk'', File ''M''), (''notes.txt'', File ''N'')]"
  have "\<exists>fs'. main identity_io scenario_args scenario_fs = Inr fs' \<and> logs fs' (log_path scenario_args) =
     Some \<lparr>lcontent = ''0'', mtimes = log_hist scenario_fs (log_path scenario_args) @
       [clock scenario_fs..<clock scenario_fs + Suc (length ?es)]\<rparr>"
    by (rule main_progress_log)
      (simp_all add: scenario_args_def scenario_fs_def identity_io_def wf_listing_def
        clean_renaming_def rename_target_def expected_copy_def ext_spec_def model_simps)
  then show ?thesis
    by (simp add: scenario_args_def scenario_fs_def log_hist_def numeral_3_eq_3 numeral_2_eq_2)
qed

subsection \<open>Failures\<close>

text \<open>
  C6: an exception in the copy loop aborts the run and keeps what was done: when the
  first unreadable image comes after the entries \<open>ps\<close>, \<open>main\<close> raises the library's error
  for that image, the output folder holds the copies of \<open>ps\<close> only (the entries after
  it are never processed, and no renaming happens), and the log shows the truncation
  and one write per entry of \<open>ps\<close>.
\<close>

theorem main_copy_abort:
  assumes ow: "overwrite a = ''False''" and io: "input_folder a \<noteq> output_folder a"
    and fin: "folders fs (input_folder a) = Some (ps @ (n, File c) # rest)"
    and wf: "wf_listing (ps @ (n, File c) # rest)"
    and fout: "folders fs (output_folder a) = None"
    and ok: "list_all (\<lambda>(n, v). entry_copyable io n v) ps"
    and cls: "classify_extension (ext_spec n) = ConvertImage" and rd: "img_read io c = None"
  shows "\<exists>fs'. main io a fs = Inl (ImageIOError (path_join (input_folder a) n), fs')
     \<and> folders fs' (output_folder a) = Some (expected_copy io ps)
     \<and> logs fs' (log_path a) =
         Some (log_after \<lparr>lcontent = [], mtimes = log_hist fs (log_path a) @ [clock fs]\<rparr>
                 ''0'' (Suc (clock fs)) (length ps))"
proof -
  let ?es = "ps @ (n, File c) # rest"
  let ?p = "log_path a" and ?out = "output_folder a" and ?E = "expected_copy io ps"
  let ?l1 = "\<lparr>lcontent = [], mtimes = log_hist fs ?p @ [clock fs]\<rparr>"
  let ?fs1 = "fs\<lparr>logs := (logs fs)(?p \<mapsto> ?l1), clock := Suc (clock fs)\<rparr>"
  let ?fs0 = "set_folder ?out [] ?fs1"
  have dk: "distinct (keys ?es)" and slash: "\<forall>n \<in> set (keys ?es). CHR ''/'' \<notin> set n"
    using wf by (auto simp: wf_listing_def list_all_iff valid_name_def)
  have copy: "copy_loop io a 0 (keys ps) ?fs0 =
    Inr (?fs0\<lparr>folders := (folders ?fs0)(?out \<mapsto> [] @ ?E),
           logs := (logs ?fs0)(?p \<mapsto> log_after ?l1 (py_str_nat 0) (clock ?fs0) (length ps)),
           clock := clock ?fs0 + length ps\<rparr>)"
    by (rule copy_loop_spec [OF io _ dk])
      (use fin io fout slash ok dk in \<open>auto simp: list_all_iff\<close>)
  let ?fs2 = "?fs0\<lparr>folders := (folders ?fs0)(?out \<mapsto> [] @ ?E),
           logs := (logs ?fs0)(?p \<mapsto> log_after ?l1 (py_str_nat 0) (clock ?fs0) (length ps)),
           clock := clock ?fs0 + length ps\<rparr>"
  have ent: "map_of ?es n = Some (File c)"
    by (rule map_of_is_SomeI [OF dk]) simp
  have fail: "copy_item io a 0 n ?fs2 = Inl (ImageIOError (path_join (input_folder a) n), ?fs2)"
    by (rule copy_item_read_fail [where es = ?es and acc = ?E]) (use fin io ent slash cls rd in simp_all)
  have "copy_loop io a 0 (keys ?es) ?fs1 = copy_loop io a 0 (keys ?es) ?fs0"
    by (rule copy_loop_mkdir) (use fout in auto)
  also have "\<dots> = Inl (ImageIOError (path_join (input_folder a) n), ?fs2)"
    using copy fail by (simp add: copy_loop_append)
  finally have "main io a fs = Inl (ImageIOError (path_join (input_folder a) n), ?fs2)"
    using truncate_log_hist fin ow by (simp add: main_def listdir_def)
  then show ?thesis by simp
qed

theorem main_copy_abort_witness:
  "\<exists>fs'. main strict_io scenario_args abort_fs = Inl (ImageIOError ''/in/bad.nii'', fs')
   \<and> folders fs' ''/out'' = Some [(''mesh.vtk'', File ''M'')]
   \<and> logs fs' ''/tmp/process.log'' = Some \<lparr>lcontent = ''0'', mtimes = [0, 1]\<rparr>"
  using main_copy_abort [of scenario_args abort_fs "[(''mesh.vtk'', File ''M'')]" "''bad.nii''" "''B''"
      "[(''scan.nii'', File ''S'')]" strict_io]
  by (simp add: scenario_args_def abort_fs_def strict_io_def wf_listing_def valid_name_def
      log_hist_def path_join_def log_after_def ext_spec_def classify_extension_def)

subsection \<open>Other runs\<close>

text \<open>
  C7: with \<open>overwrite\<close> other than the string \<open>"False"\<close>, \<open>main\<close> only renames:
  under a collision-free replacement the output folder ends up holding its former
  entries, each under its replaced name, and no other folder changes (the input folder
  is not read).
\<close>

theorem main_rename_only:
  assumes ow: "overwrite a \<noteq> ''False''" and fout: "folders fs (output_folder a) = Some L"
    and wf: "wf_listing L" and clean: "clean_renaming a (keys L)"
  shows "\<exists>fs' L'. main io a fs = Inr fs' \<and> folders fs' (output_folder a) = Some L' \<and> wf_listing L'
     \<and> set L' = (\<lambda>(k, v). (rename_target a k, v)) ` set L
     \<and> (\<forall>d. d \<noteq> output_folder a \<longrightarrow> folders fs' d = folders fs d)"
proof -
  let ?fs1 = "fs\<lparr>logs := (logs fs)(log_path a \<mapsto> \<lparr>lcontent = [], mtimes = log_hist fs (log_path a) @ [clock fs]\<rparr>),
                 clock := Suc (clock fs)\<rparr>"
  have f1: "folders ?fs1 (output_folder a) = Some L" using fout by simp
  have dL: "distinct (keys L)" using wf by (simp add: wf_listing_def)
  have "\<forall>n \<in> set (keys L). rename_target a n \<noteq> n \<longrightarrow>
           valid_name (rename_target a n) \<and> rename_target a n \<notin> set (keys L)"
      and "inj_on (rename_target a) (set (keys L))"
    using clean_renaming_D [OF clean dL] by blast+
  from rename_loop_spec [OF f1 wf subset_refl dL this]
  obtain L' where ren: "rename_loop a (keys L) ?fs1 = Inr (set_folder (output_folder a) L' ?fs1)"
      and wfL: "wf_listing L'" and setL: "set L' = renamed (rename_target a) (set (keys L)) (set L)"
    by blast
  have "main io a fs = Inr (set_folder (output_folder a) L' ?fs1)"
    using truncate_log_hist ren ow fout by (simp add: main_def listdir_def)
  then show ?thesis using wfL setL by (simp add: renamed_all)
qed

theorem main_rename_only_witness:
  "\<exists>fs' L'. main identity_io (scenario_args\<lparr>overwrite := ''True''\<rparr>)
       (scenario_fs\<lparr>folders := [''/out'' \<mapsto> [(''scan.nii'', File ''S'')]]\<rparr>) = Inr fs'
     \<and> folders fs' ''/out'' = Some L' \<and> set L' = {(''study.nii'', File ''S'')}"
proof -
  have "\<exists>fs' L'. main identity_io (scenario_args\<lparr>overwrite := ''True''\<rparr>)
       (scenario_fs\<lparr>folders := [''/out'' \<mapsto> [(''scan.nii'', File ''S'')]]\<rparr>) = Inr fs'
     \<and> folders fs' (output_folder (scenario_args\<lparr>overwrite := ''True''\<rparr>)) = Some L' \<and> wf_listing L'
     \<and> set L' = (\<lambda>(k, v). (rename_target (scenario_args\<lparr>overwrite := ''True''\<rparr>) k, v)) `
                  set [(''scan.nii'', File ''S'')]
     \<and> (\<forall>d. d \<noteq> output_folder (scenario_args\<lparr>overwrite := ''True''\<rparr>) \<longrightarrow>
          folders fs' d = folders (scenario_fs\<lparr>folders := [''/out'' \<mapsto> [(''scan.nii'', File ''S'')]]\<rparr>) d)"
    by (rule main_rename_only)
      (simp_all add: scenario_args_def wf_listing_def clean_renaming_def rename_target_def model_simps)
  then show ?thesis by (simp add: scenario_args_def rename_target_def py_replace_def) blast
qed

text \<open>
  C19: with an empty input folder and no output folder, \<open>main\<close> raises
  \<open>FileNotFoundError\<close> for the output folder: the folder is only created inside the copy
  loop, which runs zero times, and the rename pass lists it. No folder is changed.
\<close>

theorem main_empty_input_fails:
  assumes "overwrite a = ''False''" "folders fs (input_folder a) = Some []"
    and "folders fs (output_folder a) = None"
  shows "\<exists>fs'. main io a fs = Inl (FileNotFoundError (output_folder a), fs') \<and> folders fs' = folders fs"
  using assms by (simp add: main_def truncate_log_hist listdir_def)

theorem main_empty_input_fails_witness:
  "\<exists>fs'. main identity_io scenario_args (scenario_fs\<lparr>folders := [''/in'' \<mapsto> []]\<rparr>) =
     Inl (FileNotFoundError ''/out'', fs')"
  using main_empty_input_fails [of scenario_args "scenario_fs\<lparr>folders := [''/in'' \<mapsto> []]\<rparr>" identity_io]
  by (auto simp: scenario_args_def)

text \<open>
  C20: a missing input folder raises \<open>FileNotFoundError\<close> at \<open>os.listdir\<close>, after
  the log has already been truncated (its content is empty and it has one new
  modification time); nothing else is changed.
\<close>

theorem main_missing_input:
  assumes "overwrite a = ''False''" "folders fs (input_folder a) = None"
  shows "main io a fs = Inl (FileNotFoundError (input_folder a),
     fs\<lparr>logs := (logs fs)(log_path a \<mapsto> \<lparr>lcontent = [], mtimes = log_hist fs (log_path a) @ [clock fs]\<rparr>),
        clock := Suc (clock fs)\<rparr>)"
  using assms by (simp add: main_def truncate_log_hist listdir_def)

theorem main_missing_input_witness:
  "\<exists>fs'. main identity_io scenario_args (scenario_fs\<lparr>folders := Map.empty\<rparr>) =
     Inl (FileNotFoundError ''/in'', fs') \<and> logs fs' ''/tmp/process.log'' = Some \<lparr>lcontent = [], mtimes = [0]\<rparr>"
  using main_missing_input [of scenario_args "scenario_fs\<lparr>folders := Map.empty\<rparr>" identity_io]
  by (simp add: scenario_args_def scenario_fs_def log_hist_def)

text \<open>
  C22: the rename pass can lose a file even when the replacement maps distinct names to
  distinct names: when the listing holds files \<open>x\<close> and \<open>y\<close>, in that order, with
  \<open>x\<close> renamed to \<open>y\<close> and \<open>y\<close> renamed to a fresh \<open>z\<close>, the rename of \<open>x\<close>
  overwrites \<open>y\<close> (POSIX \<open>rename\<close> replaces a file), and the listing taken before the
  pass then renames that entry again, to \<open>z\<close>: both names are gone, \<open>z\<close> holds the
  content of \<open>x\<close>, and the content of \<open>y\<close> is lost.
\<close>

theorem rename_chain_loses_file:
  assumes "folders fs (output_folder a) = Some L"
    and "map_of L x = Some (File cx)" "map_of L y = Some (File cy)"
    and "rename_target a x = y" "rename_target a y = z"
    and "x \<noteq> y" "y \<noteq> z" "valid_name y" "valid_name z" "z \<notin> set (keys L)"
  shows "rename_loop a (x # y # rest) fs =
    rename_loop a rest (set_folder (output_folder a)
      (AList.update z (File cx) (AList.delete y (AList.update y (File cx) (AList.delete x L)))) fs)"
proof -
  define L1 where "L1 = AList.update y (File cx) (AList.delete x L)"
  have c: "py_contains (replace a) x" "py_replace (replace a) (by_str a) x = y"
    using assms(4,6) unfolding rename_target_def by (auto split: if_splits)
  have 1: "rename_item a x fs = Inr (set_folder (output_folder a) L1 fs)"
    using assms(1-3,6,8) c by (simp add: rename_item_def rename_entry_def L1_def)
  have "map_of L1 y = Some (File cx)" by (simp add: L1_def update_conv')
  moreover have "z \<notin> set (keys L1)" using assms(7,10) by (simp add: L1_def)
  ultimately have 2: "rename_item a y (set_folder (output_folder a) L1 fs) =
      Inr (set_folder (output_folder a) (AList.update z (File cx) (AList.delete y L1))
        (set_folder (output_folder a) L1 fs))"
    using rename_item_move [of "set_folder (output_folder a) L1 fs" a L1 y "File cx"] assms(5,7,9)
    by simp
  show ?thesis using 1 2 by (simp add: L1_def set_folder_def)
qed

theorem rename_chain_loses_file_witness:
  "rename_loop chain_args [''x'', ''xx''] chain_fs =
     Inr (set_folder ''/out'' [(''xxxx'', File ''A'')] chain_fs)"
proof -
  have "rename_loop chain_args (''x'' # ''xx'' # []) chain_fs =
    rename_loop chain_args [] (set_folder (output_folder chain_args)
      (AList.update ''xxxx'' (File ''A'') (AList.delete ''xx''
        (AList.update ''xx'' (File ''A'') (AList.delete ''x'' [(''x'', File ''A''), (''xx'', File ''B'')]))))
      chain_fs)"
    by (rule rename_chain_loses_file [where cy = "''B''"])
      (simp_all add: chain_args_def chain_fs_def rename_target_def valid_name_def model_simps)
  then show ?thesis by (simp add: chain_args_def)
qed

end
