(* ===== verification/Widget.thy ===== *)
theory Widget
  imports Complex_Main FileSystem
begin

text \<open>
  The module widget of \<open>src/replaceAll/replaceAll.py\<close> (class \<open>replaceAllWidget\<close>) as a
  state record: the contents and enabled/visible flags of the Qt widgets the code reads
  and writes, the message boxes it has shown (in order), and the attributes it keeps for
  the progress display (\<open>time_log\<close>, \<open>log_path\<close>, \<open>nbFiles\<close>, \<open>progress\<close>,
  \<open>universal_time\<close>), and the CLI nodes the widget observes with \<open>onProcessUpdate\<close>
  (its \<open>VTKObservationMixin\<close> observations on CLI nodes, line 421; a CLI node is
  identified by the number of CLI runs started before it, \<open>cli_started\<close>). The
  handlers of the widget are functions on this record:
  \<open>setup\<close>, \<open>_checkIO\<close>, \<open>openFinder\<close> and \<open>overwrite\<close> here, the progress display in
  \<open>Poller\<close>, \<open>onApplyButton\<close> in \<open>Dispatch\<close>. The logic class \<open>replaceAllLogic\<close> is the
  record \<open>replace_all_logic\<close>; \<open>slicer.cli.run\<close> is modelled by recording the parameters
  the CLI node is started with.

  Python values handed around as parameters: the widget's parameter dictionary holds
  strings and one boolean (\<open>pval\<close>); the attributes of the logic object can be \<open>None\<close>, such
  a value, or (by the call at line 419) the whole dictionary (\<open>lval\<close>).
\<close>

datatype pval = PStr string | PBool bool

datatype lval = LNone | LVal pval | LDict "(string \<times> pval) list"

text \<open>\<open>str()\<close> of a parameter value and of an optional one (\<open>str(None)\<close> is \<open>"None"\<close>).\<close>

fun py_str_pval :: "pval \<Rightarrow> string" where
  "py_str_pval (PStr s) = s"
| "py_str_pval (PBool b) = (if b then ''True'' else ''False'')"

definition py_str_opt :: "pval option \<Rightarrow> string" where
  "py_str_opt v = (case v of None \<Rightarrow> ''None'' | Some x \<Rightarrow> py_str_pval x)"

text \<open>\<open>replaceAllLogic\<close> (lines 638--673). Its \<open>overwrite\<close> attribute is only ever
  \<open>None\<close> or a parameter value, so it is typed \<open>pval option\<close>.\<close>

record replace_all_logic =
  l_input_folder :: lval
  l_replace :: lval
  l_by :: lval
  l_output_folder :: lval
  l_overwrite :: "pval option"
  l_log_path :: lval
  cliNode :: "(string \<times> lval) list option"

definition replaceAllLogic_new ::
  "lval \<Rightarrow> lval \<Rightarrow> lval \<Rightarrow> lval \<Rightarrow> pval option \<Rightarrow> lval \<Rightarrow> replace_all_logic" where
  "replaceAllLogic_new input_folder replace by_str output_folder overwrite log_path =
     \<lparr>l_input_folder = input_folder, l_replace = replace, l_by = by_str, l_output_folder = output_folder,
      l_overwrite = overwrite, l_log_path = log_path, cliNode = None\<rparr>"

text \<open>\<open>process\<close>: the CLI parameters, \<open>overwrite\<close> converted with \<open>str\<close>, the others passed
  as they are; the CLI node is started with them.\<close>

definition logic_process :: "replace_all_logic \<Rightarrow> replace_all_logic" where
  "logic_process lg =
     (let parameters =
        [(''input_folder'', l_input_folder lg), (''replace'', l_replace lg), (''by'', l_by lg),
         (''output_folder'', l_output_folder lg),
         (''overwrite'', LVal (PStr (py_str_opt (l_overwrite lg)))), (''log_path'', l_log_path lg)]
      in lg\<lparr>cliNode := Some parameters\<rparr>)"

record widget =
  lineEdit_inputFolder :: string
  lineEdit_outputFolder :: string
  lineEdit_replaceString :: string
  lineEdit_replaceByString :: string
  checkBox_overwrite :: bool
  lineEdit_outputFolder_enabled :: bool
  pushButton_outputFolder_enabled :: bool
  applyButton_visible :: bool
  applyButton_enabled :: bool
  label_time_visible :: bool
  label_time :: string
  progressBar_visible :: bool
  progressBar_value :: rat
  progressBar_format :: string
  label_success_visible :: bool
  label_files_visible :: bool
  label_files :: string
  messages :: "string list"
  logic :: replace_all_logic
  time_log :: nat
  w_log_path :: path
  nbFiles :: nat
  progress :: nat
  universal_time :: rat
  cli_observed :: "nat list"
  cli_started :: nat

text \<open>\<open>setup\<close> (lines 152--196), from the widget as loaded from the \<open>.ui\<close> file and the
  application's temporary directory.\<close>

definition widget_setup :: "widget \<Rightarrow> path \<Rightarrow> widget" where
  "widget_setup ui tmp =
     ui\<lparr>logic := replaceAllLogic_new LNone LNone LNone LNone None LNone,
        label_time_visible := False, progressBar_visible := False,
        label_success_visible := False, label_files_visible := False,
        time_log := 0, w_log_path := path_join tmp ''process.log'', applyButton_enabled := True\<rparr>"

text \<open>\<open>_checkIO\<close> (lines 264--283): the warnings are collected in order and shown in one
  message box. \<open>os.path.exists\<close> of the input is the existence of a folder of the model.\<close>

definition checkIO :: "fs \<Rightarrow> widget \<Rightarrow> bool \<times> widget" where
  "checkIO fs w =
     (let warning_text = [];
          warning_text = (if \<not> path_exists fs (lineEdit_inputFolder w) \<or> lineEdit_inputFolder w = []
                          then warning_text @ ''Please enter a valid input path'' @ [CHR 0x0A]
                          else warning_text);
          warning_text = (if lineEdit_outputFolder w = []
                          then warning_text @ ''Please enter a valid output path'' @ [CHR 0x0A]
                          else warning_text);
          warning_text = (if lineEdit_replaceByString w = []
                          then warning_text @ ''Please enter the word to replace'' @ [CHR 0x0A]
                          else warning_text);
          warning_text = (if lineEdit_replaceString w = []
                          then warning_text @ ''Please enter the word to be replaced'' @ [CHR 0x0A]
                          else warning_text)
      in if warning_text = [] then (True, w)
         else (False, w\<lparr>messages := messages w @ [warning_text]\<rparr>))"

text \<open>\<open>openFinder(nom)\<close> (lines 285--291): the folder chosen in the dialog (the empty
  string when it is cancelled) replaces the field's text.\<close>

definition openFinder :: "string \<Rightarrow> string \<Rightarrow> widget \<Rightarrow> widget" where
  "openFinder nom folder w =
     (if nom = ''input'' then w\<lparr>lineEdit_inputFolder := folder\<rparr>
      else if nom = ''output'' then w\<lparr>lineEdit_outputFolder := folder\<rparr>
      else w)"

text \<open>\<open>overwrite\<close> (lines 293--301), the handler of the checkbox.\<close>

definition widget_overwrite :: "widget \<Rightarrow> widget" where
  "widget_overwrite w =
     (if checkBox_overwrite w
      then w\<lparr>lineEdit_outputFolder_enabled := False, lineEdit_outputFolder := lineEdit_inputFolder w,
             pushButton_outputFolder_enabled := False\<rparr>
      else w\<lparr>lineEdit_outputFolder_enabled := True, lineEdit_outputFolder := [],
             pushButton_outputFolder_enabled := True\<rparr>)"

text \<open>
  The user's actions on the form, as wired by \<open>setup\<close> (lines 172--174): the two folder
  buttons call \<open>openFinder\<close>, a click on the checkbox toggles it and calls \<open>overwrite\<close>,
  and a line edit can be typed into while it is enabled. A disabled widget ignores the
  action.
\<close>

datatype ui_event =
    SearchFolder string
  | OutputFolder string
  | ClickOverwrite
  | TypeInput string
  | TypeOutput string
  | TypeReplace string
  | TypeBy string

fun ui_handle :: "ui_event \<Rightarrow> widget \<Rightarrow> widget" where
  "ui_handle (SearchFolder f) w = openFinder ''input'' f w"
| "ui_handle (OutputFolder f) w =
     (if pushButton_outputFolder_enabled w then openFinder ''output'' f w else w)"
| "ui_handle ClickOverwrite w = widget_overwrite (w\<lparr>checkBox_overwrite := \<not> checkBox_overwrite w\<rparr>)"
| "ui_handle (TypeInput s) w = w\<lparr>lineEdit_inputFolder := s\<rparr>"
| "ui_handle (TypeOutput s) w =
     (if lineEdit_outputFolder_enabled w then w\<lparr>lineEdit_outputFolder := s\<rparr> else w)"
| "ui_handle (TypeReplace s) w = w\<lparr>lineEdit_replaceString := s\<rparr>"
| "ui_handle (TypeBy s) w = w\<lparr>lineEdit_replaceByString := s\<rparr>"

text \<open>The form states reachable from a widget by user actions.\<close>

inductive ui_reach :: "widget \<Rightarrow> widget \<Rightarrow> bool" where
  ui_refl: "ui_reach w w"
| ui_next: "ui_reach w0 w \<Longrightarrow> ui_reach w0 (ui_handle e w)"

text \<open>The consistency of the form the checkbox handler is meant to keep.\<close>

definition form_consistent :: "widget \<Rightarrow> bool" where
  "form_consistent w \<longleftrightarrow>
     (checkBox_overwrite w \<longrightarrow> \<not> lineEdit_outputFolder_enabled w \<and> \<not> pushButton_outputFolder_enabled w)"

text \<open>A form as loaded: empty fields, the checkbox cleared, every widget enabled and the
  progress widgets hidden.\<close>

definition form0 :: widget where
  "form0 =
     \<lparr>lineEdit_inputFolder = [], lineEdit_outputFolder = [], lineEdit_replaceString = [],
      lineEdit_replaceByString = [], checkBox_overwrite = False, lineEdit_outputFolder_enabled = True,
      pushButton_outputFolder_enabled = True, applyButton_visible = True, applyButton_enabled = True,
      label_time_visible = True, label_time = [], progressBar_visible = True, progressBar_value = 0,
      progressBar_format = [], label_success_visible = True, label_files_visible = True,
      label_files = [], messages = [], logic = replaceAllLogic_new LNone LNone LNone LNone None LNone,
      time_log = 0, w_log_path = [], nbFiles = 0, progress = 0, universal_time = 0,
      cli_observed = [], cli_started = 0\<rparr>"

declare py_str_opt_def [model_simps] replaceAllLogic_new_def [model_simps]
  logic_process_def [model_simps] widget_setup_def [model_simps] checkIO_def [model_simps]
  openFinder_def [model_simps] widget_overwrite_def [model_simps]

subsection \<open>Properties\<close>

lemma form_consistent_handle: "form_consistent w \<Longrightarrow> form_consistent (ui_handle e w)"
  by (cases e) (auto simp: form_consistent_def openFinder_def widget_overwrite_def)

text \<open>
  C15: the checkbox keeps the form consistent: in every state reachable by user actions
  from a consistent form, a checked overwrite box goes with a disabled output field and a
  disabled output button.
\<close>

theorem ui_reach_form_consistent:
  assumes "ui_reach w0 w" "form_consistent w0"
  shows "form_consistent w"
  using assms by (induction rule: ui_reach.induct) (simp_all add: form_consistent_handle)

theorem ui_reach_form_consistent_witness:
  "form_consistent (ui_handle ClickOverwrite (widget_setup form0 ''/tmp''))"
  by (rule ui_reach_form_consistent [OF ui_next [OF ui_refl]])
    (simp add: form_consistent_def widget_setup_def form0_def)

text \<open>
  C26: the checkbox does not keep the output folder equal to the input folder: from any
  form with the box cleared, checking it and then choosing another input folder leaves
  the box checked and the output field on the old input folder, so an overwrite run
  copies nothing and renames the entries of the previous folder.
\<close>

theorem overwrite_alias_lost:
  assumes "\<not> checkBox_overwrite w" "f \<noteq> lineEdit_inputFolder w"
  shows "ui_reach w (ui_handle (SearchFolder f) (ui_handle ClickOverwrite w))
    \<and> checkBox_overwrite (ui_handle (SearchFolder f) (ui_handle ClickOverwrite w))
    \<and> lineEdit_outputFolder (ui_handle (SearchFolder f) (ui_handle ClickOverwrite w)) = lineEdit_inputFolder w
    \<and> lineEdit_inputFolder (ui_handle (SearchFolder f) (ui_handle ClickOverwrite w)) = f
    \<and> lineEdit_outputFolder (ui_handle (SearchFolder f) (ui_handle ClickOverwrite w))
        \<noteq> lineEdit_inputFolder (ui_handle (SearchFolder f) (ui_handle ClickOverwrite w))"
  using assms by (intro conjI ui_next ui_refl) (simp_all add: widget_overwrite_def openFinder_def)

theorem overwrite_alias_lost_witness:
  "checkBox_overwrite (ui_handle (SearchFolder ''/data/new'') (ui_handle ClickOverwrite (form0\<lparr>lineEdit_inputFolder := ''/data/old''\<rparr>)))
   \<and> lineEdit_outputFolder (ui_handle (SearchFolder ''/data/new'')
       (ui_handle ClickOverwrite (form0\<lparr>lineEdit_inputFolder := ''/data/old''\<rparr>))) = ''/data/old''"
proof -
  have "\<not> checkBox_overwrite (form0\<lparr>lineEdit_inputFolder := ''/data/old''\<rparr>)"
      "''/data/new'' \<noteq> lineEdit_inputFolder (form0\<lparr>lineEdit_inputFolder := ''/data/old''\<rparr>)"
    by (simp_all add: form0_def)
  from overwrite_alias_lost [OF this] show ?thesis by simp
qed

end
