(* ===== verification/Poller.thy ===== *)
theory Poller
  imports Widget
begin

text \<open>
  The progress display of the widget (\<open>src/replaceAll/replaceAll.py\<close>):
  \<open>onProcessStarted\<close> (lines 586--598) counts the input entries and resets the counter;
  \<open>onProcessUpdate\<close> (lines 600--630), the observer of the CLI node, and the body of the
  Windows polling loop (lines 377--411) compare the log's modification time with the last
  one seen, count a tick when it differs and the counter is at most the number of
  entries, and show \<open>round((progress - 1) / nbFiles * 100, 2)\<close> percent. A handler that
  raises leaves the widget as it was at the exception.

  Numbers: Python's floats are modelled by exact rationals; \<open>round(x, 2)\<close> rounds half to
  even on the exact value and \<open>str\<close> of the result prints its at most two decimals, as
  \<open>repr\<close> does for such floats (the binary rounding error of the float division is not
  modelled). The modification time is the clock value of the \<open>FileSystem\<close> model, and the
  time read by \<open>time.time()\<close> is an argument of the handlers.
\<close>

type_synonym wres = "(py_error \<times> widget) + widget"

text \<open>\<open>round(x)\<close> to an integer, half to even, and \<open>round(x, 2)\<close> as a count of hundredths.\<close>

definition round_half_even :: "rat \<Rightarrow> int" where
  "round_half_even q =
     (let f = \<lfloor>q\<rfloor>; d = q - of_int f in
      if d < 1/2 then f else if d > 1/2 then f + 1 else if even f then f else f + 1)"

definition hundredths :: "rat \<Rightarrow> int" where
  "hundredths x = round_half_even (x * 100)"

text \<open>\<open>str\<close> of the float \<open>k / 100\<close>: the integer part, a point, and the two decimals with
  trailing zeros removed but at least one digit.\<close>

definition py_str_hundredths :: "int \<Rightarrow> string" where
  "py_str_hundredths k =
     (let a = \<bar>k\<bar>; ip = py_str_int (a div 100); fr = a mod 100;
          digits = (if fr mod 10 = 0 then py_str_int (fr div 10)
                    else py_str_int (fr div 10) @ py_str_int (fr mod 10))
      in (if k < 0 then ''-'' else []) @ ip @ ''.'' @ digits)"

text \<open>\<open>int(x)\<close> truncates towards zero; \<open>x % m\<close> takes the sign of \<open>m\<close>.\<close>

definition py_int :: "rat \<Rightarrow> int" where
  "py_int x = (if 0 \<le> x then \<lfloor>x\<rfloor> else - \<lfloor>- x\<rfloor>)"

definition py_fmod :: "rat \<Rightarrow> rat \<Rightarrow> rat" where
  "py_fmod x m = x - m * of_int \<lfloor>x / m\<rfloor>"

text \<open>\<open>os.path.isfile\<close> and \<open>os.path.getmtime\<close> of the log.\<close>

definition log_mtime :: "fs \<Rightarrow> path \<Rightarrow> nat option" where
  "log_mtime fs p =
     (case logs fs p of None \<Rightarrow> None | Some l \<Rightarrow> Some (if mtimes l = [] then 0 else last (mtimes l)))"

definition files_text :: "int \<Rightarrow> nat \<Rightarrow> string" where
  "files_text processed nb = ''Number of processed files: '' @ py_str_int processed @ ''/'' @ py_str_nat nb"

text \<open>\<open>onProcessStarted\<close> (lines 586--598). \<open>os.listdir\<close> of a missing input raises after
  the first widgets have been shown.\<close>

definition onProcessStarted :: "fs \<Rightarrow> rat \<Rightarrow> widget \<Rightarrow> wres" where
  "onProcessStarted fs now w =
     (let w1 = w\<lparr>label_time_visible := True, progressBar_visible := True, progressBar_value := 0,
                 universal_time := now\<rparr> in
      case listdir fs (lineEdit_inputFolder w1) of
        Inl (e, _) \<Rightarrow> Inl (e, w1\<lparr>nbFiles := 0\<rparr>)
      | Inr items \<Rightarrow>
          Inr (w1\<lparr>nbFiles := length items, progress := 0, label_files := files_text 0 (length items),
                  label_files_visible := True\<rparr>))"

text \<open>The progress part of \<open>onProcessUpdate\<close> (lines 601--615; the same statements are
  lines 383--397 of the Windows loop).\<close>

definition progress_tick :: "fs \<Rightarrow> widget \<Rightarrow> wres" where
  "progress_tick fs w =
     (case log_mtime fs (w_log_path w) of
        None \<Rightarrow> Inr w
      | Some time_progress \<Rightarrow>
          if time_progress \<noteq> time_log w \<and> progress w \<le> nbFiles w then
            (let w1 = w\<lparr>time_log := time_progress, progress := Suc (progress w)\<rparr> in
             if nbFiles w1 = 0 then Inl (ZeroDivisionError, w1)
             else
               (let k = hundredths (of_nat (progress w1 - 1) / of_nat (nbFiles w1) * 100);
                    progressbar_value = of_int k / 100;
                    w2 = (if progressbar_value < 100
                          then w1\<lparr>progressBar_value := progressbar_value,
                                  progressBar_format := py_str_hundredths k @ ''%''\<rparr>
                          else w1\<lparr>progressBar_value := 100, progressBar_format := ''100%''\<rparr>)
                in Inr (w2\<lparr>label_files := files_text (int (progress w1) - 1) (nbFiles w1)\<rparr>)))
          else Inr w)"

text \<open>The time display (lines 617--623, and 398--405).\<close>

definition timer_text :: "rat \<Rightarrow> string" where
  "timer_text current_time =
     (if current_time < 60 then ''Time: '' @ py_str_int (py_int current_time) @ ''s''
      else ''Time: '' @ py_str_int (py_int (current_time / 60)) @ ''min ''
           @ py_str_int (py_int (py_fmod current_time 60)) @ ''s'')"

definition time_display :: "rat \<Rightarrow> widget \<Rightarrow> widget" where
  "time_display now w = w\<lparr>label_time := timer_text (now - universal_time w)\<rparr>"

text \<open>The completion display (lines 624--629, and 408--411).\<close>

definition show_success :: "widget \<Rightarrow> widget" where
  "show_success w =
     w\<lparr>label_success_visible := True, progressBar_value := 100, progressBar_format := ''100%'',
       label_files := files_text (int (nbFiles w)) (nbFiles w)\<rparr>"

text \<open>\<open>onProcessUpdate\<close>, called with the current time and whether the CLI node reports
  completion.\<close>

definition onProcessUpdate :: "fs \<Rightarrow> rat \<Rightarrow> bool \<Rightarrow> widget \<Rightarrow> wres" where
  "onProcessUpdate fs now completed w =
     sbind (progress_tick fs w)
       (\<lambda>w1. let w2 = time_display now w1 in Inr (if completed then show_success w2 else w2))"

text \<open>
  The polling loop of the Windows branch (lines 377--411), over the samples it takes while
  the worker thread is alive: every iteration more than 0.3 s after the previous sample
  reads the file system and the clock; the others only process events and are omitted.
  After the thread ends the success display is shown.
\<close>

fun poll_samples :: "(fs \<times> rat) list \<Rightarrow> widget \<Rightarrow> wres" where
  "poll_samples [] w = Inr w"
| "poll_samples ((fs, now) # ss) w = sbind (progress_tick fs w) (\<lambda>w1. poll_samples ss (time_display now w1))"

definition poll_loop :: "(fs \<times> rat) list \<Rightarrow> widget \<Rightarrow> wres" where
  "poll_loop ss w = sbind (poll_samples ss w) (\<lambda>w1. Inr (show_success w1))"

text \<open>The bounds the display keeps: the counter never exceeds the number of entries plus
  one, and the bar stays between 0 and 100.\<close>

definition poller_inv :: "widget \<Rightarrow> bool" where
  "poller_inv w \<longleftrightarrow> progress w \<le> Suc (nbFiles w) \<and> 0 \<le> progressBar_value w \<and> progressBar_value w \<le> 100"

text \<open>The widget states of a run on Linux or macOS: after \<open>onProcessStarted\<close>, any
  number of calls of the observer \<open>onProcessUpdate\<close> that return.\<close>

inductive display_reach :: "widget \<Rightarrow> bool" where
  started: "onProcessStarted fs now w0 = Inr w \<Longrightarrow> display_reach w"
| updated: "display_reach w \<Longrightarrow> onProcessUpdate fs now c w = Inr w' \<Longrightarrow> display_reach w'"

text \<open>A folder of three entries with a log last modified at time 5, and the form pointed
  at them.\<close>

definition poll_fs :: fs where
  "poll_fs =
     \<lparr>folders = [''/in'' \<mapsto> [(''a.nii'', File ''A''), (''b.vtk'', File ''B''), (''c.txt'', File ''C'')]],
      logs = [''/tmp/process.log'' \<mapsto> \<lparr>lcontent = [], mtimes = [5]\<rparr>], clock = 6\<rparr>"

definition poll_form :: widget where
  "poll_form = form0\<lparr>lineEdit_inputFolder := ''/in'', w_log_path := ''/tmp/process.log''\<rparr>"

declare round_half_even_def [model_simps] hundredths_def [model_simps]
  py_str_hundredths_def [model_simps] py_int_def [model_simps] py_fmod_def [model_simps]
  log_mtime_def [model_simps] files_text_def [model_simps] onProcessStarted_def [model_simps]
  progress_tick_def [model_simps] timer_text_def [model_simps] time_display_def [model_simps]
  show_success_def [model_simps] onProcessUpdate_def [model_simps] poll_loop_def [model_simps]

subsection \<open>Lemmas\<close>

lemma round_half_even_nonneg: "0 \<le> q \<Longrightarrow> 0 \<le> round_half_even q"
  by (auto simp: round_half_even_def Let_def)

lemma round_half_even_le: "q \<le> of_int n \<Longrightarrow> round_half_even q \<le> n"
proof -
  assume q: "q \<le> of_int n"
  have f: "\<lfloor>q\<rfloor> \<le> n" using q by (simp add: floor_le_iff)
  show ?thesis
  proof (cases "\<lfloor>q\<rfloor> = n")
    case True
    then have "q = of_int n" using q by (metis floor_le_iff le_less not_le of_int_floor_le order_antisym)
    then show ?thesis by (simp add: round_half_even_def Let_def)
  next
    case False
    then show ?thesis using f by (auto simp: round_half_even_def Let_def)
  qed
qed

lemma hundredths_bounds:
  assumes "0 \<le> x" "x \<le> 100"
  shows "0 \<le> hundredths x" "hundredths x \<le> 10000"
  using assms by (simp_all add: hundredths_def round_half_even_nonneg round_half_even_le)

lemma tick_value_bounds:
  assumes "p \<le> nb" "0 < nb"
  defines "k \<equiv> hundredths (of_nat p / of_nat nb * 100)"
  shows "0 \<le> (of_int k / 100 :: rat)" "(of_int k / 100 :: rat) \<le> 100"
proof -
  have x0: "0 \<le> (of_nat p / of_nat nb * 100 :: rat)" by simp
  have "(of_nat p / of_nat nb :: rat) \<le> 1" using assms(1,2) by (simp add: divide_le_eq_1)
  then have x1: "(of_nat p / of_nat nb * 100 :: rat) \<le> 100"
    using mult_right_mono [of "of_nat p / of_nat nb" "1::rat" 100] by simp
  have "0 \<le> k" "k \<le> 10000" using hundredths_bounds [OF x0 x1] by (simp_all add: k_def)
  then show "0 \<le> (of_int k / 100 :: rat)" "(of_int k / 100 :: rat) \<le> 100" by simp_all
qed

lemma progress_tick_inv:
  assumes "poller_inv w" "progress_tick fs w = Inr w'"
  shows "poller_inv w'"
proof (cases "log_mtime fs (w_log_path w)")
  case None
  then show ?thesis using assms by (simp add: progress_tick_def)
next
  case (Some t)
  show ?thesis
  proof (cases "t \<noteq> time_log w \<and> progress w \<le> nbFiles w \<and> 0 < nbFiles w")
    case True
    note b = tick_value_bounds [of "progress w" "nbFiles w"]
    show ?thesis using assms Some True b
      by (auto simp: progress_tick_def poller_inv_def Let_def split: if_splits)
  next
    case False
    then show ?thesis using assms Some by (auto simp: progress_tick_def Let_def split: if_splits)
  qed
qed

lemma time_display_inv [simp]: "poller_inv (time_display now w) = poller_inv w"
  by (simp add: poller_inv_def time_display_def)

lemma show_success_inv: "poller_inv w \<Longrightarrow> poller_inv (show_success w)"
  by (simp add: poller_inv_def show_success_def)

lemma onProcessUpdate_inv:
  "poller_inv w \<Longrightarrow> onProcessUpdate fs now c w = Inr w' \<Longrightarrow> poller_inv w'"
  by (auto simp: onProcessUpdate_def sbind_eq_Inr Let_def show_success_inv dest: progress_tick_inv)

lemma onProcessStarted_inv: "onProcessStarted fs now w0 = Inr w \<Longrightarrow> poller_inv w"
  by (auto simp: onProcessStarted_def poller_inv_def Let_def split: sum.splits prod.splits)

lemma progress_tick_step:
  assumes "log_mtime fs (w_log_path w) = Some t" "t \<noteq> time_log w" "progress w \<le> nbFiles w" "0 < nbFiles w"
  shows "\<exists>w1. progress_tick fs w = Inr w1 \<and> progress w1 = Suc (progress w) \<and> time_log w1 = t
    \<and> nbFiles w1 = nbFiles w \<and> w_log_path w1 = w_log_path w \<and> universal_time w1 = universal_time w
    \<and> label_files w1 = files_text (int (progress w)) (nbFiles w)
    \<and> progressBar_value w1 = min 100 (of_int (hundredths (of_nat (progress w) / of_nat (nbFiles w) * 100)) / 100)"
  using assms tick_value_bounds [of "progress w" "nbFiles w"]
  by (auto simp: progress_tick_def Let_def min_def)

lemma poll_samples_count:
  assumes "sorted_wrt (<) ts" "\<forall>t \<in> set ts. time_log w < t"
    and "map (\<lambda>(fs, _). log_mtime fs (w_log_path w)) ss = map Some ts"
    and "progress w + length ss \<le> Suc (nbFiles w)" "0 < nbFiles w"
  shows "\<exists>w'. poll_samples ss w = Inr w' \<and> progress w' = progress w + length ss
    \<and> nbFiles w' = nbFiles w \<and> w_log_path w' = w_log_path w
    \<and> (ss \<noteq> [] \<longrightarrow> label_files w' = files_text (int (progress w') - 1) (nbFiles w)
       \<and> progressBar_value w' =
           min 100 (of_int (hundredths (of_nat (progress w' - 1) / of_nat (nbFiles w) * 100)) / 100))"
  using assms
proof (induction ss arbitrary: w ts)
  case Nil
  then show ?case by simp
next
  case (Cons s ss)
  obtain fs now where s: "s = (fs, now)" by (cases s)
  from Cons.prems(3) s obtain t ts' where ts: "ts = t # ts'"
    and mt: "log_mtime fs (w_log_path w) = Some t"
    and rest: "map (\<lambda>(fs, _). log_mtime fs (w_log_path w)) ss = map Some ts'"
    by (cases ts) auto
  have tl: "t \<noteq> time_log w" using Cons.prems(2) ts by auto
  have pl: "progress w \<le> nbFiles w" using Cons.prems(4) by simp
  obtain w1 where w1: "progress_tick fs w = Inr w1" "progress w1 = Suc (progress w)" "time_log w1 = t"
      "nbFiles w1 = nbFiles w" "w_log_path w1 = w_log_path w"
      "label_files w1 = files_text (int (progress w)) (nbFiles w)"
      "progressBar_value w1 = min 100 (of_int (hundredths (of_nat (progress w) / of_nat (nbFiles w) * 100)) / 100)"
    using progress_tick_step [OF mt tl pl Cons.prems(5)] by blast
  let ?w2 = "time_display now w1"
  have "\<exists>w'. poll_samples ss ?w2 = Inr w' \<and> progress w' = progress ?w2 + length ss
    \<and> nbFiles w' = nbFiles ?w2 \<and> w_log_path w' = w_log_path ?w2
    \<and> (ss \<noteq> [] \<longrightarrow> label_files w' = files_text (int (progress w') - 1) (nbFiles ?w2)
       \<and> progressBar_value w' =
           min 100 (of_int (hundredths (of_nat (progress w' - 1) / of_nat (nbFiles ?w2) * 100)) / 100))"
  proof (rule Cons.IH)
    show "sorted_wrt (<) ts'" using Cons.prems(1) ts by simp
    show "\<forall>t \<in> set ts'. time_log ?w2 < t" using Cons.prems(1) ts w1(3) by (simp add: time_display_def)
    show "map (\<lambda>(fs, _). log_mtime fs (w_log_path ?w2)) ss = map Some ts'"
      using rest w1(5) by (simp add: time_display_def)
    show "progress ?w2 + length ss \<le> Suc (nbFiles ?w2)"
      using Cons.prems(4) w1(2,4) by (simp add: time_display_def)
    show "0 < nbFiles ?w2" using Cons.prems(5) w1(4) by (simp add: time_display_def)
  qed
  then show ?case using w1 s by (cases ss) (auto simp: time_display_def)
qed

subsection \<open>Properties\<close>

text \<open>
  C5: the display's bounds hold in every state of a run: after \<open>onProcessStarted\<close> and
  any sequence of \<open>onProcessUpdate\<close> calls, the counter is at most the number of input
  entries plus one (the truncation of the log counts once) and the bar value lies
  between 0 and 100.
\<close>

theorem display_reach_inv: "display_reach w \<Longrightarrow> poller_inv w"
  by (induction rule: display_reach.induct) (auto intro: onProcessStarted_inv onProcessUpdate_inv)

theorem display_reach_inv_witness:
  "\<exists>w. onProcessStarted poll_fs 0 poll_form = Inr w \<and> poller_inv w"
proof -
  obtain w where h: "onProcessStarted poll_fs 0 poll_form = Inr w"
    by (simp add: onProcessStarted_def listdir_def poll_fs_def poll_form_def form0_def Let_def)
  have "display_reach w" using h by (rule display_reach.started)
  then have "poller_inv w" by (rule display_reach_inv)
  with h show ?thesis by blast
qed

text \<open>
  C21: with an empty input folder the first tick of the log raises \<open>ZeroDivisionError\<close>
  in \<open>onProcessUpdate\<close>: \<open>onProcessStarted\<close> counts zero entries, and the guard
  \<open>progress <= nbFiles\<close> lets the first tick through to \<open>(progress - 1) / nbFiles\<close>.
\<close>

theorem update_empty_input_divides_by_zero:
  assumes "onProcessStarted fs now w0 = Inr w" "folders fs (lineEdit_inputFolder w0) = Some []"
    and "log_mtime fs (w_log_path w0) = Some t" "t \<noteq> time_log w0"
  shows "\<exists>w'. onProcessUpdate fs now' c w = Inl (ZeroDivisionError, w')"
  using assms by (auto simp: onProcessStarted_def onProcessUpdate_def progress_tick_def listdir_def Let_def)

theorem update_empty_input_divides_by_zero_witness:
  "\<exists>w w'. onProcessStarted (poll_fs\<lparr>folders := [''/in'' \<mapsto> []]\<rparr>) 0 poll_form = Inr w
     \<and> onProcessUpdate (poll_fs\<lparr>folders := [''/in'' \<mapsto> []]\<rparr>) 1 False w = Inl (ZeroDivisionError, w')"
proof -
  obtain w where h: "onProcessStarted (poll_fs\<lparr>folders := [''/in'' \<mapsto> []]\<rparr>) 0 poll_form = Inr w"
    by (simp add: onProcessStarted_def listdir_def poll_fs_def poll_form_def form0_def Let_def)
  have "\<exists>w'. onProcessUpdate (poll_fs\<lparr>folders := [''/in'' \<mapsto> []]\<rparr>) 1 False w = Inl (ZeroDivisionError, w')"
    by (rule update_empty_input_divides_by_zero [where t = 5, OF h])
      (simp_all add: poll_fs_def poll_form_def form0_def log_mtime_def)
  with h show ?thesis by blast
qed

text \<open>
  C4: a tick implements the formula of the specification: when the log's modification
  time differs from the last one seen and the counter is at most the number of entries,
  the counter goes up by one, the time is remembered, the bar shows
  \<open>min(100, round((count - 1) / total * 100, 2))\<close>, and the label shows \<open>count - 1\<close> of
  the total.
\<close>

theorem progress_tick_formula:
  assumes "progress_tick fs w = Inr w'" "log_mtime fs (w_log_path w) = Some t"
    and "t \<noteq> time_log w" "progress w \<le> nbFiles w"
  shows "progress w' = Suc (progress w) \<and> time_log w' = t \<and>
    progressBar_value w' = min 100 (of_int (hundredths (of_nat (progress w' - 1) / of_nat (nbFiles w') * 100)) / 100)
    \<and> label_files w' = files_text (int (progress w)) (nbFiles w)"
  using assms tick_value_bounds [of "progress w" "nbFiles w"]
  by (auto simp: progress_tick_def Let_def min_def split: if_splits)

theorem progress_tick_formula_witness:
  "\<exists>w'. progress_tick (poll_fs\<lparr>logs := [''/tmp/process.log'' \<mapsto> \<lparr>lcontent = ''0'', mtimes = [5, 6]\<rparr>]\<rparr>)
           (poll_form\<lparr>nbFiles := 3, progress := 1, time_log := 5\<rparr>) = Inr w'
     \<and> progress w' = 2 \<and> progressBar_value w' = 3333 / 100"
proof -
  let ?fs = "poll_fs\<lparr>logs := [''/tmp/process.log'' \<mapsto> \<lparr>lcontent = ''0'', mtimes = [5, 6]\<rparr>]\<rparr>"
  let ?w = "poll_form\<lparr>nbFiles := 3, progress := 1, time_log := 5\<rparr>"
  have mt: "log_mtime ?fs (w_log_path ?w) = Some 6"
    by (simp add: log_mtime_def poll_form_def)
  have fl: "\<lfloor>(10000::rat) / 3\<rfloor> = 3333" by (simp add: floor_eq_iff)
  have k: "hundredths (of_nat 1 / of_nat 3 * 100) = 3333"
    by (simp add: hundredths_def round_half_even_def Let_def fl)
  obtain w' where h: "progress_tick ?fs ?w = Inr w'"
    using mt by (simp add: progress_tick_def Let_def split: if_splits)
  have "progress w' = Suc (progress ?w) \<and> time_log w' = 6 \<and>
    progressBar_value w' = min 100 (of_int (hundredths (of_nat (progress w' - 1) / of_nat (nbFiles w') * 100)) / 100)
    \<and> label_files w' = files_text (int (progress ?w)) (nbFiles ?w)"
    by (rule progress_tick_formula [OF h mt]) simp_all
  moreover have "nbFiles w' = 3"
    using h mt by (auto simp: progress_tick_def Let_def split: if_splits)
  ultimately show ?thesis using h k by simp
qed

end
