(* ===== verification/WinPath.thy ===== *)
theory WinPath
  imports PyStr
begin

text \<open>
  \<open>replaceAllWidget.windows_to_linux_path\<close> (\<open>src/replaceAll/replaceAll.py\<close> lines 471--483),
  which turns a Windows path into the path WSL mounts it under, with the CPython string
  methods it calls: \<open>str.strip()\<close>, \<open>str.lower()\<close> and \<open>str.split(sep, 1)\<close>. Strings are
  lists of 8-bit characters read as the Latin-1 code points; \<open>isspace\<close> and \<open>lower\<close> are
  those of Python's \<open>str\<close> (Unicode) on that range.
\<close>

text \<open>\<open>str.isspace\<close> on one character: the C0 separators, blank, NEL and NBSP.\<close>

definition py_isspace :: "char \<Rightarrow> bool" where
  "py_isspace c \<longleftrightarrow>
     (let n = of_char c :: nat in
      (9 \<le> n \<and> n \<le> 13) \<or> (28 \<le> n \<and> n \<le> 32) \<or> n = 133 \<or> n = 160)"

definition py_strip :: "string \<Rightarrow> string" where
  "py_strip s = rev (dropWhile py_isspace (rev (dropWhile py_isspace s)))"

text \<open>\<open>str.lower\<close> on one character: ASCII capitals and the Latin-1 capitals
  \<open>U+00C0\<close>--\<open>U+00DE\<close> (except the multiplication sign \<open>U+00D7\<close>) move down by 32.\<close>

definition py_lower_char :: "char \<Rightarrow> char" where
  "py_lower_char c =
     (let n = of_char c :: nat in
      if (65 \<le> n \<and> n \<le> 90) \<or> (192 \<le> n \<and> n \<le> 222 \<and> n \<noteq> 215) then char_of (n + 32) else c)"

definition py_lower :: "string \<Rightarrow> string" where
  "py_lower s = map py_lower_char s"

text \<open>\<open>s.split(sep, 1)\<close>: at most one cut, at the first occurrence of \<open>sep\<close>.\<close>

fun split1_scan :: "string \<Rightarrow> string \<Rightarrow> string \<Rightarrow> string list" where
  "split1_scan sep acc [] = [acc]"
| "split1_scan sep acc (c # cs) =
     (if starts_with sep (c # cs) then [acc, drop (length sep) (c # cs)]
      else split1_scan sep (acc @ [c]) cs)"

definition py_split1 :: "string \<Rightarrow> string \<Rightarrow> string list result" where
  "py_split1 sep s = (if sep = [] then Inl (ValueError ''empty separator'') else Inr (split1_scan sep [] s))"

text \<open>
  The conversion. The unpacking \<open>drive, path_without_drive = path.split(':', 1)\<close> raises
  \<open>ValueError\<close> unless the split yields exactly two pieces; the model keeps that branch.
  The backslash is the character \<open>0x5C\<close>.
\<close>

definition windows_to_linux_path :: "string \<Rightarrow> string result" where
  "windows_to_linux_path windows_path0 =
     (let windows_path = py_strip windows_path0;
          path = py_replace [CHR 0x5C] ''/'' windows_path in
      if py_contains '':'' path then
        (case py_split1 '':'' path of
           Inr [drive, path_without_drive] \<Rightarrow> Inr (''/mnt/'' @ py_lower drive @ path_without_drive)
         | Inr _ \<Rightarrow> Inl (ValueError ''not enough values to unpack'')
         | Inl e \<Rightarrow> Inl e)
      else Inr path)"

declare py_isspace_def [model_simps] py_strip_def [model_simps] py_lower_char_def [model_simps]
  py_lower_def [model_simps] py_split1_def [model_simps] windows_to_linux_path_def [model_simps]

text \<open>The character map \<open>replace\<close> performs for a one-character pattern.\<close>

definition subst_char :: "char \<Rightarrow> char \<Rightarrow> char \<Rightarrow> char" where
  "subst_char a b c = (if c = a then b else c)"

subsection \<open>Lemmas\<close>

lemma replace_scan_char: "replace_scan [a] [b] s = map (subst_char a b) s"
  by (induction s) (auto simp: subst_char_def)

lemma py_replace_char: "py_replace [a] [b] s = map (subst_char a b) s"
  by (simp add: py_replace_def replace_scan_char)

lemma py_contains_char: "py_contains [a] s \<longleftrightarrow> a \<in> set s"
  by (induction s) auto

lemma split1_scan_char:
  "a \<in> set s \<Longrightarrow>
   split1_scan [a] acc s = [acc @ takeWhile (\<lambda>c. c \<noteq> a) s, tl (dropWhile (\<lambda>c. c \<noteq> a) s)]"
  by (induction s arbitrary: acc) auto

lemma split1_scan_char_absent: "a \<notin> set s \<Longrightarrow> split1_scan [a] acc s = [acc @ s]"
  by (induction s arbitrary: acc) auto

lemma py_strip_id:
  assumes "s = [] \<or> (\<not> py_isspace (hd s) \<and> \<not> py_isspace (last s))"
  shows "py_strip s = s"
proof (cases "s = []")
  case False
  then obtain c cs where s: "s = c # cs" by (cases s) auto
  with assms have c: "\<not> py_isspace c" by simp
  from s assms have l: "\<not> py_isspace (last s)" by simp
  have "rev s = last s # rev (butlast s)"
    using False by (metis append_butlast_last_id rev.simps(2) rev_rev_ident)
  with c l s show ?thesis by (simp add: py_strip_def)
qed (simp add: py_strip_def)

lemma map_subst_colon:
  "CHR '':'' \<notin> set d \<Longrightarrow> CHR '':'' \<notin> set (map (subst_char (CHR 0x5C) CHR ''/'') d)"
  by (auto simp: subst_char_def)

lemma windows_to_linux_path_eq:
  "windows_to_linux_path p =
     (let q = map (subst_char (CHR 0x5C) CHR ''/'') (py_strip p) in
      Inr (if CHR '':'' \<in> set q
           then ''/mnt/'' @ py_lower (takeWhile (\<lambda>c. c \<noteq> CHR '':'') q) @ tl (dropWhile (\<lambda>c. c \<noteq> CHR '':'') q)
           else q))"
  by (simp add: windows_to_linux_path_def py_replace_char py_contains_char py_split1_def
      split1_scan_char Let_def)

lemma py_lower_char_backslash:
  assumes h: "py_lower_char c = CHR 0x5C" shows "c = CHR 0x5C"
proof (cases "((65::nat) \<le> of_char c \<and> of_char c \<le> (90::nat)) \<or>
              ((192::nat) \<le> of_char c \<and> of_char c \<le> (222::nat) \<and> of_char c \<noteq> (215::nat))")
  case True
  then have lt: "(of_char c + 32) mod 256 = (of_char c + 32 :: nat)"
    by (intro mod_less) auto
  have "of_char (py_lower_char c) = (of_char c + 32) mod (256::nat)"
    using True by (simp add: py_lower_char_def Let_def of_char_of)
  with h lt True have False by simp
  then show ?thesis ..
next
  case False
  have "py_lower_char c = c"
    unfolding py_lower_char_def Let_def using False by (rule if_not_P)
  then show ?thesis using h by simp
qed

lemma backslash_py_lower: "CHR 0x5C \<notin> set s \<Longrightarrow> CHR 0x5C \<notin> set (py_lower s)"
  by (auto simp: py_lower_def) (metis py_lower_char_backslash)

subsection \<open>Properties\<close>

text \<open>
  C18: \<open>windows_to_linux_path\<close> never raises: the unpacking of \<open>path.split(':', 1)\<close> is guarded by \<open>':' in path\<close>, so the split always yields two pieces.
\<close>

theorem windows_to_linux_path_total: "\<exists>r. windows_to_linux_path p = Inr r"
  by (simp add: windows_to_linux_path_eq Let_def)

text \<open>
  C17: a Windows path \<open>d:rest\<close> (no colon in the drive part, no surrounding blanks) becomes \<open>/mnt/\<close> followed by the lowercased drive part and the rest, with every backslash turned into a slash.
\<close>

theorem windows_to_linux_path_drive:
  assumes "CHR '':'' \<notin> set d" "\<not> py_isspace (hd (d @ CHR '':'' # r))" "\<not> py_isspace (last (d @ CHR '':'' # r))"
  shows "windows_to_linux_path (d @ CHR '':'' # r) =
    Inr (''/mnt/'' @ py_lower (map (subst_char (CHR 0x5C) CHR ''/'') d) @ map (subst_char (CHR 0x5C) CHR ''/'') r)"
proof -
  have "py_strip (d @ CHR '':'' # r) = d @ CHR '':'' # r"
    using assms(2,3) by (intro py_strip_id) simp
  moreover have "map (subst_char (CHR 0x5C) CHR ''/'') (d @ CHR '':'' # r) =
      map (subst_char (CHR 0x5C) CHR ''/'') d @ CHR '':'' # map (subst_char (CHR 0x5C) CHR ''/'') r"
    by (simp add: subst_char_def)
  moreover note nd = map_subst_colon [OF assms(1)]
  then have "takeWhile (\<lambda>c. c \<noteq> CHR '':'') (map (subst_char (CHR 0x5C) CHR ''/'') d @ CHR '':'' # x) =
      map (subst_char (CHR 0x5C) CHR ''/'') d"
    and "dropWhile (\<lambda>c. c \<noteq> CHR '':'') (map (subst_char (CHR 0x5C) CHR ''/'') d @ CHR '':'' # x) = CHR '':'' # x"
    for x by (simp_all add: takeWhile_neq_append dropWhile_neq_append)
  ultimately show ?thesis by (simp add: windows_to_linux_path_eq Let_def)
qed

theorem windows_to_linux_path_drive_witness:
  "windows_to_linux_path (''C'' @ CHR '':'' # [CHR 0x5C] @ ''data'') = Inr ''/mnt/c/data''"
proof -
  have "windows_to_linux_path (''C'' @ CHR '':'' # [CHR 0x5C] @ ''data'') =
    Inr (''/mnt/'' @ py_lower (map (subst_char (CHR 0x5C) CHR ''/'') ''C'') @
         map (subst_char (CHR 0x5C) CHR ''/'') ([CHR 0x5C] @ ''data''))"
    by (rule windows_to_linux_path_drive) (simp_all add: py_isspace_def)
  then show ?thesis by (simp add: subst_char_def py_lower_def py_lower_char_def char_of_def bit_0)
qed

text \<open>
  C28: a converted path contains no backslash.
\<close>

theorem windows_to_linux_path_no_backslash:
  "windows_to_linux_path p = Inr r \<Longrightarrow> CHR 0x5C \<notin> set r"
proof -
  let ?q = "map (subst_char (CHR 0x5C) CHR ''/'') (py_strip p)"
  have q: "CHR 0x5C \<notin> set ?q" by (auto simp: subst_char_def)
  have "CHR 0x5C \<notin> set (takeWhile (\<lambda>c. c \<noteq> CHR '':'') ?q)"
    using q by (auto dest: set_takeWhileD)
  then have "CHR 0x5C \<notin> set (py_lower (takeWhile (\<lambda>c. c \<noteq> CHR '':'') ?q))"
    by (rule backslash_py_lower)
  moreover have "set (tl (dropWhile (\<lambda>c. c \<noteq> CHR '':'') ?q)) \<subseteq> set ?q"
    by (meson in_set_tl set_dropWhileD subsetI)
  then have "CHR 0x5C \<notin> set (tl (dropWhile (\<lambda>c. c \<noteq> CHR '':'') ?q))"
    using q by blast
  moreover assume "windows_to_linux_path p = Inr r"
  ultimately show ?thesis using q by (auto simp: windows_to_linux_path_eq Let_def split: if_splits)
qed

theorem windows_to_linux_path_no_backslash_witness:
  "CHR 0x5C \<notin> set ''/mnt/c/data''"
proof -
  have "windows_to_linux_path (''C:'' @ [CHR 0x5C] @ ''data'') = Inr ''/mnt/c/data''"
    by (simp add: windows_to_linux_path_eq py_strip_def py_isspace_def subst_char_def
        py_lower_def py_lower_char_def char_of_def bit_0)
  then show ?thesis by (rule windows_to_linux_path_no_backslash)
qed

end

