(* ===== verification/Dispatch.thy ===== *)
theory Dispatch
  imports Poller WinPath
begin

text \<open>
  The dispatch of a job by the widget (\<open>src/replaceAll/replaceAll.py\<close>):
  \<open>onApplyButton\<close> (lines 303--422) and the helpers of its Windows branch,
  \<open>check_pythonpath_windows\<close>, \<open>give_pythonpath_windows\<close>, \<open>process_wsl\<close>,
  \<open>creation_env_wsl\<close> and \<open>check_lib_wsl\<close> (lines 485--584), together with the widget's
  own \<open>condaCreateEnv\<close> and \<open>condaInstallLibEnv\<close> (lines 424--470).

  The environment manager (\<open>CondaSetUpCallWsl\<close> of the SlicerConda extension, not part of
  this repository), \<open>platform.system()\<close>, \<open>subprocess.run\<close> of the WSL shell and the
  confirmation dialog are an interface: a record of functions over an abstract state
  \<open>'e\<close> of the outside world, which the dispatch threads through. A command run in the
  environment returns its output text and the new outside state.
\<close>

record 'e wsl_env =
  testWslAvailable :: "'e \<Rightarrow> bool"
  getCondaExecutable :: "'e \<Rightarrow> string"
  getCondaPath :: "'e \<Rightarrow> string"
  condaRunCommand :: "string list \<Rightarrow> 'e \<Rightarrow> string \<times> 'e"
  condaTestEnv :: "string \<Rightarrow> 'e \<Rightarrow> bool"
  condaCreateEnv :: "string \<Rightarrow> string \<Rightarrow> 'e \<Rightarrow> 'e"
  wsl_stdout :: "string \<Rightarrow> 'e \<Rightarrow> string"
  confirmYesNoDisplay :: "string \<Rightarrow> 'e \<Rightarrow> bool"
  searchPaths :: "'e \<Rightarrow> string list"

type_synonym 'e wstate = "widget \<times> 'e"
type_synonym 'e dres = "(py_error \<times> 'e wstate) + 'e wstate"

text \<open>\<open>output.encode('utf-16-le').decode('utf-8')\<close> followed by \<open>replace('\x00', '')\<close>: a
  character below 128 becomes itself and a NUL byte, which is then removed; any other
  character gives a byte sequence that is not UTF-8, and the decoding raises.\<close>

definition utf16_reinterpret :: "string \<Rightarrow> string result" where
  "utf16_reinterpret s =
     (if list_all (\<lambda>c. of_char c < (128::nat)) s then Inr (filter (\<lambda>c. c \<noteq> CHR 0x00) s)
      else Inl UnicodeDecodeError)"

definition check_lib_wsl :: "'e wsl_env \<Rightarrow> 'e \<Rightarrow> bool result" where
  "check_lib_wsl env e =
     sbind (utf16_reinterpret (wsl_stdout env ''wsl -- bash -c \"dpkg -l | grep libxrender1\"'' e))
       (\<lambda>clean_output1.
          sbind (utf16_reinterpret (wsl_stdout env ''wsl -- bash -c \"dpkg -l | grep libgl1-mesa-glx\"'' e))
            (\<lambda>clean_output2.
               Inr (py_contains ''libxrender1'' clean_output1 \<and> py_contains ''libgl1-mesa-glx'' clean_output2)))"

definition quoted :: "string \<Rightarrow> string" where
  "quoted s = ''\"'' @ s @ ''\"''"

definition check_pythonpath_windows :: "'e wsl_env \<Rightarrow> string \<Rightarrow> string \<Rightarrow> 'e \<Rightarrow> bool \<times> 'e" where
  "check_pythonpath_windows env name_env file e =
     (let conda_exe = getCondaExecutable env e;
          command = [conda_exe, ''run'', ''-n'', name_env, ''python'', ''-c'',
                     quoted (''import '' @ file @ '' as check;import os; print(os.path.isfile(check.__file__))'')];
          (result, e') = condaRunCommand env command e
      in (py_contains ''True'' result, e'))"

text \<open>A conversion of every path of a list (an exception of one aborts the list).\<close>

fun map_result :: "('a \<Rightarrow> 'b result) \<Rightarrow> 'a list \<Rightarrow> 'b list result" where
  "map_result f [] = Inr []"
| "map_result f (x # xs) = sbind (f x) (\<lambda>y. sbind (map_result f xs) (\<lambda>ys. Inr (y # ys)))"

definition give_pythonpath_windows :: "'e wsl_env \<Rightarrow> string \<Rightarrow> 'e \<Rightarrow> (py_error \<times> 'e) + 'e" where
  "give_pythonpath_windows env name_env e =
     (case map_result (\<lambda>path. sbind (windows_to_linux_path path) (\<lambda>p. Inr (quoted p))) (searchPaths env e) of
        Inl err \<Rightarrow> Inl (err, e)
      | Inr mnt_paths \<Rightarrow>
          (let pythonpath_arg = ''PYTHONPATH='' @ py_join '':'' mnt_paths;
               conda_exe = getCondaExecutable env e;
               argument = [conda_exe, ''env'', ''config'', ''vars'', ''set'', ''-n'', name_env, pythonpath_arg]
           in Inr (snd (condaRunCommand env argument e))))"

text \<open>The check of the module path, with one repair and one retry (lines 514--517 and
  550--555).\<close>

definition ensure_pythonpath :: "'e wsl_env \<Rightarrow> string \<Rightarrow> string \<Rightarrow> 'e \<Rightarrow> (py_error \<times> 'e) + (bool \<times> 'e)" where
  "ensure_pythonpath env name_env file e =
     (let (r, e1) = check_pythonpath_windows env name_env file e in
      if r then Inr (True, e1)
      else sbind (give_pythonpath_windows env name_env e1)
             (\<lambda>e2. Inr (check_pythonpath_windows env name_env file e2)))"

text \<open>The worker's command line: the module, then every value of the parameter
  dictionary, in its order, as \<open>str\<close> between double quotes.\<close>

definition worker_command :: "string \<Rightarrow> (string \<times> pval) list \<Rightarrow> string list" where
  "worker_command conda_exe param =
     [conda_exe, ''run'', ''-n'', ''replaceAll'', ''python'', ''-m'', ''replaceAll_utils.replaceAll_WSL'']
     @ map (\<lambda>(key, value). quoted (py_str_pval value)) param"

definition convert_param :: "string \<Rightarrow> (string \<times> pval) list \<Rightarrow> (string \<times> pval) list result" where
  "convert_param key param =
     (case map_of param key of
        Some (PStr v) \<Rightarrow> sbind (windows_to_linux_path v) (\<lambda>v'. Inr (AList.update key (PStr v') param))
      | _ \<Rightarrow> Inr param)"

definition process_wsl :: "'e wsl_env \<Rightarrow> (string \<times> pval) list \<Rightarrow> 'e \<Rightarrow> (py_error \<times> 'e) + 'e" where
  "process_wsl env param e =
     (let name_env = ''replaceAll'' in
      sbind (ensure_pythonpath env name_env ''replaceAll_utils.replaceAll_WSL'' e)
        (\<lambda>(result_pythonpath, e1).
           if result_pythonpath then
             (case sbind (convert_param ''input_folder'' param)
                     (\<lambda>p1. sbind (convert_param ''output_folder'' p1) (convert_param ''log_path'')) of
                Inl err \<Rightarrow> Inl (err, e1)
              | Inr param' \<Rightarrow>
                  Inr (snd (condaRunCommand env (worker_command (getCondaExecutable env e1) param') e1)))
           else Inr e1))"

definition creation_env_wsl :: "'e wsl_env \<Rightarrow> 'e \<Rightarrow> (py_error \<times> 'e) + 'e" where
  "creation_env_wsl env e =
     (let name_env = ''replaceAll'';
          e1 = condaCreateEnv env name_env ''3.9'' e
      in sbind (ensure_pythonpath env name_env ''replaceAll_utils.requirement'' e1)
           (\<lambda>(result_pythonpath, e2).
              if result_pythonpath then
                (let conda_exe = getCondaExecutable env e2;
                     path_pip = getCondaPath env e2 @ ''/envs/'' @ name_env @ ''/bin/pip'';
                     command = [conda_exe, ''run'', ''-n'', name_env, ''python'', ''-m'',
                                ''replaceAll_utils.requirement'', path_pip]
                 in Inr (snd (condaRunCommand env command e2)))
              else Inr e2))"

text \<open>The widget's copies of \<open>condaCreateEnv\<close> and \<open>condaInstallLibEnv\<close> (lines 424--470)
  start with \<open>self.getUser()\<close> and \<open>self.getActivateExecutable()\<close>, which the widget class
  does not define: they raise \<open>AttributeError\<close> before doing anything. Nothing calls them.\<close>

definition widget_condaCreateEnv :: "'e \<Rightarrow> (py_error \<times> 'e) + 'e" where
  "widget_condaCreateEnv e = Inl (AttributeError ''getUser'', e)"

definition widget_condaInstallLibEnv :: "'e \<Rightarrow> (py_error \<times> 'e) + string" where
  "widget_condaInstallLibEnv e = Inl (AttributeError ''getActivateExecutable'', e)"

text \<open>The texts of the message boxes of the Windows branch.\<close>

definition installer_text :: string where
  "installer_text =
     ''please download the installer and follow the instructin here : https://github.com/DCBIA-OrthoLab/SlicerAutomatedDentalTools/releases/download/wsl2_windows/installer_wsl2.zip''
     @ [CHR 0x0A] @ ''Downloading may be blocked by Chrome, this is normal, just authorize it.''"

definition msg_no_lib :: string where
  "msg_no_lib = ''Code can't be launch. '' @ [CHR 0x0A] @ ''WSL doen't have all the necessary libraries, '' @ installer_text"

definition msg_no_wsl :: string where
  "msg_no_wsl = ''Code can't be launch. '' @ [CHR 0x0A] @ ''WSL is not installed, '' @ installer_text"

definition msg_no_conda :: string where
  "msg_no_conda = ''Code can't be launch. '' @ [CHR 0x0A] @
     ''Conda is not setup in WSL. Please go the extension CondaSetUp in SlicerConda to do it.''"

definition show_message :: "string \<Rightarrow> widget \<Rightarrow> widget" where
  "show_message text w = w\<lparr>messages := messages w @ [text]\<rparr>"

text \<open>The readiness checks of the Windows branch (lines 316--338): WSL, its libraries, and
  conda inside it. \<open>check_lib_wsl\<close> can raise.\<close>

definition wsl_ready :: "'e wsl_env \<Rightarrow> widget \<Rightarrow> 'e \<Rightarrow> (py_error \<times> 'e wstate) + (bool \<times> 'e wstate)" where
  "wsl_ready env w e =
     sbind (if testWslAvailable env e then
              (case check_lib_wsl env e of
                 Inl err \<Rightarrow> Inl (err, (w, e))
               | Inr lib \<Rightarrow> if \<not> lib then Inr (False, (show_message msg_no_lib w, e)) else Inr (True, (w, e)))
            else Inr (False, (show_message msg_no_wsl w, e)))
       (\<lambda>(ready, (w1, e1)).
          if ready then
            (let (out, e2) = condaRunCommand env [getCondaExecutable env e1, ''--version''] e1 in
             if py_contains ''Error'' out then Inr (False, (show_message msg_no_conda w1, e2))
             else Inr (True, (w1, e2)))
          else Inr (False, (w1, e1)))"

text \<open>The outside state left by a thread: an exception ends the thread and is reported by
  it; it does not reach the handler.\<close>

definition thread_result :: "(py_error \<times> 'e) + 'e \<Rightarrow> 'e" where
  "thread_result r = (case r of Inl (_, e) \<Rightarrow> e | Inr e \<Rightarrow> e)"

definition with_outside :: "'e \<Rightarrow> wres \<Rightarrow> 'e dres" where
  "with_outside e r = (case r of Inl (err, w) \<Rightarrow> Inl (err, (w, e)) | Inr w \<Rightarrow> Inr (w, e))"

text \<open>
  The Windows branch (lines 316--411). The environment is created on consent, in a thread
  the handler waits for; then the worker runs in a thread while the handler shows the
  progress, sampling the file system as \<open>Poller.poll_loop\<close> describes, and finally shows
  the success display. The file system at the start of the run and the samples are
  arguments; the worker's effect on the outside state is that of \<open>process_wsl\<close>.
\<close>

definition windows_dispatch ::
  "'e wsl_env \<Rightarrow> (string \<times> pval) list \<Rightarrow> fs \<Rightarrow> rat \<Rightarrow> (fs \<times> rat) list \<Rightarrow> widget \<Rightarrow> 'e \<Rightarrow> 'e dres" where
  "windows_dispatch env param fs now samples w e =
     sbind (wsl_ready env w e)
       (\<lambda>(ready, (w1, e1)).
          if \<not> ready then Inr (w1, e1)
          else
            (let (ready2, e2) =
               (if \<not> condaTestEnv env ''replaceAll'' e1 then
                  (if confirmYesNoDisplay env
                        ''The environnement to rename files doesn't exist, do you want to create it ? '' e1
                   then (True, thread_result (creation_env_wsl env e1))
                   else (False, e1))
                else (True, e1))
             in if \<not> ready2 then Inr (w1, e2)
                else
                  (let e3 = thread_result (process_wsl env param e2) in
                   with_outside e3 (sbind (onProcessStarted fs now w1) (poll_loop samples)))))"

text \<open>The branch of the other systems (lines 413--422): after \<open>_checkIO\<close>, the logic object
  is built with the whole parameter dictionary as its only argument and started as a CLI
  (a new CLI node), the widget observes that node with \<open>onProcessUpdate\<close> (line 421;
  \<open>addObserver\<close> adds an observation not yet present), and the progress display is
  started.\<close>

definition local_dispatch :: "(string \<times> pval) list \<Rightarrow> fs \<Rightarrow> rat \<Rightarrow> widget \<Rightarrow> 'e \<Rightarrow> 'e dres" where
  "local_dispatch param fs now w e =
     (let (ok, w1) = checkIO fs w in
      if ok then
        (let cli = cli_started w1;
             w2 = w1\<lparr>logic := logic_process (replaceAllLogic_new (LDict param) LNone LNone LNone None LNone),
                     cli_started := Suc cli\<rparr>;
             w3 = (if cli \<in> set (cli_observed w2) then w2 else w2\<lparr>cli_observed := cli_observed w2 @ [cli]\<rparr>)
         in with_outside e (onProcessStarted fs now w3))
      else Inr (w1, e))"

text \<open>A modification event of the CLI node \<open>k\<close> (its progress or its completion): the
  observer \<open>onProcessUpdate\<close> runs if the widget observes that node. An exception of an
  observer is reported by the application and the widget keeps the state it had then.\<close>

definition cli_modified :: "nat \<Rightarrow> fs \<Rightarrow> rat \<Rightarrow> bool \<Rightarrow> widget \<Rightarrow> widget" where
  "cli_modified k fs now completed w =
     (if k \<in> set (cli_observed w)
      then (case onProcessUpdate fs now completed w of Inl (_, w') \<Rightarrow> w' | Inr w' \<Rightarrow> w')
      else w)"

text \<open>The parameter dictionary of \<open>onApplyButton\<close> (lines 305--312), in insertion order.\<close>

definition apply_params :: "widget \<Rightarrow> (string \<times> pval) list" where
  "apply_params w =
     [(''input_folder'', PStr (lineEdit_inputFolder w)), (''replace'', PStr (lineEdit_replaceString w)),
      (''by'', PStr (lineEdit_replaceByString w)), (''output_folder'', PStr (lineEdit_outputFolder w)),
      (''overwrite'', PBool (checkBox_overwrite w)), (''log_path'', PStr (w_log_path w))]"

definition onApplyButton ::
  "'e wsl_env \<Rightarrow> string \<Rightarrow> fs \<Rightarrow> rat \<Rightarrow> (fs \<times> rat) list \<Rightarrow> widget \<Rightarrow> 'e \<Rightarrow> 'e dres" where
  "onApplyButton env system fs now samples w e =
     (let param = apply_params w
      in if system = ''Windows''
         then windows_dispatch env param fs now samples (w\<lparr>applyButton_visible := False\<rparr>) e
         else local_dispatch param fs now w e)"

text \<open>Fixtures: an outside world that records the commands run in the environment (their
  output empty, or \<open>"True"\<close>), with WSL, its libraries and the environment present, and a
  user who declines.\<close>

definition rec_env :: "string list list wsl_env" where
  "rec_env =
     \<lparr>testWslAvailable = (\<lambda>_. True), getCondaExecutable = (\<lambda>_. ''conda''),
      getCondaPath = (\<lambda>_. ''/opt/conda''), condaRunCommand = (\<lambda>c tr. ([], tr @ [c])),
      condaTestEnv = (\<lambda>_ _. True), condaCreateEnv = (\<lambda>_ _ tr. tr),
      wsl_stdout = (\<lambda>cmd _. ''ii  libxrender1 libgl1-mesa-glx''), confirmYesNoDisplay = (\<lambda>_ _. False),
      searchPaths = (\<lambda>_. [])\<rparr>"

definition ok_env :: "string list list wsl_env" where
  "ok_env = rec_env\<lparr>condaRunCommand := (\<lambda>c tr. (''True'', tr @ [c]))\<rparr>"

declare utf16_reinterpret_def [model_simps] check_lib_wsl_def [model_simps] quoted_def [model_simps]
  check_pythonpath_windows_def [model_simps] give_pythonpath_windows_def [model_simps]
  ensure_pythonpath_def [model_simps] worker_command_def [model_simps] convert_param_def [model_simps]
  process_wsl_def [model_simps] creation_env_wsl_def [model_simps] show_message_def [model_simps]
  wsl_ready_def [model_simps] thread_result_def [model_simps] with_outside_def [model_simps]
  windows_dispatch_def [model_simps] local_dispatch_def [model_simps] cli_modified_def [model_simps]
  apply_params_def [model_simps] onApplyButton_def [model_simps]

subsection \<open>Lemmas\<close>

lemma progress_tick_apply: "progress_tick fs w = Inr w' \<Longrightarrow> applyButton_visible w' = applyButton_visible w"
  by (auto simp: progress_tick_def Let_def split: option.splits if_splits)

lemma poll_samples_apply: "poll_samples ss w = Inr w' \<Longrightarrow> applyButton_visible w' = applyButton_visible w"
proof (induction ss arbitrary: w)
  case (Cons s ss)
  obtain fs now where s: "s = (fs, now)" by (cases s)
  with Cons.prems obtain w1 where t: "progress_tick fs w = Inr w1"
    and r: "poll_samples ss (time_display now w1) = Inr w'"
    by (auto simp: sbind_eq_Inr)
  from Cons.IH [OF r] progress_tick_apply [OF t] show ?case by (simp add: time_display_def)
qed simp

lemma onProcessStarted_apply:
  "onProcessStarted fs now w = Inr w' \<Longrightarrow> applyButton_visible w' = applyButton_visible w"
  by (auto simp: onProcessStarted_def Let_def split: sum.splits)

lemma windows_dispatch_apply:
  "windows_dispatch env param fs now ss w e = Inr (w', e') \<Longrightarrow> applyButton_visible w' = applyButton_visible w"
  by (auto simp: windows_dispatch_def wsl_ready_def sbind_eq_Inr show_message_def poll_loop_def
      show_success_def with_outside_def Let_def
      split: sum.splits if_splits prod.splits dest!: poll_samples_apply onProcessStarted_apply)

lemma ui_handle_apply [simp]: "applyButton_visible (ui_handle ev w) = applyButton_visible w"
  by (cases ev) (simp_all add: openFinder_def widget_overwrite_def)

lemma ui_reach_apply: "ui_reach w0 w \<Longrightarrow> applyButton_visible w = applyButton_visible w0"
  by (induction rule: ui_reach.induct) simp_all

subsection \<open>Properties\<close>

text \<open>
  C25: on Windows a click on Apply hides the button (line 317) and neither any branch of the handler nor any action on the form shows it again: after one attempt, whether it ran the worker or stopped at a failed check, the module cannot be started again.
\<close>

theorem windows_apply_hidden_for_good:
  assumes "onApplyButton env ''Windows'' fs now ss w e = Inr (w', e')" "ui_reach w' w''"
  shows "\<not> applyButton_visible w''"
  using assms windows_dispatch_apply [of env _ fs now ss "w\<lparr>applyButton_visible := False\<rparr>" e w' e']
  by (simp add: onApplyButton_def apply_params_def ui_reach_apply)

theorem windows_apply_hidden_for_good_witness:
  "\<exists>w' e'. onApplyButton (rec_env\<lparr>testWslAvailable := (\<lambda>_. False)\<rparr>) ''Windows'' poll_fs 0 [] form0 [] = Inr (w', e')
     \<and> \<not> applyButton_visible (ui_handle ClickOverwrite w')"
proof -
  obtain w' e' where h: "onApplyButton (rec_env\<lparr>testWslAvailable := (\<lambda>_. False)\<rparr>) ''Windows'' poll_fs 0 [] form0 [] = Inr (w', e')"
    by (simp add: onApplyButton_def apply_params_def windows_dispatch_def wsl_ready_def rec_env_def Let_def)
  have "\<not> applyButton_visible (ui_handle ClickOverwrite w')"
    by (rule windows_apply_hidden_for_good [OF h]) (intro ui_next ui_refl)
  with h show ?thesis by blast
qed

text \<open>
  C24: the success display does not depend on the worker having run: when WSL, its
  libraries, conda and the environment are ready but the module path cannot be set up
  (the check fails after the repair), \<open>process_wsl\<close> returns without issuing the
  worker command, so the outside state is the one the path check left, and the handler
  still shows the success label and a full bar.
\<close>

theorem windows_success_without_worker:
  assumes "wsl_ready env (w\<lparr>applyButton_visible := False\<rparr>) e = Inr (True, (w1, e1))"
    and "condaTestEnv env ''replaceAll'' e1"
    and "ensure_pythonpath env ''replaceAll'' ''replaceAll_utils.replaceAll_WSL'' e1 = Inr (False, e2)"
    and "onProcessStarted fs now w1 = Inr w2" "poll_samples samples w2 = Inr w3"
  shows "\<exists>w'. onApplyButton env ''Windows'' fs now samples w e = Inr (w', e2)
    \<and> label_success_visible w' \<and> progressBar_value w' = 100"
proof -
  have "process_wsl env (apply_params w) e1 = Inr e2"
    using assms(3) by (simp add: process_wsl_def)
  then have "onApplyButton env ''Windows'' fs now samples w e = Inr (show_success w3, e2)"
    using assms(1,2,4,5)
    by (simp add: onApplyButton_def windows_dispatch_def thread_result_def with_outside_def poll_loop_def)
  then show ?thesis by (simp add: show_success_def)
qed

theorem windows_success_without_worker_witness:
  "\<exists>w' e2. ensure_pythonpath rec_env ''replaceAll'' ''replaceAll_utils.replaceAll_WSL''
       [[''conda'', ''--version'']] = Inr (False, e2)
     \<and> onApplyButton rec_env ''Windows'' poll_fs 0 [] poll_form [] = Inr (w', e2)
     \<and> label_success_visible w' \<and> progressBar_value w' = 100"
proof -
  have "\<exists>w1. wsl_ready rec_env (poll_form\<lparr>applyButton_visible := False\<rparr>) [] =
      Inr (True, (w1, [[''conda'', ''--version'']]))
    \<and> (\<exists>w2. onProcessStarted poll_fs 0 w1 = Inr w2 \<and> poll_samples [] w2 = Inr w2)"
    by (simp add: wsl_ready_def check_lib_wsl_def utf16_reinterpret_def rec_env_def onProcessStarted_def
        listdir_def poll_fs_def poll_form_def form0_def Let_def)
  then obtain w1 w2 where r: "wsl_ready rec_env (poll_form\<lparr>applyButton_visible := False\<rparr>) [] =
      Inr (True, (w1, [[''conda'', ''--version'']]))" "onProcessStarted poll_fs 0 w1 = Inr w2"
      "poll_samples [] w2 = Inr w2" by blast
  have "\<exists>e2. ensure_pythonpath rec_env ''replaceAll'' ''replaceAll_utils.replaceAll_WSL''
      [[''conda'', ''--version'']] = Inr (False, e2)"
    by (simp add: ensure_pythonpath_def check_pythonpath_windows_def give_pythonpath_windows_def
        rec_env_def quoted_def Let_def)
  then obtain e2 where p: "ensure_pythonpath rec_env ''replaceAll'' ''replaceAll_utils.replaceAll_WSL''
      [[''conda'', ''--version'']] = Inr (False, e2)" by blast
  have c: "condaTestEnv rec_env ''replaceAll'' [[''conda'', ''--version'']]" by (simp add: rec_env_def)
  show ?thesis using windows_success_without_worker [OF r(1) c p r(2,3)] p by blast
qed

text \<open>
  C13: once the module path is found, \<open>process_wsl\<close> runs the worker with its six positional arguments in the order \<open>argparse\<close> declares them (input folder, find, replace, output folder, overwrite, log path), the three paths converted to WSL paths, \<open>overwrite\<close> as \<open>str\<close> of the checkbox (\<open>"True"\<close> or \<open>"False"\<close>), each between double quotes.
\<close>

theorem process_wsl_command:
  assumes "check_pythonpath_windows env ''replaceAll'' ''replaceAll_utils.replaceAll_WSL'' e = (True, e1)"
    and "windows_to_linux_path i = Inr i'" "windows_to_linux_path ou = Inr ou'" "windows_to_linux_path l = Inr l'"
  shows "process_wsl env [(''input_folder'', PStr i), (''replace'', PStr r), (''by'', PStr b),
           (''output_folder'', PStr ou), (''overwrite'', PBool ow), (''log_path'', PStr l)] e =
    Inr (snd (condaRunCommand env
      ([getCondaExecutable env e1, ''run'', ''-n'', ''replaceAll'', ''python'', ''-m'', ''replaceAll_utils.replaceAll_WSL'']
       @ map quoted [i', r, b, ou', if ow then ''True'' else ''False'', l']) e1))"
  using assms by (simp add: process_wsl_def ensure_pythonpath_def convert_param_def worker_command_def)

theorem process_wsl_command_witness:
  "process_wsl ok_env [(''input_folder'', PStr ''C:/scans''), (''replace'', PStr ''scan''), (''by'', PStr ''study''),
       (''output_folder'', PStr ''C:/out''), (''overwrite'', PBool False), (''log_path'', PStr ''C:/tmp/process.log'')] [] =
   Inr [[''conda'', ''run'', ''-n'', ''replaceAll'', ''python'', ''-c'',
         quoted ''import replaceAll_utils.replaceAll_WSL as check;import os; print(os.path.isfile(check.__file__))''],
        [''conda'', ''run'', ''-n'', ''replaceAll'', ''python'', ''-m'', ''replaceAll_utils.replaceAll_WSL'',
         quoted ''/mnt/c/scans'', quoted ''scan'', quoted ''study'', quoted ''/mnt/c/out'', quoted ''False'',
         quoted ''/mnt/c/tmp/process.log'']]"
proof -
  have p: "windows_to_linux_path ''C:/scans'' = Inr ''/mnt/c/scans''"
    "windows_to_linux_path ''C:/out'' = Inr ''/mnt/c/out''"
    "windows_to_linux_path ''C:/tmp/process.log'' = Inr ''/mnt/c/tmp/process.log''"
    by (simp_all add: windows_to_linux_path_eq py_strip_def py_isspace_def subst_char_def
        py_lower_def py_lower_char_def char_of_def bit_0)
  have c: "check_pythonpath_windows ok_env ''replaceAll'' ''replaceAll_utils.replaceAll_WSL'' [] =
      (True, [[''conda'', ''run'', ''-n'', ''replaceAll'', ''python'', ''-c'',
         quoted ''import replaceAll_utils.replaceAll_WSL as check;import os; print(os.path.isfile(check.__file__))'']])"
    by (simp add: check_pythonpath_windows_def ok_env_def rec_env_def)
  show ?thesis
    using process_wsl_command [OF c p, of "''scan''" "''study''" False]
    by (simp add: ok_env_def rec_env_def)
qed

text \<open>
  C23: on other systems \<open>replaceAllLogic(param,)\<close> receives the whole parameter dictionary as its input folder: the CLI is started with the dictionary as \<open>input_folder\<close>, \<open>None\<close> for \<open>replace\<close>, \<open>by\<close>, \<open>output_folder\<close> and \<open>log_path\<close>, and the string \<open>"None"\<close> as \<open>overwrite\<close>, which the worker reads as "do not copy".
\<close>

theorem local_dispatch_parameters:
  assumes "system \<noteq> ''Windows''" "fst (checkIO fs w)"
  shows "\<exists>w'. onApplyButton env system fs now ss w e = Inr (w', e) \<and>
    cliNode (logic w') = Some
      [(''input_folder'', LDict [(''input_folder'', PStr (lineEdit_inputFolder w)), (''replace'', PStr (lineEdit_replaceString w)),
          (''by'', PStr (lineEdit_replaceByString w)), (''output_folder'', PStr (lineEdit_outputFolder w)),
          (''overwrite'', PBool (checkBox_overwrite w)), (''log_path'', PStr (w_log_path w))]),
       (''replace'', LNone), (''by'', LNone), (''output_folder'', LNone),
       (''overwrite'', LVal (PStr ''None'')), (''log_path'', LNone)]"
proof -
  have ok: "checkIO fs w = (True, w)" and ex: "path_exists fs (lineEdit_inputFolder w)"
    using assms(2) by (auto simp: checkIO_def Let_def split: if_splits)
  then show ?thesis using assms(1)
    by (auto simp: onApplyButton_def apply_params_def local_dispatch_def with_outside_def onProcessStarted_def listdir_def
        path_exists_def logic_process_def replaceAllLogic_new_def py_str_opt_def Let_def)
qed

theorem local_dispatch_parameters_witness:
  "\<exists>w'. onApplyButton rec_env ''Linux'' poll_fs 0 [] (poll_form\<lparr>lineEdit_outputFolder := ''/out'',
       lineEdit_replaceString := ''a'', lineEdit_replaceByString := ''b''\<rparr>) [] = Inr (w', []) \<and>
    cliNode (logic w') = Some
      [(''input_folder'', LDict [(''input_folder'', PStr ''/in''), (''replace'', PStr ''a''), (''by'', PStr ''b''),
          (''output_folder'', PStr ''/out''), (''overwrite'', PBool False), (''log_path'', PStr ''/tmp/process.log'')]),
       (''replace'', LNone), (''by'', LNone), (''output_folder'', LNone),
       (''overwrite'', LVal (PStr ''None'')), (''log_path'', LNone)]"
proof -
  have "fst (checkIO poll_fs (poll_form\<lparr>lineEdit_outputFolder := ''/out'',
       lineEdit_replaceString := ''a'', lineEdit_replaceByString := ''b''\<rparr>))"
    by (simp add: checkIO_def path_exists_def poll_fs_def poll_form_def form0_def Let_def)
  from local_dispatch_parameters [OF _ this, of "''Linux''" rec_env 0 "[]" "[]"]
  show ?thesis by (simp add: poll_form_def form0_def)
qed

text \<open>
  C27: a listing of \<open>dpkg\<close> that contains a character outside ASCII (a localised package description) makes \<open>check_lib_wsl\<close> raise \<open>UnicodeDecodeError\<close>, and with it the Apply handler.
\<close>

theorem windows_non_ascii_dpkg_raises:
  assumes "testWslAvailable env e"
    and "\<not> list_all (\<lambda>c. of_char c < (128::nat)) (wsl_stdout env ''wsl -- bash -c \"dpkg -l | grep libxrender1\"'' e)"
  shows "\<exists>st. onApplyButton env ''Windows'' fs now ss w e = Inl (UnicodeDecodeError, st)"
  using assms by (simp add: onApplyButton_def apply_params_def windows_dispatch_def wsl_ready_def check_lib_wsl_def
      utf16_reinterpret_def)

theorem windows_non_ascii_dpkg_raises_witness:
  "\<exists>st. onApplyButton (rec_env\<lparr>wsl_stdout := (\<lambda>_ _. ''ii  libxrender1  X11 Rendering Extension client library '' @ [CHR 0xE9])\<rparr>)
     ''Windows'' poll_fs 0 [] poll_form [] = Inl (UnicodeDecodeError, st)"
  by (rule windows_non_ascii_dpkg_raises) (simp_all add: rec_env_def)

text \<open>
  C14: the environment is created only on the user's consent: when WSL, its libraries and conda are ready but the environment is missing and the user declines, the handler returns with nothing created or run (the outside state is the one after the version probe) and only the Apply button hidden.
\<close>

theorem windows_env_only_on_consent:
  assumes "testWslAvailable env e" "check_lib_wsl env e = Inr True"
    and "condaRunCommand env [getCondaExecutable env e, ''--version''] e = (out, e2)" "\<not> py_contains ''Error'' out"
    and "\<not> condaTestEnv env ''replaceAll'' e2"
    and "\<not> confirmYesNoDisplay env ''The environnement to rename files doesn't exist, do you want to create it ? '' e2"
  shows "onApplyButton env ''Windows'' fs now ss w e = Inr (w\<lparr>applyButton_visible := False\<rparr>, e2)"
  using assms by (simp add: onApplyButton_def apply_params_def windows_dispatch_def wsl_ready_def)

theorem windows_env_only_on_consent_witness:
  "onApplyButton (rec_env\<lparr>condaTestEnv := (\<lambda>_ _. False)\<rparr>) ''Windows'' poll_fs 0 [] poll_form [] =
     Inr (poll_form\<lparr>applyButton_visible := False\<rparr>, [[''conda'', ''--version'']])"
  by (rule windows_env_only_on_consent [where out = "[]"])
    (simp_all add: rec_env_def check_lib_wsl_def utf16_reinterpret_def)

end
