(* ===== verification/PollLoop.thy ===== *)
theory PollLoop
  imports Dispatch
begin

text \<open>
  The two waiting loops of the Windows branch of \<open>onApplyButton\<close>
  (\<open>src/replaceAll/replaceAll.py\<close>): \<open>while process.is_alive()\<close> around the thread that
  creates the environment (lines 349--360) and around the worker thread (lines 372--405).
  Each iteration asks the thread whether it is alive, processes the application's events,
  reads the clock, and acts only when more than 0.3 s have passed since the last sample.
  The loops end exactly when the thread has ended, so they are \<open>partial_function
  (option)\<close>: \<open>None\<close> is a loop that waits for ever on a thread that never ends.

  What the loop observes at its \<open>i\<close>-th iteration is a record of functions of \<open>i\<close>: whether
  the thread is alive (lines 356, 377), the clock (lines 358, 379), the file system when
  the log is read (lines 384--385), and the clock read again for the timer (line 400).
\<close>

record poll_world =
  is_alive :: "nat \<Rightarrow> bool"
  clock_at :: "nat \<Rightarrow> rat"
  fs_at :: "nat \<Rightarrow> fs"
  timer_at :: "nat \<Rightarrow> rat"

text \<open>The loop of lines 349--360: it only reads the clock; it returns the index of the
  iteration that found the thread ended.\<close>

partial_function (option) wait_thread :: "poll_world \<Rightarrow> nat \<Rightarrow> rat \<Rightarrow> nat option" where
  "wait_thread pw i previous_time =
     (if \<not> is_alive pw i then Some i
      else if clock_at pw i - previous_time > 3 / 10
      then wait_thread pw (Suc i) (clock_at pw i)
      else wait_thread pw (Suc i) previous_time)"

text \<open>The loop of lines 372--405: a sample reads the log's modification time and counts a
  tick (\<open>Poller.progress_tick\<close>), then shows the timer; an exception of the tick leaves the
  loop and the handler.\<close>

partial_function (option) poll_while :: "poll_world \<Rightarrow> nat \<Rightarrow> rat \<Rightarrow> widget \<Rightarrow> wres option" where
  "poll_while pw i previous_time w =
     (if \<not> is_alive pw i then Some (Inr w)
      else if clock_at pw i - previous_time > 3 / 10
      then (case progress_tick (fs_at pw i) w of
              Inl err \<Rightarrow> Some (Inl err)
            | Inr w1 \<Rightarrow> poll_while pw (Suc i) (clock_at pw i) (time_display (timer_at pw i) w1))
      else poll_while pw (Suc i) previous_time w)"

text \<open>The samples the loop takes in its first \<open>k\<close> iterations from \<open>i\<close>: the iterations more
  than 0.3 s after the previous sample, with the file system and timer they read.\<close>

fun samples_taken :: "poll_world \<Rightarrow> nat \<Rightarrow> rat \<Rightarrow> nat \<Rightarrow> (fs \<times> rat) list" where
  "samples_taken pw i previous_time 0 = []"
| "samples_taken pw i previous_time (Suc k) =
     (if clock_at pw i - previous_time > 3 / 10
      then (fs_at pw i, timer_at pw i) # samples_taken pw (Suc i) (clock_at pw i) k
      else samples_taken pw (Suc i) previous_time k)"

text \<open>A world in which the thread ends after \<open>n\<close> iterations, the clock advances 0.2 s per
  iteration, and the file system and timer are fixed.\<close>

definition world_until :: "nat \<Rightarrow> fs \<Rightarrow> poll_world" where
  "world_until n fs =
     \<lparr>is_alive = (\<lambda>i. i < n), clock_at = (\<lambda>i. of_nat i / 5), fs_at = (\<lambda>_. fs), timer_at = (\<lambda>i. of_nat i / 5)\<rparr>"

text \<open>The same world, in which the worker writes the log once per iteration (its
  modification time at iteration \<open>i\<close> is \<open>10 + i\<close>).\<close>

definition tick_world :: "nat \<Rightarrow> poll_world" where
  "tick_world n = (world_until n poll_fs)\<lparr>fs_at := (\<lambda>i. poll_fs\<lparr>logs := [''/tmp/process.log'' \<mapsto>
     \<lparr>lcontent = [], mtimes = [10 + i]\<rparr>]\<rparr>)\<rparr>"

subsection \<open>Lemmas\<close>

text \<open>The polling loop, run until the thread ends, is the sample model on the samples
  it takes: by induction on the number of iterations left.\<close>

lemma poll_while_samples:
  assumes "\<not> is_alive pw (i + k)" "\<forall>j < i + k. i \<le> j \<longrightarrow> is_alive pw j"
  shows "poll_while pw i p w = Some (poll_samples (samples_taken pw i p k) w)"
  using assms
proof (induction k arbitrary: i p w)
  case 0
  then show ?case by (simp add: poll_while.simps)
next
  case (Suc k)
  have a: "is_alive pw i" using Suc.prems(2) by simp
  have IH: "\<And>p' w'. poll_while pw (Suc i) p' w' = Some (poll_samples (samples_taken pw (Suc i) p' k) w')"
    using Suc.prems by (intro Suc.IH) auto
  show ?case
    using a by (simp add: poll_while.simps [of pw i] IH split: sum.splits)
qed

text \<open>The wait returns once the thread has ended, and what it returns is an iteration that
  found it ended (fixpoint induction, \<open>raw_induct\<close>).\<close>

lemma wait_thread_returns:
  "i \<le> n \<Longrightarrow> \<not> is_alive pw n \<Longrightarrow> \<exists>r. wait_thread pw i p = Some r"
proof (induction "n - i" arbitrary: i p)
  case 0
  then have "i = n" by simp
  with 0 show ?case by (simp add: wait_thread.simps)
next
  case (Suc d)
  show ?case
  proof (cases "is_alive pw i")
    case False
    then show ?thesis by (simp add: wait_thread.simps)
  next
    case True
    with Suc.prems have "Suc i \<le> n" by (cases "i = n") auto
    then have "\<And>p'. \<exists>r. wait_thread pw (Suc i) p' = Some r"
      using Suc.hyps(2) Suc.prems(2) by (intro Suc.hyps(1)) simp_all
    with True show ?thesis by (simp add: wait_thread.simps [of pw i])
  qed
qed

lemma wait_thread_ended:
  assumes ret: "wait_thread pw i p = Some r"
  shows "i \<le> r \<and> \<not> is_alive pw r"
proof (rule wait_thread.raw_induct [where P = "\<lambda>pw i p r. i \<le> r \<and> \<not> is_alive pw r", OF _ ret])
  fix f pw i p r
  assume IH: "\<And>pw i p r. f pw i p = Some r \<Longrightarrow> i \<le> r \<and> \<not> is_alive pw r"
    and eq: "(if \<not> is_alive pw i then Some i
      else if clock_at pw i - p > 3 / 10 then f pw (Suc i) (clock_at pw i) else f pw (Suc i) p) = Some r"
  show "i \<le> r \<and> \<not> is_alive pw r"
  proof (cases "is_alive pw i")
    case False
    with eq show ?thesis by simp
  next
    case True
    with eq have "f pw (Suc i) (clock_at pw i) = Some r \<or> f pw (Suc i) p = Some r"
      by (auto split: if_splits)
    then have "Suc i \<le> r \<and> \<not> is_alive pw r" by (auto dest: IH)
    then show ?thesis by simp
  qed
qed

lemma poll_while_ended:
  assumes ret: "poll_while pw i p w = Some r"
  shows "(\<exists>n \<ge> i. \<not> is_alive pw n) \<or> (\<exists>err. r = Inl err)"
proof (rule poll_while.raw_induct
    [where P = "\<lambda>pw i p w r. (\<exists>n \<ge> i. \<not> is_alive pw n) \<or> (\<exists>err. r = Inl err)", OF _ ret])
  fix f pw i p w r
  assume IH: "\<And>pw i p w r. f pw i p w = Some r \<Longrightarrow> (\<exists>n \<ge> i. \<not> is_alive pw n) \<or> (\<exists>err. r = Inl err)"
    and eq: "(if \<not> is_alive pw i then Some (Inr w)
      else if clock_at pw i - p > 3 / 10
      then (case progress_tick (fs_at pw i) w of
              Inl err \<Rightarrow> Some (Inl err)
            | Inr w1 \<Rightarrow> f pw (Suc i) (clock_at pw i) (time_display (timer_at pw i) w1))
      else f pw (Suc i) p w) = Some r"
  show "(\<exists>n \<ge> i. \<not> is_alive pw n) \<or> (\<exists>err. r = Inl err)"
  proof (cases "is_alive pw i")
    case False
    then show ?thesis by auto
  next
    case True
    show ?thesis
    proof (cases "clock_at pw i - p > 3 / 10")
      case c: True
      show ?thesis
      proof (cases "progress_tick (fs_at pw i) w")
        case (Inl err)
        with eq True c have "r = Inl err" by simp
        then show ?thesis by blast
      next
        case (Inr w1)
        with eq True c have "f pw (Suc i) (clock_at pw i) (time_display (timer_at pw i) w1) = Some r" by simp
        then show ?thesis by (auto dest!: IH intro: Suc_leD)
      qed
    next
      case False
      with eq True have "f pw (Suc i) p w = Some r" by simp
      then show ?thesis by (auto dest!: IH intro: Suc_leD)
    qed
  qed
qed

lemma timer_parts:
  assumes "60 \<le> t"
  shows "py_int (t / 60) = \<lfloor>t / 60\<rfloor>" "py_int (py_fmod t 60) = \<lfloor>t\<rfloor> - 60 * \<lfloor>t / 60\<rfloor>"
    "0 \<le> \<lfloor>t\<rfloor> - 60 * \<lfloor>t / 60\<rfloor>" "\<lfloor>t\<rfloor> - 60 * \<lfloor>t / 60\<rfloor> < 60"
proof -
  let ?q = "\<lfloor>t / 60\<rfloor>"
  have lo: "of_int ?q \<le> t / 60" and hi: "t / 60 < of_int ?q + 1" by linarith+
  have m: "py_fmod t 60 = t - of_int (60 * ?q)" by (simp add: py_fmod_def)
  have "of_int (60 * ?q) \<le> t" using lo by simp
  then have ge: "60 * ?q \<le> \<lfloor>t\<rfloor>" by (simp add: le_floor_iff)
  have "t < of_int (60 * ?q + 60)" using hi by simp
  then have lt: "\<lfloor>t\<rfloor> < 60 * ?q + 60" by (simp add: floor_less_iff)
  have "0 \<le> t - of_int (60 * ?q)" using ge by linarith
  then show "py_int (py_fmod t 60) = \<lfloor>t\<rfloor> - 60 * ?q"
    by (simp add: py_int_def m floor_diff_of_int del: of_int_mult)
  show "py_int (t / 60) = ?q" using assms by (simp add: py_int_def)
  show "0 \<le> \<lfloor>t\<rfloor> - 60 * ?q" "\<lfloor>t\<rfloor> - 60 * ?q < 60" using ge lt by simp_all
qed

subsection \<open>Properties\<close>

text \<open>
  C11: the wait for the environment's creation returns exactly when the thread that creates
  it ends at some iteration: the handler stays in the loop (processing events) for as long
  as the creation runs, and for ever if it never ends.
\<close>

theorem wait_thread_returns_iff:
  "(wait_thread pw i p \<noteq> None) = (\<exists>n \<ge> i. \<not> is_alive pw n)"
proof
  assume "wait_thread pw i p \<noteq> None"
  then obtain r where "wait_thread pw i p = Some r" by blast
  then show "\<exists>n \<ge> i. \<not> is_alive pw n" by (blast dest: wait_thread_ended)
next
  assume "\<exists>n \<ge> i. \<not> is_alive pw n"
  then show "wait_thread pw i p \<noteq> None" by (auto dest: wait_thread_returns [of i _ pw p])
qed

theorem wait_thread_returns_iff_witness:
  "wait_thread (world_until 3 poll_fs) 0 0 \<noteq> None \<and> wait_thread (world_until 3 poll_fs\<lparr>is_alive := (\<lambda>_. True)\<rparr>) 0 0 = None"
proof -
  have "\<not> is_alive (world_until 3 poll_fs) 3" by (simp add: world_until_def)
  then have "\<exists>n \<ge> 0. \<not> is_alive (world_until 3 poll_fs) n" by blast
  moreover have "\<not> (\<exists>n \<ge> 0. \<not> is_alive (world_until 3 poll_fs\<lparr>is_alive := (\<lambda>_. True)\<rparr>) n)" by simp
  ultimately show ?thesis
    using wait_thread_returns_iff [of "world_until 3 poll_fs" 0 0]
      wait_thread_returns_iff [of "world_until 3 poll_fs\<lparr>is_alive := (\<lambda>_. True)\<rparr>" 0 0] by simp
qed

text \<open>
  C8: the Windows polling loop counts the worker's progress exactly: run until the worker
  thread ends, it counts one tick for each sample it takes (an iteration more than 0.3 s
  after the previous sample) when the samples see the log's modification time strictly
  increasing and later than the last time remembered, as long as the counter stays
  within the number of entries plus one; a sample inside 0.3 s of the previous one is
  not counted.
\<close>

theorem poll_while_counts_ticks:
  assumes "\<not> is_alive pw (i + k)" "\<forall>j < i + k. i \<le> j \<longrightarrow> is_alive pw j"
    and "map (\<lambda>(fs, _). log_mtime fs (w_log_path w)) (samples_taken pw i p k) = map Some ts"
    and "sorted_wrt (<) ts" "\<forall>t \<in> set ts. time_log w < t"
    and "progress w + length ts \<le> Suc (nbFiles w)" "0 < nbFiles w"
  shows "\<exists>w'. poll_while pw i p w = Some (Inr w') \<and> progress w' = progress w + length ts"
proof -
  have l: "length (samples_taken pw i p k) = length ts" using arg_cong [OF assms(3), of length] by simp
  obtain w' where "poll_samples (samples_taken pw i p k) w = Inr w'"
      "progress w' = progress w + length (samples_taken pw i p k)"
    using poll_samples_count [OF assms(4,5,3)] assms(6,7) l by auto
  then show ?thesis using poll_while_samples [OF assms(1,2), of p w] l by simp
qed

theorem poll_while_counts_ticks_witness:
  "\<exists>w'. poll_while (tick_world 5) 0 0 (poll_form\<lparr>nbFiles := 3\<rparr>) = Some (Inr w') \<and> progress w' = 2"
proof -
  have a: "\<not> is_alive (tick_world 5) (0 + 5)" "\<forall>j < 0 + 5. 0 \<le> j \<longrightarrow> is_alive (tick_world 5) j"
    by (simp_all add: tick_world_def world_until_def)
  have "samples_taken (tick_world 5) 0 0 5 = [(fs_at (tick_world 5) 2, 2 / 5), (fs_at (tick_world 5) 4, 4 / 5)]"
    by (simp add: tick_world_def world_until_def numeral_eq_Suc)
  then have m: "map (\<lambda>(fs, _). log_mtime fs (w_log_path (poll_form\<lparr>nbFiles := 3\<rparr>))) (samples_taken (tick_world 5) 0 0 5)
      = map Some [12, 14]"
    by (simp add: tick_world_def log_mtime_def poll_form_def)
  have "\<exists>w'. poll_while (tick_world 5) 0 0 (poll_form\<lparr>nbFiles := 3\<rparr>) = Some (Inr w')
      \<and> progress w' = progress (poll_form\<lparr>nbFiles := 3\<rparr>) + length [12, 14::nat]"
    by (rule poll_while_counts_ticks [OF a m]) (simp_all add: poll_form_def form0_def)
  moreover have "progress (poll_form\<lparr>nbFiles := 3\<rparr>) = 0" by (simp add: poll_form_def form0_def)
  ultimately show ?thesis by (simp add: numeral_2_eq_2)
qed

text \<open>
  C30: the timer shows the whole seconds elapsed: \<open>"Time: <s>s"\<close> under a minute, and
  \<open>"Time: <m>min <s>s"\<close> from a minute on, with \<open>60 m + s\<close> the whole seconds and the
  seconds \<open>s\<close> between 0 and 59.
\<close>

theorem timer_text_bounds:
  assumes "0 \<le> t"
  shows "\<exists>m s. timer_text t = ''Time: '' @ (if t < 60 then [] else py_str_int m @ ''min '') @ py_str_int s @ ''s''
    \<and> 0 \<le> s \<and> s < 60 \<and> 60 * m + s = \<lfloor>t\<rfloor>"
proof (cases "t < 60")
  case True
  have "\<lfloor>t\<rfloor> < 60" using True by (simp add: floor_less_iff)
  then show ?thesis using True assms by (intro exI [of _ 0] exI [of _ "\<lfloor>t\<rfloor>"]) (simp add: timer_text_def py_int_def)
next
  case False
  then have t: "60 \<le> t" by simp
  show ?thesis using False timer_parts [OF t]
    by (intro exI [of _ "\<lfloor>t / 60\<rfloor>"] exI [of _ "\<lfloor>t\<rfloor> - 60 * \<lfloor>t / 60\<rfloor>"]) (simp add: timer_text_def)
qed

theorem timer_text_bounds_witness:
  "timer_text 125 = ''Time: 2min 5s''"
proof -
  obtain m s where h: "timer_text 125 = ''Time: '' @ py_str_int m @ ''min '' @ py_str_int s @ ''s''"
      "0 \<le> s" "s < 60" "60 * m + s = 125"
    using timer_text_bounds [of 125] by auto
  then have "m = 2" "s = 5" by presburger+
  with h(1) show ?thesis by (simp add: py_str_int_def py_str_nat.simps)
qed

text \<open>
  C31: while the worker thread is alive the handler does not leave the polling loop
  normally: a loop that returns a widget has seen the thread ended, and only an exception
  of the progress display leaves it earlier.
\<close>

theorem poll_while_waits_for_worker:
  assumes "poll_while pw i p w = Some (Inr w')"
  shows "\<exists>n \<ge> i. \<not> is_alive pw n"
  using poll_while_ended [OF assms] by simp

theorem poll_while_waits_for_worker_witness:
  "\<exists>w'. poll_while (world_until 1 poll_fs) 0 0 poll_form = Some (Inr w') \<and> (\<exists>n \<ge> 0. \<not> is_alive (world_until 1 poll_fs) n)"
proof -
  have a: "\<not> is_alive (world_until 1 poll_fs) (0 + 1)" "\<forall>j < 0 + 1. 0 \<le> j \<longrightarrow> is_alive (world_until 1 poll_fs) j"
    by (simp_all add: world_until_def)
  have "samples_taken (world_until 1 poll_fs) 0 0 1 = []" by (simp add: world_until_def)
  then have h: "poll_while (world_until 1 poll_fs) 0 0 poll_form = Some (Inr poll_form)"
    using poll_while_samples [OF a, of 0 poll_form] by simp
  then show ?thesis using poll_while_waits_for_worker [OF h] by blast
qed

end
