(* ===== verification/Lifecycle.thy ===== *)
theory Lifecycle
  imports Dispatch
begin

text \<open>
  The life cycle of the module widget (\<open>src/replaceAll/replaceAll.py\<close>, class
  \<open>replaceAllWidget\<close>): \<open>__init__\<close> and the observers \<open>setup\<close> registers (lines 144--196),
  \<open>cleanup\<close>, \<open>enter\<close>, \<open>exit\<close>, the scene-close handlers, \<open>initializeParameterNode\<close>,
  \<open>setParameterNode\<close> and \<open>_checkCanApply\<close> (lines 198--262), with the parameter node
  declared at lines 115--133.

  The observers of \<open>VTKObservationMixin\<close> (Slicer's library) are a list of
  (subject, event, handler) triples: \<open>addObserver\<close> adds a triple that is not there yet,
  \<open>removeObserver\<close> removes it, \<open>removeObservers\<close> removes all. An event on a subject runs
  the handlers observing it, in the order they were added. \<open>connectGui\<close> of the parameter
  node returns a fresh tag, recorded with the node in a list of connections that
  \<open>disconnectGui\<close> removes. The application enters and leaves the module, closes the scene
  (the start and end events in turn), destroys the widget, or modifies a parameter node;
  the user acts on the form or clicks Apply on Linux or macOS (\<open>Dispatch.local_dispatch\<close>),
  and a CLI node reports progress or completion (\<open>Dispatch.cli_modified\<close>).
\<close>

datatype vtk_subject = MRMLScene | ParameterNode nat
datatype vtk_event = StartCloseEvent | EndCloseEvent | ModifiedEvent
datatype handler = OnSceneStartClose | OnSceneEndClose | CheckCanApply

type_synonym observation = "vtk_subject \<times> vtk_event \<times> handler"

text \<open>\<open>replaceAllParameterNode\<close> (lines 115--133): node references are node identifiers,
  \<open>None\<close> when no node is selected; the node itself is identified by \<open>pn_id\<close>.\<close>

record replaceAllParameterNode =
  pn_id :: nat
  inputVolume :: "nat option"
  imageThreshold :: rat
  invertThreshold :: bool
  thresholdedVolume :: "nat option"
  invertedVolume :: "nat option"

definition parameterNode_new :: "nat \<Rightarrow> replaceAllParameterNode" where
  "parameterNode_new i =
     \<lparr>pn_id = i, inputVolume = None, imageThreshold = 100, invertThreshold = False,
      thresholdedVolume = None, invertedVolume = None\<rparr>"

text \<open>An assignment of \<open>imageThreshold\<close>: the \<open>WithinRange(-100, 500)\<close> validator of the
  wrapper raises \<open>ValueError\<close> for a value outside the range.\<close>

definition set_imageThreshold :: "rat \<Rightarrow> replaceAllParameterNode \<Rightarrow> replaceAllParameterNode result" where
  "set_imageThreshold v n =
     (if -100 \<le> v \<and> v \<le> 500 then Inr (n\<lparr>imageThreshold := v\<rparr>) else Inl (ValueError ''imageThreshold''))"

record lifecycle =
  lc_ui :: widget
  parameterNode :: "replaceAllParameterNode option"
  parameterNodeGuiTag :: "nat option"
  gui_connections :: "(nat \<times> nat) list"
  observations :: "observation list"
  applyButton_toolTip :: string
  next_tag :: nat
  isEntered :: bool

subsection \<open>Observers and GUI connections\<close>

definition addObserver :: "vtk_subject \<Rightarrow> vtk_event \<Rightarrow> handler \<Rightarrow> lifecycle \<Rightarrow> lifecycle" where
  "addObserver obj event method s =
     (if (obj, event, method) \<in> set (observations s) then s
      else s\<lparr>observations := observations s @ [(obj, event, method)]\<rparr>)"

definition removeObserver :: "vtk_subject \<Rightarrow> vtk_event \<Rightarrow> handler \<Rightarrow> lifecycle \<Rightarrow> lifecycle" where
  "removeObserver obj event method s = s\<lparr>observations := remove1 (obj, event, method) (observations s)\<rparr>"

definition removeObservers :: "lifecycle \<Rightarrow> lifecycle" where
  "removeObservers s = s\<lparr>observations := [], lc_ui := (lc_ui s)\<lparr>cli_observed := []\<rparr>\<rparr>"

definition connectGui :: "nat \<Rightarrow> lifecycle \<Rightarrow> nat \<times> lifecycle" where
  "connectGui node s =
     (next_tag s, s\<lparr>gui_connections := gui_connections s @ [(node, next_tag s)], next_tag := Suc (next_tag s)\<rparr>)"

definition disconnectGui :: "nat option \<Rightarrow> lifecycle \<Rightarrow> lifecycle" where
  "disconnectGui tag s = s\<lparr>gui_connections := filter (\<lambda>(_, t). tag \<noteq> Some t) (gui_connections s)\<rparr>"

subsection \<open>The widget's methods\<close>

text \<open>\<open>__init__\<close> (lines 144--150), then the observers of \<open>setup\<close> (lines 187--188) after
  the rest of \<open>Widget.widget_setup\<close>.\<close>

definition widget_init :: "widget \<Rightarrow> lifecycle" where
  "widget_init ui =
     \<lparr>lc_ui = ui, parameterNode = None, parameterNodeGuiTag = None, gui_connections = [],
      observations = [], applyButton_toolTip = [], next_tag = 0, isEntered = False\<rparr>"

definition lifecycle_setup :: "path \<Rightarrow> lifecycle \<Rightarrow> lifecycle" where
  "lifecycle_setup tmp s =
     addObserver MRMLScene EndCloseEvent OnSceneEndClose
       (addObserver MRMLScene StartCloseEvent OnSceneStartClose (s\<lparr>lc_ui := widget_setup (lc_ui s) tmp\<rparr>))"

definition checkCanApply :: "lifecycle \<Rightarrow> lifecycle" where
  "checkCanApply s =
     (case parameterNode s of
        Some n \<Rightarrow>
          if inputVolume n \<noteq> None \<and> thresholdedVolume n \<noteq> None
          then s\<lparr>applyButton_toolTip := ''Compute output volume'', lc_ui := (lc_ui s)\<lparr>applyButton_enabled := True\<rparr>\<rparr>
          else s\<lparr>applyButton_toolTip := ''Select input and output volume nodes'',
                 lc_ui := (lc_ui s)\<lparr>applyButton_enabled := False\<rparr>\<rparr>
      | None \<Rightarrow> s\<lparr>applyButton_toolTip := ''Select input and output volume nodes'',
                 lc_ui := (lc_ui s)\<lparr>applyButton_enabled := False\<rparr>\<rparr>)"

definition setParameterNode :: "replaceAllParameterNode option \<Rightarrow> lifecycle \<Rightarrow> lifecycle" where
  "setParameterNode inputParameterNode s =
     (let s1 = (case parameterNode s of
                  Some old \<Rightarrow> removeObserver (ParameterNode (pn_id old)) ModifiedEvent CheckCanApply
                                (disconnectGui (parameterNodeGuiTag s) s)
                | None \<Rightarrow> s);
          s2 = s1\<lparr>parameterNode := inputParameterNode\<rparr>
      in case inputParameterNode of
           None \<Rightarrow> s2
         | Some n \<Rightarrow>
             (let (tag, s3) = connectGui (pn_id n) s2
              in checkCanApply (addObserver (ParameterNode (pn_id n)) ModifiedEvent CheckCanApply
                                  (s3\<lparr>parameterNodeGuiTag := Some tag\<rparr>))))"

text \<open>\<open>initializeParameterNode\<close> (lines 226--237): its whole body is commented out.\<close>

definition initializeParameterNode :: "lifecycle \<Rightarrow> lifecycle" where
  "initializeParameterNode s = s"

definition widget_cleanup :: "lifecycle \<Rightarrow> lifecycle" where
  "widget_cleanup s = removeObservers s"

definition widget_enter :: "lifecycle \<Rightarrow> lifecycle" where
  "widget_enter s = initializeParameterNode s"

definition widget_exit :: "lifecycle \<Rightarrow> lifecycle" where
  "widget_exit s =
     (case parameterNode s of
        Some n \<Rightarrow> removeObserver (ParameterNode (pn_id n)) ModifiedEvent CheckCanApply
                    ((disconnectGui (parameterNodeGuiTag s) s)\<lparr>parameterNodeGuiTag := None\<rparr>)
      | None \<Rightarrow> s)"

definition onSceneStartClose :: "lifecycle \<Rightarrow> lifecycle" where
  "onSceneStartClose s = setParameterNode None s"

definition onSceneEndClose :: "lifecycle \<Rightarrow> lifecycle" where
  "onSceneEndClose s = (if isEntered s then initializeParameterNode s else s)"

subsection \<open>Events\<close>

fun run_handler :: "handler \<Rightarrow> lifecycle \<Rightarrow> lifecycle" where
  "run_handler OnSceneStartClose s = onSceneStartClose s"
| "run_handler OnSceneEndClose s = onSceneEndClose s"
| "run_handler CheckCanApply s = checkCanApply s"

definition invoke_event :: "vtk_subject \<Rightarrow> vtk_event \<Rightarrow> lifecycle \<Rightarrow> lifecycle" where
  "invoke_event subj event s =
     fold run_handler (map (\<lambda>(_, _, m). m) (filter (\<lambda>(obj, e, _). obj = subj \<and> e = event) (observations s))) s"

datatype app_event = Enter | Exit | CloseScene | Cleanup | NodeModified nat | UserAction ui_event
  | ApplyLocal fs rat | CliModified nat fs rat bool

text \<open>A Qt slot that raises: the application reports the exception and the widget keeps
  the state it had then.\<close>

definition slot_state :: "'e dres \<Rightarrow> widget" where
  "slot_state r = (case r of Inl (_, (w, _)) \<Rightarrow> w | Inr (w, _) \<Rightarrow> w)"

fun app_step :: "app_event \<Rightarrow> lifecycle \<Rightarrow> lifecycle" where
  "app_step Enter s = widget_enter (s\<lparr>isEntered := True\<rparr>)"
| "app_step Exit s = (widget_exit s)\<lparr>isEntered := False\<rparr>"
| "app_step CloseScene s = invoke_event MRMLScene EndCloseEvent (invoke_event MRMLScene StartCloseEvent s)"
| "app_step Cleanup s = widget_cleanup s"
| "app_step (NodeModified i) s = invoke_event (ParameterNode i) ModifiedEvent s"
| "app_step (UserAction e) s = s\<lparr>lc_ui := ui_handle e (lc_ui s)\<rparr>"
| "app_step (ApplyLocal fs now) s =
     s\<lparr>lc_ui := slot_state (local_dispatch (apply_params (lc_ui s)) fs now (lc_ui s) ())\<rparr>"
| "app_step (CliModified k fs now completed) s = s\<lparr>lc_ui := cli_modified k fs now completed (lc_ui s)\<rparr>"

text \<open>The states of the widget from its creation, over any sequence of events.\<close>

inductive lc_reach :: "lifecycle \<Rightarrow> bool" where
  created: "lc_reach (lifecycle_setup tmp (widget_init ui))"
| event: "lc_reach s \<Longrightarrow> lc_reach (app_step ev s)"

text \<open>What the life cycle keeps: no parameter node, no GUI connection, no observation
  besides the two of the scene (the CLI nodes are observed through the widget record),
  and the Apply button as \<open>setup\<close> left it.\<close>

definition scene_observers :: "observation list" where
  "scene_observers = [(MRMLScene, StartCloseEvent, OnSceneStartClose), (MRMLScene, EndCloseEvent, OnSceneEndClose)]"

definition lc_inv :: "lifecycle \<Rightarrow> bool" where
  "lc_inv s \<longleftrightarrow> parameterNode s = None \<and> gui_connections s = [] \<and>
     set (observations s) \<subseteq> set scene_observers \<and> applyButton_enabled (lc_ui s)"

text \<open>The well-formedness the observer and connection lists keep whatever method runs:
  no observation twice, every observation of a parameter node is the \<open>ModifiedEvent\<close>
  observer \<open>_checkCanApply\<close> of the node the widget holds, and every GUI connection is
  that of the node held, under the tag the widget keeps for it: no stale observer or
  connection of a node the widget no longer holds.\<close>

definition held_observer :: "lifecycle \<Rightarrow> observation option" where
  "held_observer s = map_option (\<lambda>n. (ParameterNode (pn_id n), ModifiedEvent, CheckCanApply)) (parameterNode s)"

definition held_connection :: "lifecycle \<Rightarrow> (nat \<times> nat) option" where
  "held_connection s =
     (case (parameterNode s, parameterNodeGuiTag s) of (Some n, Some t) \<Rightarrow> Some (pn_id n, t) | _ \<Rightarrow> None)"

definition lc_wf :: "lifecycle \<Rightarrow> bool" where
  "lc_wf s \<longleftrightarrow> distinct (observations s)
     \<and> list_all (\<lambda>x. fst x = MRMLScene \<or> Some x = held_observer s) (observations s)
     \<and> list_all (\<lambda>c. Some c = held_connection s) (gui_connections s)"

text \<open>A state observing only the scene and with no GUI connection.\<close>

definition unobserved :: "lifecycle \<Rightarrow> bool" where
  "unobserved s \<longleftrightarrow> distinct (observations s) \<and> list_all (\<lambda>x. fst x = MRMLScene) (observations s)
     \<and> gui_connections s = []"

declare parameterNode_new_def [model_simps] set_imageThreshold_def [model_simps] addObserver_def [model_simps]
  removeObserver_def [model_simps] removeObservers_def [model_simps] connectGui_def [model_simps]
  disconnectGui_def [model_simps] widget_init_def [model_simps] lifecycle_setup_def [model_simps]
  checkCanApply_def [model_simps] setParameterNode_def [model_simps] initializeParameterNode_def [model_simps]
  widget_cleanup_def [model_simps] widget_enter_def [model_simps] widget_exit_def [model_simps]
  onSceneStartClose_def [model_simps] onSceneEndClose_def [model_simps] invoke_event_def [model_simps]

subsection \<open>Lemmas\<close>

lemma ui_handle_enabled [simp]: "applyButton_enabled (ui_handle e w) = applyButton_enabled w"
  by (cases e) (simp_all add: openFinder_def widget_overwrite_def)

lemma progress_tick_enabled:
  "progress_tick fs w = Inr w' \<Longrightarrow> applyButton_enabled w' = applyButton_enabled w"
  "progress_tick fs w = Inl (err, w') \<Longrightarrow> applyButton_enabled w' = applyButton_enabled w"
  by (auto simp: progress_tick_def Let_def split: option.splits if_splits)

lemma cli_modified_enabled [simp]: "applyButton_enabled (cli_modified k fs now c w) = applyButton_enabled w"
  by (auto simp: cli_modified_def onProcessUpdate_def sbind_def time_display_def show_success_def Let_def
      split: sum.splits dest: progress_tick_enabled)

lemma local_dispatch_enabled [simp]:
  "applyButton_enabled (slot_state (local_dispatch p fs now w e)) = applyButton_enabled w"
  by (auto simp: slot_state_def local_dispatch_def checkIO_def with_outside_def onProcessStarted_def Let_def
      split: sum.splits prod.splits if_splits)

text \<open>The CLI nodes the widget observes: only \<open>cleanup\<close> removes one.\<close>

lemma progress_tick_observed:
  "progress_tick fs w = Inr w' \<Longrightarrow> cli_observed w' = cli_observed w"
  "progress_tick fs w = Inl (err, w') \<Longrightarrow> cli_observed w' = cli_observed w"
  by (auto simp: progress_tick_def Let_def split: option.splits if_splits)

lemma cli_modified_observed [simp]: "cli_observed (cli_modified k fs now c w) = cli_observed w"
  by (auto simp: cli_modified_def onProcessUpdate_def sbind_def time_display_def show_success_def Let_def
      split: sum.splits dest: progress_tick_observed)

lemma local_dispatch_observed:
  "set (cli_observed w) \<subseteq> set (cli_observed (slot_state (local_dispatch p fs now w e)))"
  by (auto simp: slot_state_def local_dispatch_def checkIO_def with_outside_def onProcessStarted_def Let_def
      split: sum.splits prod.splits if_splits)

lemma ui_handle_observed [simp]: "cli_observed (ui_handle ev w) = cli_observed w"
  by (cases ev) (simp_all add: openFinder_def widget_overwrite_def)

lemma setParameterNode_observed [simp]:
  "cli_observed (lc_ui (setParameterNode p s)) = cli_observed (lc_ui s)"
  by (auto simp: setParameterNode_def checkCanApply_def connectGui_def addObserver_def removeObserver_def
      disconnectGui_def Let_def split: option.splits prod.splits)

lemma run_handler_observed [simp]: "cli_observed (lc_ui (run_handler h s)) = cli_observed (lc_ui s)"
  by (cases h) (simp_all add: onSceneStartClose_def onSceneEndClose_def initializeParameterNode_def
      checkCanApply_def split: option.splits)

lemma fold_handlers_observed: "cli_observed (lc_ui (fold run_handler hs s)) = cli_observed (lc_ui s)"
  by (induction hs arbitrary: s) simp_all

lemma progress_tick_ok: "0 < nbFiles w \<Longrightarrow> \<exists>w'. progress_tick fs w = Inr w'"
  by (auto simp: progress_tick_def Let_def split: option.splits)

text \<open>A completion event of an observed node shows the success display, whichever run the
  display belongs to.\<close>

lemma cli_modified_completed:
  assumes "k \<in> set (cli_observed w)" "0 < nbFiles w"
  shows "label_success_visible (cli_modified k fs now True w)"
  using progress_tick_ok [OF assms(2), of fs] assms(1)
  by (auto simp: cli_modified_def onProcessUpdate_def show_success_def Let_def)

subsubsection \<open>Well-formedness\<close>

lemma lc_wf_fields [simp]:
  "lc_wf (s\<lparr>lc_ui := w\<rparr>) = lc_wf s" "lc_wf (s\<lparr>isEntered := b\<rparr>) = lc_wf s"
  "lc_wf (s\<lparr>applyButton_toolTip := tt\<rparr>) = lc_wf s"
  by (simp_all add: lc_wf_def held_observer_def held_connection_def)

lemma unobserved_wf: "unobserved s \<Longrightarrow> lc_wf s"
  by (auto simp: unobserved_def lc_wf_def list_all_iff)

lemma lc_wf_unobserved:
  assumes "lc_wf s" "parameterNode s = None"
  shows "unobserved s"
proof -
  have "gui_connections s = []"
    using assms by (cases "gui_connections s") (auto simp: lc_wf_def held_connection_def)
  then show ?thesis using assms by (auto simp: unobserved_def lc_wf_def list_all_iff held_observer_def)
qed

text \<open>Removing the observer and the connection of the node held leaves none.\<close>

lemma lc_wf_release:
  assumes wf: "lc_wf s" and p: "parameterNode s = Some old"
  shows "unobserved (removeObserver (ParameterNode (pn_id old)) ModifiedEvent CheckCanApply
           (disconnectGui (parameterNodeGuiTag s) s))"
proof -
  let ?o = "(ParameterNode (pn_id old), ModifiedEvent, CheckCanApply)"
  have d: "distinct (observations s)" using wf by (simp add: lc_wf_def)
  have own: "\<And>x. x \<in> set (observations s) \<Longrightarrow> fst x \<noteq> MRMLScene \<Longrightarrow> x = ?o"
    using wf p by (auto simp: lc_wf_def list_all_iff held_observer_def)
  have "set (remove1 ?o (observations s)) = set (observations s) - {?o}" using d by simp
  then have obs: "list_all (\<lambda>x. fst x = MRMLScene) (remove1 ?o (observations s))"
    using own by (auto simp: list_all_iff)
  have "filter (\<lambda>(_, t). parameterNodeGuiTag s \<noteq> Some t) (gui_connections s) = []"
    using wf by (auto simp: lc_wf_def list_all_iff filter_empty_conv held_connection_def split: option.splits)
  with obs d show ?thesis
    by (simp add: unobserved_def removeObserver_def disconnectGui_def)
qed

text \<open>Setting a node, or none, from a state that holds and observes no node.\<close>

lemma unobserved_set:
  assumes u: "unobserved s" and p: "parameterNode s = None"
  shows "lc_wf (setParameterNode q s)"
proof (cases q)
  case None
  then show ?thesis using u p by (intro unobserved_wf) (simp add: setParameterNode_def unobserved_def)
next
  case (Some n)
  let ?o = "(ParameterNode (pn_id n), ModifiedEvent, CheckCanApply)"
  have o: "?o \<notin> set (observations s)" using u by (auto simp: unobserved_def list_all_iff)
  have "setParameterNode q s = checkCanApply (s\<lparr>parameterNode := Some n,
      gui_connections := [(pn_id n, next_tag s)], next_tag := Suc (next_tag s),
      parameterNodeGuiTag := Some (next_tag s), observations := observations s @ [?o]\<rparr>)"
    using Some p u o by (simp add: setParameterNode_def connectGui_def addObserver_def unobserved_def Let_def)
  moreover have "lc_wf (s\<lparr>parameterNode := Some n,
      gui_connections := [(pn_id n, next_tag s)], next_tag := Suc (next_tag s),
      parameterNodeGuiTag := Some (next_tag s), observations := observations s @ [?o]\<rparr>)"
    using u o by (auto simp: lc_wf_def unobserved_def list_all_iff held_observer_def held_connection_def)
  ultimately show ?thesis by (simp add: checkCanApply_def split: option.splits)
qed

lemma lc_wf_setParameterNode [intro]: "lc_wf s \<Longrightarrow> lc_wf (setParameterNode p s)"
proof (cases "parameterNode s")
  case None
  assume wf: "lc_wf s"
  show ?thesis using unobserved_set [OF lc_wf_unobserved [OF wf None] None] .
next
  case (Some old)
  assume wf: "lc_wf s"
  let ?s1 = "removeObserver (ParameterNode (pn_id old)) ModifiedEvent CheckCanApply (disconnectGui (parameterNodeGuiTag s) s)"
  have u: "unobserved (?s1\<lparr>parameterNode := None\<rparr>)"
    using lc_wf_release [OF wf Some] by (simp add: unobserved_def)
  have "setParameterNode p s = setParameterNode p (?s1\<lparr>parameterNode := None\<rparr>)"
    using Some by (cases p) (simp_all add: setParameterNode_def removeObserver_def disconnectGui_def Let_def)
  then show ?thesis using unobserved_set [OF u] by simp
qed

lemma lc_wf_checkCanApply [intro]: "lc_wf s \<Longrightarrow> lc_wf (checkCanApply s)"
  by (simp add: checkCanApply_def split: option.splits)

lemma lc_wf_run_handler [intro]: "lc_wf s \<Longrightarrow> lc_wf (run_handler h s)"
  by (cases h) (auto simp: onSceneStartClose_def onSceneEndClose_def initializeParameterNode_def)

lemma lc_wf_fold_handlers: "lc_wf s \<Longrightarrow> lc_wf (fold run_handler hs s)"
  by (induction hs arbitrary: s) auto

lemma lc_wf_exit: "lc_wf s \<Longrightarrow> lc_wf (widget_exit s)"
proof (cases "parameterNode s")
  case (Some old)
  assume "lc_wf s"
  from lc_wf_release [OF this Some] have "unobserved (widget_exit s)"
    using Some by (simp add: widget_exit_def unobserved_def removeObserver_def disconnectGui_def)
  then show ?thesis by (rule unobserved_wf)
qed (simp add: widget_exit_def)

lemma lc_wf_cleanup: "lc_wf s \<Longrightarrow> lc_wf (widget_cleanup s)"
  by (simp add: widget_cleanup_def removeObservers_def lc_wf_def held_observer_def held_connection_def)

lemma lc_wf_app_step: "lc_wf s \<Longrightarrow> lc_wf (app_step ev s)"
  by (cases ev) (simp_all add: invoke_event_def lc_wf_fold_handlers widget_enter_def initializeParameterNode_def
      lc_wf_exit lc_wf_cleanup)

text \<open>Without a parameter node the scene handlers change nothing.\<close>

lemma scene_handlers_id:
  assumes "parameterNode s = None" "h \<noteq> CheckCanApply"
  shows "run_handler h s = s"
  using assms by (cases h) (simp_all add: onSceneStartClose_def setParameterNode_def onSceneEndClose_def
      initializeParameterNode_def)

lemma fold_scene_handlers_id:
  "parameterNode s = None \<Longrightarrow> CheckCanApply \<notin> set hs \<Longrightarrow> fold run_handler hs s = s"
  by (induction hs) (auto simp: scene_handlers_id)

lemma invoke_event_id:
  assumes "parameterNode s = None" "set (observations s) \<subseteq> set scene_observers"
  shows "invoke_event subj event s = s"
proof -
  have "CheckCanApply \<notin> set (map (\<lambda>(_, _, m). m) (filter (\<lambda>(obj, e, _). obj = subj \<and> e = event) (observations s)))"
    using assms(2) by (auto simp: scene_observers_def)
  then show ?thesis using assms(1) by (simp add: invoke_event_def fold_scene_handlers_id)
qed

lemma lc_inv_setup: "lc_inv (lifecycle_setup tmp (widget_init ui))"
  by (simp add: lc_inv_def lifecycle_setup_def widget_init_def addObserver_def widget_setup_def scene_observers_def)

lemma lc_inv_step: "lc_inv s \<Longrightarrow> lc_inv (app_step ev s)"
proof (cases ev)
  case Cleanup
  then show "lc_inv s \<Longrightarrow> lc_inv (app_step ev s)"
    by (simp add: lc_inv_def widget_cleanup_def removeObservers_def)
qed (auto simp: lc_inv_def invoke_event_id widget_enter_def initializeParameterNode_def widget_exit_def)

text \<open>A state with no parameter node and only the scene observers, the same with the form
  filled in over the folder of \<open>Poller.poll_fs\<close>, and a node with both volumes selected.\<close>

definition lc0 :: lifecycle where
  "lc0 = lifecycle_setup ''/tmp'' (widget_init form0)"

definition lc_form :: lifecycle where
  "lc_form = lc0\<lparr>lc_ui := (lc_ui lc0)\<lparr>lineEdit_inputFolder := ''/in'', lineEdit_outputFolder := ''/out'',
     lineEdit_replaceString := ''a'', lineEdit_replaceByString := ''b''\<rparr>\<rparr>"

definition node_sel :: "nat \<Rightarrow> replaceAllParameterNode" where
  "node_sel i = (parameterNode_new i)\<lparr>inputVolume := Some 1, thresholdedVolume := Some 2\<rparr>"

lemma lc_inv_reach: "lc_reach s \<Longrightarrow> lc_inv s"
  by (induction rule: lc_reach.induct) (simp_all add: lc_inv_setup lc_inv_step)

text \<open>\<open>setParameterNode\<close> on a state that observes no parameter node.\<close>

lemma setParameterNode_fresh:
  assumes "parameterNode s = None" "(ParameterNode (pn_id n), ModifiedEvent, CheckCanApply) \<notin> set (observations s)"
  shows "parameterNode (setParameterNode (Some n) s) = Some n"
    "parameterNodeGuiTag (setParameterNode (Some n) s) = Some (next_tag s)"
    "next_tag (setParameterNode (Some n) s) = Suc (next_tag s)"
    "gui_connections (setParameterNode (Some n) s) = gui_connections s @ [(pn_id n, next_tag s)]"
    "observations (setParameterNode (Some n) s) = observations s @ [(ParameterNode (pn_id n), ModifiedEvent, CheckCanApply)]"
    "applyButton_enabled (lc_ui (setParameterNode (Some n) s)) \<longleftrightarrow> inputVolume n \<noteq> None \<and> thresholdedVolume n \<noteq> None"
  using assms by (simp_all add: setParameterNode_def connectGui_def addObserver_def checkCanApply_def Let_def)

lemma scene_observers_no_node [simp]: "(ParameterNode i, e, m) \<notin> set scene_observers"
  by (simp add: scene_observers_def)

lemma lc_inv_no_node_observer:
  "lc_inv s \<Longrightarrow> (ParameterNode i, e, m) \<notin> set (observations s)"
  by (auto simp: lc_inv_def)

subsection \<open>Properties\<close>

text \<open>
  C9: the parameter node is never set: \<open>initializeParameterNode\<close> is the only method meant
  to create it and its body is commented out, so over any sequence of entering, leaving,
  closing the scene, destroying the widget, node modifications, user actions, Apply clicks
  on Linux or macOS and CLI events the widget holds no parameter node and no GUI
  connection, observes no parameter node, and \<open>_checkCanApply\<close> never runs: the Apply
  button stays enabled as \<open>setup\<close> left it.
\<close>

theorem lc_reach_no_parameter_node:
  assumes "lc_reach s"
  shows "parameterNode s = None \<and> gui_connections s = [] \<and>
    set (observations s) \<subseteq> set scene_observers \<and> applyButton_enabled (lc_ui s)"
  using lc_inv_reach [OF assms] by (simp add: lc_inv_def)

theorem lc_reach_no_parameter_node_witness:
  "parameterNode (app_step CloseScene (app_step Exit (app_step Enter lc0))) = None
   \<and> applyButton_enabled (lc_ui (app_step CloseScene (app_step Exit (app_step Enter lc0))))"
proof -
  have "lc_reach (app_step CloseScene (app_step Exit (app_step Enter lc0)))"
    unfolding lc0_def by (intro lc_reach.event lc_reach.created)
  from lc_reach_no_parameter_node [OF this] show ?thesis by simp
qed

text \<open>
  C12: were a parameter node set, \<open>setParameterNode\<close> would switch nodes cleanly: after
  setting one node and then another, the widget holds the second, its only GUI connection
  and its only node observer are those of the second (the first node's are removed), and
  the Apply button is enabled exactly when the second node selects both an input and a
  thresholded volume.
\<close>

theorem setParameterNode_switch:
  assumes "lc_inv s" "pn_id n1 \<noteq> pn_id n2"
  shows "parameterNode (setParameterNode (Some n2) (setParameterNode (Some n1) s)) = Some n2
    \<and> gui_connections (setParameterNode (Some n2) (setParameterNode (Some n1) s)) = [(pn_id n2, Suc (next_tag s))]
    \<and> observations (setParameterNode (Some n2) (setParameterNode (Some n1) s))
        = observations s @ [(ParameterNode (pn_id n2), ModifiedEvent, CheckCanApply)]
    \<and> (applyButton_enabled (lc_ui (setParameterNode (Some n2) (setParameterNode (Some n1) s)))
        \<longleftrightarrow> inputVolume n2 \<noteq> None \<and> thresholdedVolume n2 \<noteq> None)"
proof -
  let ?s1 = "setParameterNode (Some n1) s"
  have p: "parameterNode s = None" "gui_connections s = []" using assms(1) by (simp_all add: lc_inv_def)
  note f1 = setParameterNode_fresh [OF p(1) lc_inv_no_node_observer [OF assms(1)]]
  let ?o1 = "(ParameterNode (pn_id n1), ModifiedEvent, CheckCanApply)"
  have r: "remove1 ?o1 (observations s @ [?o1]) = observations s"
    using lc_inv_no_node_observer [OF assms(1)] by (simp add: remove1_append)
  let ?s2 = "removeObserver (ParameterNode (pn_id n1)) ModifiedEvent CheckCanApply (disconnectGui (parameterNodeGuiTag ?s1) ?s1)"
  have s2: "observations ?s2 = observations s" "gui_connections ?s2 = []" "next_tag ?s2 = Suc (next_tag s)"
    using f1 r p(2) by (simp_all add: removeObserver_def disconnectGui_def)
  have "setParameterNode (Some n2) ?s1 = setParameterNode (Some n2) (?s2\<lparr>parameterNode := None\<rparr>)"
    using f1(1) by (simp add: setParameterNode_def)
  moreover have "(ParameterNode (pn_id n2), ModifiedEvent, CheckCanApply) \<notin> set (observations (?s2\<lparr>parameterNode := None\<rparr>))"
    using s2(1) lc_inv_no_node_observer [OF assms(1)] by simp
  ultimately show ?thesis
    using setParameterNode_fresh [of "?s2\<lparr>parameterNode := None\<rparr>" n2] s2 by simp
qed

theorem setParameterNode_switch_witness:
  "parameterNode (setParameterNode (Some (node_sel 8)) (setParameterNode (Some (parameterNode_new 7)) lc0)) = Some (node_sel 8)
   \<and> applyButton_enabled (lc_ui (setParameterNode (Some (node_sel 8)) (setParameterNode (Some (parameterNode_new 7)) lc0)))"
proof -
  have i: "lc_inv lc0" unfolding lc0_def by (rule lc_inv_setup)
  have "pn_id (parameterNode_new 7) \<noteq> pn_id (node_sel 8)" by (simp add: parameterNode_new_def node_sel_def)
  from setParameterNode_switch [OF i this] show ?thesis by (simp add: node_sel_def parameterNode_new_def)
qed

text \<open>
  C32: \<open>exit\<close> stops observing the parameter node but keeps it, and \<open>enter\<close> does not
  observe it again (\<open>initializeParameterNode\<close> does nothing), although the comment of
  \<open>exit\<close> says the GUI "will be updated when the user enters into the module": after
  leaving and re-entering, the node is still held and its modifications no longer reach
  the widget.
\<close>

theorem exit_enter_node_unobserved:
  assumes "lc_inv s"
  shows "parameterNode (app_step Enter (app_step Exit (setParameterNode (Some n) s))) = Some n
    \<and> app_step (NodeModified (pn_id n)) (app_step Enter (app_step Exit (setParameterNode (Some n) s)))
        = app_step Enter (app_step Exit (setParameterNode (Some n) s))"
proof -
  have p: "parameterNode s = None" using assms by (simp add: lc_inv_def)
  note f = setParameterNode_fresh [OF p lc_inv_no_node_observer [OF assms]]
  let ?o = "(ParameterNode (pn_id n), ModifiedEvent, CheckCanApply)"
  have r: "remove1 ?o (observations s @ [?o]) = observations s"
    using lc_inv_no_node_observer [OF assms] by (simp add: remove1_append)
  have o: "observations (app_step Enter (app_step Exit (setParameterNode (Some n) s))) = observations s"
    using f r by (simp add: widget_exit_def widget_enter_def initializeParameterNode_def removeObserver_def
        disconnectGui_def)
  have "filter (\<lambda>(obj, e, _). obj = ParameterNode (pn_id n) \<and> e = ModifiedEvent) (observations s) = []"
    using lc_inv_no_node_observer [OF assms] by (auto simp: filter_empty_conv)
  then show ?thesis using f o
    by (simp add: invoke_event_def widget_exit_def widget_enter_def initializeParameterNode_def
        removeObserver_def disconnectGui_def)
qed

theorem exit_enter_node_unobserved_witness:
  "parameterNode (app_step Enter (app_step Exit (setParameterNode (Some (node_sel 8)) lc0))) = Some (node_sel 8)
   \<and> app_step (NodeModified 8) (app_step Enter (app_step Exit (setParameterNode (Some (node_sel 8)) lc0)))
      = app_step Enter (app_step Exit (setParameterNode (Some (node_sel 8)) lc0))"
proof -
  have i: "lc_inv lc0" unfolding lc0_def by (rule lc_inv_setup)
  from exit_enter_node_unobserved [OF i, of "node_sel 8"] show ?thesis by (simp add: node_sel_def parameterNode_new_def)
qed

text \<open>
  C29: the widget never stops observing a CLI node it has started, except on
  \<open>cleanup\<close>: every other event keeps all observed nodes. Since the Apply button stays
  enabled during a run on Linux or macOS, a second click leaves the first run's node
  observed, and that node's completion is shown as the success of the second run.
\<close>

theorem cli_observers_accumulate:
  assumes "ev \<noteq> Cleanup"
  shows "set (cli_observed (lc_ui s)) \<subseteq> set (cli_observed (lc_ui (app_step ev s)))"
  using assms local_dispatch_observed
  by (cases ev) (simp_all add: widget_enter_def initializeParameterNode_def widget_exit_def invoke_event_def
      fold_handlers_observed removeObserver_def disconnectGui_def split: option.splits)

theorem cli_observers_accumulate_witness:
  "0 \<in> set (cli_observed (lc_ui (app_step (ApplyLocal poll_fs 1) (app_step (ApplyLocal poll_fs 0) lc_form))))
   \<and> \<not> label_success_visible (lc_ui (app_step (ApplyLocal poll_fs 1) (app_step (ApplyLocal poll_fs 0) lc_form)))
   \<and> label_success_visible (lc_ui (app_step (CliModified 0 poll_fs 2 True)
        (app_step (ApplyLocal poll_fs 1) (app_step (ApplyLocal poll_fs 0) lc_form))))"
proof -
  let ?s1 = "app_step (ApplyLocal poll_fs 0) lc_form"
  let ?s2 = "app_step (ApplyLocal poll_fs 1) ?s1"
  note defs = local_dispatch_def slot_state_def with_outside_def onProcessStarted_def listdir_def checkIO_def
    path_exists_def poll_fs_def lc_form_def lc0_def lifecycle_setup_def widget_init_def addObserver_def
    widget_setup_def form0_def apply_params_def Let_def
  have o1: "0 \<in> set (cli_observed (lc_ui ?s1))" by (simp add: defs)
  have o2: "0 \<in> set (cli_observed (lc_ui ?s2))"
    using cli_observers_accumulate [of "ApplyLocal poll_fs 1" ?s1] o1 by auto
  have v: "\<not> label_success_visible (lc_ui ?s2)" "0 < nbFiles (lc_ui ?s2)" by (simp_all add: defs)
  have "label_success_visible (cli_modified 0 poll_fs 2 True (lc_ui ?s2))"
    by (rule cli_modified_completed [OF o2 v(2)])
  then show ?thesis using o2 v(1) by simp
qed

text \<open>
  C33: the widget never keeps a stale observer or GUI connection: from a state in which
  no observation is registered twice and every observation of a parameter node and every
  GUI connection belong to the node the widget holds (under the tag it keeps), every event
  of the application and every call of \<open>setParameterNode\<close> (with a node or \<open>None\<close>)
  gives such a state again; in particular switching nodes disconnects and unobserves the
  old one.
\<close>

theorem lc_wf_preserved:
  assumes "lc_wf s"
  shows "lc_wf (app_step ev s) \<and> lc_wf (setParameterNode p s)"
  using assms by (simp add: lc_wf_app_step lc_wf_setParameterNode)

theorem lc_wf_preserved_witness:
  "lc_wf (app_step CloseScene lc0) \<and> lc_wf (setParameterNode (Some (node_sel 8)) lc0)"
proof -
  have "lc_wf lc0"
    by (simp add: lc0_def lc_wf_def lifecycle_setup_def widget_init_def addObserver_def)
  then show ?thesis by (rule lc_wf_preserved)
qed

end
