(* ===== verification/Module.thy ===== *)
theory Module
  imports Lifecycle OsPath
begin

text \<open>
  The module's registration with the application and its template test
  (\<open>src/replaceAll/replaceAll.py\<close>): \<open>replaceAll.__init__\<close> (lines 37--57) fills the
  module's description and connects the application's \<open>startupCompleted()\<close> signal to
  \<open>registerSampleData\<close> (lines 65--107), which registers two sample data sets with the
  Sample Data module; \<open>replaceAllTest\<close> (lines 720--782) clears the scene, registers the
  samples again, downloads the first one, checks its scalar range and calls the logic.

  The Sample Data module keeps the registered sources as a list in registration order,
  without duplicates;
  \<open>downloadSample\<close> takes the first source of the name and gives the loaded volume, here
  its scalar range, or \<open>None\<close> when nothing could be loaded. \<open>_()\<close> and \<open>translate\<close>
  return their text (no translation is installed).
\<close>

text \<open>\<open>os.path.dirname\<close> (CPython's \<open>posixpath.dirname\<close>): the part before the last
  separator, with its trailing separators removed unless it consists of separators.\<close>

definition dirname :: "path \<Rightarrow> path" where
  "dirname p =
     (let i = nat (py_rfind CHR ''/'' p + 1); head = take i p in
      if head \<noteq> [] \<and> \<not> list_all (\<lambda>c. c = CHR ''/'') head
      then rev (dropWhile (\<lambda>c. c = CHR ''/'') (rev head)) else head)"

datatype startup_hook = RegisterSampleData

record module_parent =
  title :: string
  categories :: "string list"
  dependencies :: "string list"
  contributors :: "string list"
  helpText :: string
  acknowledgementText :: string
  startup_hooks :: "startup_hook list"

definition replaceAll_init :: "module_parent \<Rightarrow> module_parent" where
  "replaceAll_init parent =
     parent\<lparr>title := ''replaceAll'', categories := [''Tutorials''], dependencies := [],
       contributors := [''John Doe (AnyWare Corp.)''],
       helpText := [CHR 0x0A] @ ''This is an example of scripted loadable module bundled in an extension.''
         @ [CHR 0x0A] @ ''See more information in <a href=\"https://github.com/organization/projectname#replaceAll\">module documentation</a>.''
         @ [CHR 0x0A],
       acknowledgementText := [CHR 0x0A]
         @ ''This file was originally developed by Jean-Christophe Fillion-Robin, Kitware Inc., Andras Lasso, PerkLab,''
         @ [CHR 0x0A] @ ''and Steve Pieper, Isomics, Inc. and was partially funded by NIH grant 3P41RR013218-12S1.''
         @ [CHR 0x0A],
       startup_hooks := startup_hooks parent @ [RegisterSampleData]\<rparr>"

record sample_source =
  category :: string
  sampleName :: string
  thumbnailFileName :: path
  uris :: string
  fileNames :: string
  checksums :: string
  nodeNames :: string

definition sample_url_prefix :: string where
  "sample_url_prefix = ''https://github.com/Slicer/SlicerTestingData/releases/download/SHA256/''"

text \<open>The two sources registered by \<open>registerSampleData\<close> (lines 78--93 and 96--107),
  with the folder of the icons.\<close>

definition sample_replaceAll1 :: "path \<Rightarrow> sample_source" where
  "sample_replaceAll1 iconsPath =
     \<lparr>category = ''replaceAll'', sampleName = ''replaceAll1'',
      thumbnailFileName = path_join iconsPath ''replaceAll1.png'',
      uris = sample_url_prefix @ ''998cb522173839c78657f4bc0ea907cea09fd04e44601f17c82ea27927937b95'',
      fileNames = ''replaceAll1.nrrd'',
      checksums = ''SHA256:998cb522173839c78657f4bc0ea907cea09fd04e44601f17c82ea27927937b95'',
      nodeNames = ''replaceAll1''\<rparr>"

definition sample_replaceAll2 :: "path \<Rightarrow> sample_source" where
  "sample_replaceAll2 iconsPath =
     \<lparr>category = ''replaceAll'', sampleName = ''replaceAll2'',
      thumbnailFileName = path_join iconsPath ''replaceAll2.png'',
      uris = sample_url_prefix @ ''1a64f3f422eb3d1c9b093d1a18da354b13bcf307907c66317e2463ee530b7a97'',
      fileNames = ''replaceAll2.nrrd'',
      checksums = ''SHA256:1a64f3f422eb3d1c9b093d1a18da354b13bcf307907c66317e2463ee530b7a97'',
      nodeNames = ''replaceAll2''\<rparr>"

text \<open>\<open>registerCustomSampleDataSource\<close> of the Sample Data module: a source equal to one
  already registered is not added again.\<close>

definition registerCustomSampleDataSource :: "sample_source \<Rightarrow> sample_source list \<Rightarrow> sample_source list" where
  "registerCustomSampleDataSource src registry = (if src \<in> set registry then registry else registry @ [src])"

text \<open>\<open>registerSampleData\<close> (lines 65--107), with the path of the module's file.\<close>

definition registerSampleData :: "path \<Rightarrow> sample_source list \<Rightarrow> sample_source list" where
  "registerSampleData module_file registry =
     (let iconsPath = path_join (dirname module_file) ''Resources/Icons'' in
      registerCustomSampleDataSource (sample_replaceAll2 iconsPath)
        (registerCustomSampleDataSource (sample_replaceAll1 iconsPath) registry))"

text \<open>The application's startup: the connected hooks run in the order they were connected.\<close>

fun run_hook :: "path \<Rightarrow> startup_hook \<Rightarrow> sample_source list \<Rightarrow> sample_source list" where
  "run_hook module_file RegisterSampleData registry = registerSampleData module_file registry"

definition startupCompleted :: "path \<Rightarrow> module_parent \<Rightarrow> sample_source list \<Rightarrow> sample_source list" where
  "startupCompleted module_file parent registry = fold (run_hook module_file) (startup_hooks parent) registry"

definition downloadSample :: "(sample_source \<Rightarrow> (rat \<times> rat) option) \<Rightarrow> sample_source list \<Rightarrow> string \<Rightarrow> (rat \<times> rat) option" where
  "downloadSample fetch registry name =
     (case find (\<lambda>src. sampleName src = name) registry of None \<Rightarrow> None | Some src \<Rightarrow> fetch src)"

text \<open>A call of \<open>replaceAllLogic.process\<close>, which takes no argument besides \<open>self\<close>, with
  \<open>nargs\<close> positional arguments: Python's arity check raises \<open>TypeError\<close> for any.\<close>

definition logic_call_process :: "nat \<Rightarrow> replace_all_logic \<Rightarrow> replace_all_logic result" where
  "logic_call_process nargs lg =
     (if nargs = 0 then Inr (logic_process lg)
      else Inl (TypeError (''replaceAllLogic.process() takes 1 positional argument but ''
                           @ py_str_nat (Suc nargs) @ '' were given'')))"

text \<open>\<open>test_replaceAll1\<close> (lines 736--770): the sample registry after the test, or the
  exception and the registry at that point. A missing volume raises at
  \<open>inputVolume.GetImageData()\<close>. The statements after the call of \<open>process\<close> at line 770
  can only run if that call returns.\<close>

definition test_replaceAll1 ::
  "path \<Rightarrow> (sample_source \<Rightarrow> (rat \<times> rat) option) \<Rightarrow> sample_source list \<Rightarrow> (py_error \<times> sample_source list) + sample_source list" where
  "test_replaceAll1 module_file fetch registry =
     (let registry1 = registerSampleData module_file registry in
      case downloadSample fetch registry1 ''replaceAll1'' of
        None \<Rightarrow> Inl (AttributeError ''GetImageData'', registry1)
      | Some (lo, hi) \<Rightarrow>
          if lo \<noteq> 0 then Inl (AssertionError ''inputScalarRange[0] != 0'', registry1)
          else if hi \<noteq> 695 then Inl (AssertionError ''inputScalarRange[1] != 695'', registry1)
          else
            (let logic = replaceAllLogic_new LNone LNone LNone LNone None LNone in
             case logic_call_process 4 logic of
               Inl err \<Rightarrow> Inl (err, registry1)
             | Inr _ \<Rightarrow> Inr registry1))"

text \<open>\<open>runTest\<close> (lines 731--734): \<open>setUp\<close> clears the scene, which the module's widget, if
  it exists, observes as the closing of the scene (\<open>Lifecycle.app_step CloseScene\<close>).\<close>

definition runTest ::
  "path \<Rightarrow> (sample_source \<Rightarrow> (rat \<times> rat) option) \<Rightarrow> sample_source list \<Rightarrow> lifecycle
     \<Rightarrow> lifecycle \<times> ((py_error \<times> sample_source list) + sample_source list)" where
  "runTest module_file fetch registry s =
     (let s1 = app_step CloseScene s in (s1, test_replaceAll1 module_file fetch registry))"

text \<open>The data sets as published: the first has the scalar range the test expects.\<close>

definition published_data :: "sample_source \<Rightarrow> (rat \<times> rat) option" where
  "published_data src = (if sampleName src = ''replaceAll1'' then Some (0, 695) else Some (0, 1))"

text \<open>A registered source is consistent when its download address ends with the SHA-256
  digest its checksum names.\<close>

definition source_consistent :: "sample_source \<Rightarrow> bool" where
  "source_consistent src \<longleftrightarrow>
     starts_with sample_url_prefix (uris src) \<and> length (uris src) = length sample_url_prefix + 64
     \<and> checksums src = ''SHA256:'' @ drop (length sample_url_prefix) (uris src)"

declare dirname_def [model_simps] replaceAll_init_def [model_simps] registerSampleData_def [model_simps]
  registerCustomSampleDataSource_def [model_simps]
  sample_replaceAll1_def [model_simps] sample_replaceAll2_def [model_simps]
  startupCompleted_def [model_simps] downloadSample_def [model_simps] logic_call_process_def [model_simps]
  test_replaceAll1_def [model_simps] runTest_def [model_simps]

subsection \<open>Lemmas\<close>

lemma sample_names [simp]:
  "sampleName (sample_replaceAll1 p) = ''replaceAll1''" "sampleName (sample_replaceAll2 p) = ''replaceAll2''"
  by (simp_all add: sample_replaceAll1_def sample_replaceAll2_def)

lemma sample_sources_differ [simp]:
  "sample_replaceAll1 p \<noteq> sample_replaceAll2 q" "sample_replaceAll2 q \<noteq> sample_replaceAll1 p"
  by (simp_all add: sample_replaceAll1_def sample_replaceAll2_def)

lemma set_registerCustom [simp]:
  "set (registerCustomSampleDataSource src reg) = insert src (set reg)"
  by (auto simp: registerCustomSampleDataSource_def)

lemma registerSampleData_set:
  "set (registerSampleData f reg) = insert (sample_replaceAll2 (path_join (dirname f) ''Resources/Icons''))
     (insert (sample_replaceAll1 (path_join (dirname f) ''Resources/Icons'')) (set reg))"
  by (simp add: registerSampleData_def Let_def)

lemma registerSampleData_names:
  "map sampleName (registerSampleData f []) = [''replaceAll1'', ''replaceAll2'']"
  by (simp add: registerSampleData_def registerCustomSampleDataSource_def Let_def)

lemma registerSampleData_consistent:
  "list_all source_consistent (registerSampleData f reg) = list_all source_consistent reg"
proof -
  have l: "length ''998cb522173839c78657f4bc0ea907cea09fd04e44601f17c82ea27927937b95'' = 64"
    "length ''1a64f3f422eb3d1c9b093d1a18da354b13bcf307907c66317e2463ee530b7a97'' = 64"
    by (simp_all add: numeral_eq_Suc)
  have "source_consistent (sample_replaceAll1 p)" "source_consistent (sample_replaceAll2 p)" for p
    by (simp_all add: source_consistent_def starts_with_prefix sample_replaceAll1_def sample_replaceAll2_def l)
  then show ?thesis by (auto simp: list_all_iff registerSampleData_set)
qed

lemma find_named:
  assumes "find (\<lambda>src. sampleName src = name) xs = Some src"
  shows "sampleName src = name"
  using assms by (auto simp: find_Some_iff)

text \<open>Only the published first data set passes the two assertions, whatever the registry
  held before.\<close>

lemma download_published: "downloadSample published_data (registerSampleData f reg) ''replaceAll1'' = Some (0, 695)"
proof -
  have "\<exists>x \<in> set (registerSampleData f reg). sampleName x = ''replaceAll1''"
    by (simp add: registerSampleData_set)
  then have "find (\<lambda>src. sampleName src = ''replaceAll1'') (registerSampleData f reg) \<noteq> None"
    unfolding find_None_iff by blast
  then obtain src where src: "find (\<lambda>src. sampleName src = ''replaceAll1'') (registerSampleData f reg) = Some src"
    by blast
  show ?thesis using src find_named [OF src] by (simp add: downloadSample_def published_data_def)
qed

subsection \<open>Properties\<close>

text \<open>
  C10: the template test never passes: whatever the download gives, \<open>test_replaceAll1\<close>
  raises, at the volume's \<open>GetImageData()\<close>, at one of the two range assertions, or at
  \<open>logic.process(inputVolume, outputVolume, threshold, True)\<close>, which calls the
  argument-less \<open>process\<close> of this module with four arguments; when the download gives the
  published range (0, 695), it is that call which raises, with Python's \<open>TypeError\<close>
  (five positional arguments, counting \<open>self\<close>).
\<close>

theorem test_replaceAll1_always_raises:
  "(\<exists>err st. test_replaceAll1 module_file fetch registry = Inl (err, st))
   \<and> (downloadSample fetch (registerSampleData module_file registry) ''replaceAll1'' = Some (0, 695) \<longrightarrow>
      test_replaceAll1 module_file fetch registry =
        Inl (TypeError ''replaceAllLogic.process() takes 1 positional argument but 5 were given'',
             registerSampleData module_file registry))"
  by (auto simp: test_replaceAll1_def logic_call_process_def py_str_nat.simps Let_def split: option.splits)

theorem test_replaceAll1_always_raises_witness:
  "test_replaceAll1 ''/modules/replaceAll.py'' published_data [] =
     Inl (TypeError ''replaceAllLogic.process() takes 1 positional argument but 5 were given'',
          registerSampleData ''/modules/replaceAll.py'' [])"
  using test_replaceAll1_always_raises [of "''/modules/replaceAll.py''" published_data "[]"]
    download_published [of "''/modules/replaceAll.py''" "[]"] by simp

text \<open>
  The module's registration makes both data sets available: a module whose
  \<open>__init__\<close> ran and whose application completed its startup holds the sources
  \<open>replaceAll1\<close> and \<open>replaceAll2\<close>, in that order, each with a download address that ends
  with the SHA-256 digest of its checksum.
\<close>

lemma startup_registers_samples:
  assumes "startup_hooks parent = []"
  shows "map sampleName (startupCompleted module_file (replaceAll_init parent) []) = [''replaceAll1'', ''replaceAll2'']
    \<and> list_all source_consistent (startupCompleted module_file (replaceAll_init parent) [])"
  using assms registerSampleData_names [of module_file] registerSampleData_consistent [of module_file "[]"]
  by (simp add: startupCompleted_def replaceAll_init_def)

end
