(* ===== verification/Spec2Isabelle.thy ===== *)
theory Spec2Isabelle
  imports MainRun PollLoop Module
begin

text \<open>
  \<^bold>\<open>A verification development of the replaceAll module (Slicer extension).\<close>

  The repository is a 3D Slicer module (\<open>src/replaceAll/replaceAll.py\<close>) and a command-line
  worker (\<open>src/replaceAll/replaceAll_utils/replaceAll_WSL.py\<close>). The worker does the real
  work: it copies or converts the medical images of an input folder into an output folder
  and renames entries by substring replacement, reporting progress by rewriting a log
  file. The module's widget collects the parameters and either starts the worker as a
  Slicer CLI (Linux, macOS) or, on Windows, checks a WSL/conda environment (creating it on
  the user's consent) and runs the worker inside it; in both cases it polls the log's
  modification time to drive a progress bar.

  Theories, in import order:
  \<^item> \<open>Prelude\<close>: Python exceptions as the datatype \<open>py_error\<close>, results
    \<open>py_error + 'a\<close> of pure calls, the sequencing \<open>sbind\<close> (an exception skips the rest),
    association-list lemmas (directory listings), the collection \<open>model_simps\<close> of
    unfolding equations.
  \<^item> \<open>PyStr\<close>: CPython's \<open>in\<close>, \<open>startswith\<close>, \<open>replace\<close>, \<open>split\<close>, \<open>join\<close>,
    \<open>count\<close> and \<open>str\<close> of integers, with the lemmas the other theories use: \<open>in\<close> is
    the substring relation, \<open>replace\<close> leaves a string without the pattern (or with the
    pattern replaced by itself) unchanged, and \<open>split\<close> gives \<open>count + 1\<close> pieces.
  \<^item> \<open>OsPath\<close>: \<open>posixpath.join\<close>, \<open>basename\<close>, \<open>splitext\<close> (with \<open>str.rfind\<close>); a listed
    name joined to a folder keeps its base name and its \<open>splitext\<close> extension.
  \<^item> \<open>Extension\<close>: \<open>get_file_extension\<close> (\<open>replaceAll_WSL.py\<close> lines 9--13) and the
    extension test of the copy loop (lines 43--47); equivalence with a reference
    description of the extension.
  \<^item> \<open>FileSystem\<close>: the file-system state (folders as association lists, log files with a
    ghost history of modification times) and the library calls \<open>os.listdir\<close>,
    \<open>os.mkdir\<close>, \<open>os.rename\<close>, \<open>shutil.copy2\<close>, SimpleITK read/write (a parameter record,
    the library being external) and the two \<open>open\<close> modes on the log. A call returns the
    new state or \<open>Inl (e, fs)\<close>: the exception with the state in which it was raised, so
    that work done before an exception stays visible, as in Python.
  \<^item> \<open>BatchTransform\<close>: \<open>main\<close> of \<open>replaceAll_WSL.py\<close> (lines 16--59): \<open>copy_item\<close>,
    \<open>copy_loop\<close>, \<open>rename_item\<close>, \<open>rename_loop\<close>, \<open>main\<close>; a reference description of
    the copy pass (\<open>expected_copy\<close>) and of the rename pass (\<open>renamed\<close>), and the two
    loop lemmas \<open>copy_loop_spec\<close> (by induction on the listing, with the log and the
    clock) and \<open>rename_loop_spec\<close> (the set of entries after renaming, under an injective
    renaming onto fresh names).
  \<^item> \<open>MainRun\<close>: whole runs of \<open>main\<close>: the contract of a successful run (output folder,
    input folder, progress log with its \<open>1 + N\<close> strictly increasing modification times),
    the failures (unreadable image mid-loop with the partial state it leaves, empty input
    folder, missing input folder), the run with \<open>overwrite\<close> set, and the loss of a
    file whenever the listing holds a name that another entry is renamed to and that is
    renamed in turn.
  \<^item> \<open>WinPath\<close>: \<open>windows_to_linux_path\<close> (\<open>replaceAll.py\<close> lines 471--483) with
    \<open>str.strip\<close>, \<open>str.lower\<close> and \<open>str.split(sep, 1)\<close> on Latin-1 strings: it never
    raises, maps \<open>d:rest\<close> to \<open>/mnt/d/rest\<close>, leaves no backslash.
  \<^item> \<open>Widget\<close>: the widget's state record (Qt field contents and flags, message boxes,
    progress attributes), \<open>setup\<close>, \<open>_checkIO\<close>, \<open>openFinder\<close>, the checkbox handler, the
    logic class \<open>replaceAllLogic\<close>, and the user's actions as a step relation
    \<open>ui_reach\<close> with its invariant.
  \<^item> \<open>Poller\<close>: \<open>onProcessStarted\<close>, \<open>onProcessUpdate\<close> and the Windows polling loop;
    the bounds of the display as an invariant of the inductive \<open>display_reach\<close>, the
    percentage formula of the specification, the division by zero on an empty folder,
    and the exact count of ticks over samples with increasing times.
  \<^item> \<open>Dispatch\<close>: \<open>onApplyButton\<close> (lines 303--422) and the WSL helpers, with the
    environment manager, \<open>platform\<close>, \<open>subprocess\<close> and the confirmation dialog as the
    interface record \<open>wsl_env\<close> over an abstract outside state: the worker's command line,
    consent before creating the environment, the parameters of the CLI on other systems
    and the observer of its node, and the Apply button and success display of the Windows
    branch.
  \<^item> \<open>PollLoop\<close>: the two \<open>while process.is_alive()\<close> loops of the Windows branch
    (lines 349--360 and 372--405) as \<open>partial_function (option)\<close> over what each
    iteration observes (\<open>poll_world\<close>): the wait returns exactly when the thread is
    found ended, the polling loop returns a widget only then, and, run until the thread
    ends, it counts exactly one tick per sample it takes (an iteration more than 0.3 s
    after the previous sample) while the log's modification time increases; the lemma
    \<open>poll_while_samples\<close> identifies the loop with \<open>Poller.poll_loop\<close> on those samples.
    The bounds of the timer.
  \<^item> \<open>Lifecycle\<close>: \<open>__init__\<close>, the observers of \<open>setup\<close>, \<open>cleanup\<close>, \<open>enter\<close>,
    \<open>exit\<close>, the scene-close handlers, \<open>initializeParameterNode\<close>,
    \<open>setParameterNode\<close>, \<open>_checkCanApply\<close> and the parameter node (lines 115--262), with
    the observer list of \<open>VTKObservationMixin\<close> and the GUI connections as state and the
    application's events (including Apply on Linux or macOS and the events of the CLI
    nodes, \<open>Dispatch.local_dispatch\<close> and \<open>Dispatch.cli_modified\<close>) as a step function:
    every event and every \<open>setParameterNode\<close> keep the invariant \<open>lc_wf\<close> (observations
    distinct and limited to the scene's observers and the one observer of the node held,
    GUI connections limited to that node's), no parameter node is ever set (so
    \<open>_checkCanApply\<close> never runs), switching nodes would be clean, a node kept across
    \<open>exit\<close>/\<open>enter\<close> is no longer observed, and observed CLI nodes accumulate over
    runs (an earlier run's completion shows the success of a later one).
  \<^item> \<open>Module\<close>: \<open>replaceAll.__init__\<close>, \<open>registerSampleData\<close> and the template test
    (lines 37--107 and 720--770), with the Sample Data registry as a list: the
    registration of both data sets, and the test that always raises (with the published
    data, \<open>TypeError\<close> at its call of \<open>process\<close>).
  \<^item> This theory: the worker and the progress display together (\<open>run_progress_display\<close>).

  Time is a counter \<open>clock\<close> in the state that every write of the log advances: it stands
  for the modification time, which the code only compares for difference (the
  granularity of real timestamps is not modelled); the time read by \<open>time.time()\<close> is an
  argument of the handlers, or of the iteration in \<open>PollLoop\<close>. Floats are exact
  rationals: \<open>round(x, 2)\<close> rounds half to even on the exact value (the binary rounding
  error of the division is not modelled). No loop needs fuel: the worker's loops run over
  a finite listing, structurally; the two waiting loops of the Windows branch may run for
  ever on a thread that never ends, so they are \<open>partial_function (option)\<close>, with
  \<open>None\<close> for not returning, and their return is proved exactly when the thread ends.
  Threads are modelled by their effect: the handler waits for the thread creating the
  environment, and the worker thread's effect on the outside state is that of
  \<open>process_wsl\<close>, with an exception in a thread staying in the thread.

  Not modelled: the image encoding itself (SimpleITK is a parameter), the implementation
  of the SlicerConda environment manager (an interface), of Slicer's observer mixin, of
  the parameter-node wrapper and of the Sample Data module (modelled by what the code
  calls of them: an observer list, GUI connection tags, a registry), the statements of the
  template test after its call of \<open>process\<close> (never reached), file metadata copied by
  \<open>copystat\<close>, nesting of the output folder inside the input folder, and renaming into a
  subfolder (a replacement string containing \<open>/\<close>).

  Limits of the model, which the theorems inherit:
  \<^item> The file system is flat: a folder is a path mapped to its listing, independent of
    its parent. \<open>os.mkdir\<close> and the log's \<open>open\<close> never fail on a missing parent
    folder, where Python raises \<open>FileNotFoundError\<close>; a run whose output folder or log
    path lies under a missing folder is modelled as succeeding.
  \<^item> Characters are 8-bit, read as the code points below U+0100. \<open>utf16_reinterpret\<close>
    (the re-encoding of \<open>check_lib_wsl\<close>) is exact on that range; output with higher
    code points is not representable.
  \<^item> The progress bar's value is the number the code passes to \<open>setValue\<close>, kept as an
    exact fraction; Qt's conversion to an integer is not modelled.
  \<^item> \<open>Dispatch.windows_dispatch\<close> takes the samples of the polling loop as an argument,
    so the theorems of \<open>Dispatch\<close> hold for any list of samples; \<open>PollLoop\<close> relates them
    to the iterations of the real loop (\<open>PollLoop.poll_while_samples\<close>).
\<close>


text \<open>The log as a poller sees it after its \<open>k\<close>-th modification: the history of its
  modification times cut after \<open>k\<close> entries (its content is not reconstructed; the poller
  reads only the time).\<close>

definition log_snapshot :: "fs \<Rightarrow> path \<Rightarrow> nat \<Rightarrow> fs" where
  "log_snapshot fs p k = fs\<lparr>logs := (logs fs)(p := map_option (\<lambda>l. l\<lparr>mtimes := take k (mtimes l)\<rparr>) (logs fs p))\<rparr>"

subsection \<open>Worker and progress display together\<close>

lemma snapshot_mtimes:
  assumes "logs fs p = Some l" "mtimes l = hs @ ts"
  shows "map (\<lambda>k. log_mtime (log_snapshot fs p (length hs + k)) p) [1..<Suc (length ts)] = map Some ts"
proof (rule nth_equalityI)
  fix i assume "i < length (map (\<lambda>k. log_mtime (log_snapshot fs p (length hs + k)) p) [1..<Suc (length ts)])"
  then have i: "i < length ts" by (simp del: upt_Suc)
  have "ts \<noteq> []" using i by auto
  then show "map (\<lambda>k. log_mtime (log_snapshot fs p (length hs + k)) p) [1..<Suc (length ts)] ! i = map Some ts ! i"
    using assms i last_take_append [of "Suc i" ts hs]
    by (simp del: upt_Suc add: log_mtime_def log_snapshot_def nth_append)
qed (simp del: upt_Suc)

text \<open>
  C3: the progress display counts a run of the worker exactly: for a run that succeeds
  (the conditions of the end-to-end contract), a poller started on the same log, set to
  the number of input entries and sampling the log after each of the run's \<open>1 + N\<close>
  modifications, counts \<open>N + 1\<close> ticks and ends at 100 percent with \<open>N/N\<close> files shown,
  before the success display.
\<close>

theorem run_progress_display:
  assumes "overwrite a = ''False''" "input_folder a \<noteq> output_folder a"
    and "folders fs (input_folder a) = Some es" "wf_listing es" "es \<noteq> []"
    and "folders fs (output_folder a) = None"
    and "list_all (\<lambda>(n, v). entry_copyable io n v) es"
    and "clean_renaming a (keys (expected_copy io es))"
    and wp: "w_log_path w = log_path a" "nbFiles w = length es" "progress w = 0" "time_log w < clock fs"
  shows "\<exists>fs' w'. main io a fs = Inr fs' \<and>
     poll_samples (map (\<lambda>k. (log_snapshot fs' (log_path a) (length (log_hist fs (log_path a)) + k), of_nat k))
                     [1..<Suc (Suc (length es))]) w = Inr w'
     \<and> progress w' = Suc (length es) \<and> progressBar_value w' = 100
     \<and> label_files w' = files_text (int (length es)) (length es)"
proof -
  let ?p = "log_path a" and ?N = "length es" and ?c = "clock fs"
  let ?ts = "[?c..<?c + Suc ?N]"
  obtain fs' L where run: "main io a fs = Inr fs'"
    and lg: "logs fs' ?p = Some \<lparr>lcontent = ''0'', mtimes = log_hist fs ?p @ ?ts\<rparr>"
    using main_run [OF assms(1-8)] by blast
  let ?ss = "map (\<lambda>k. (log_snapshot fs' ?p (length (log_hist fs ?p) + k), of_nat k :: rat)) [1..<Suc (Suc ?N)]"
  have "map (\<lambda>k. log_mtime (log_snapshot fs' ?p (length (log_hist fs ?p) + k)) ?p) [1..<Suc (length ?ts)] = map Some ?ts"
    by (rule snapshot_mtimes [OF lg]) simp
  then have mt: "map (\<lambda>(fs, _). log_mtime fs (w_log_path w)) ?ss = map Some ?ts"
    using wp(1) by (simp add: comp_def)
  have srt: "sorted_wrt (<) ?ts" by (simp del: upt_Suc add: strict_sorted_iff)
  have gt: "\<forall>t \<in> set ?ts. time_log w < t" using wp(4) by auto
  have le: "progress w + length ?ss \<le> Suc (nbFiles w)" using wp(2,3) by (simp del: upt_Suc)
  have pos: "0 < nbFiles w" using wp(2) assms(5) by simp
  obtain w' where w': "poll_samples ?ss w = Inr w'" "progress w' = Suc ?N"
    "label_files w' = files_text (int (progress w') - 1) ?N"
    "progressBar_value w' = min 100 (of_int (hundredths (of_nat (progress w' - 1) / of_nat ?N * 100)) / 100)"
    using poll_samples_count [OF srt gt mt le pos] wp(2,3) assms(5) by (auto simp del: upt_Suc)
  have "(of_nat ?N / of_nat ?N * 100 :: rat) = 100" using assms(5) by simp
  then have "progressBar_value w' = 100"
    using w'(2,4) by (simp add: hundredths_def round_half_even_def Let_def)
  then show ?thesis using run w' by auto
qed

theorem run_progress_display_witness:
  "\<exists>fs' w'. main identity_io scenario_args (scenario_fs\<lparr>clock := 1\<rparr>) = Inr fs' \<and>
     poll_samples (map (\<lambda>k. (log_snapshot fs' (log_path scenario_args)
         (length (log_hist (scenario_fs\<lparr>clock := 1\<rparr>) (log_path scenario_args)) + k), of_nat k))
       [1..<Suc (Suc (length [(''scan.nii'', File ''S''), (''mesh.vtk'', File ''M''), (''notes.txt'', File ''N'')]))])
       (poll_form\<lparr>nbFiles := 3\<rparr>) = Inr w'
     \<and> progress w' = Suc (length [(''scan.nii'', File ''S''), (''mesh.vtk'', File ''M''), (''notes.txt'', File ''N'')])
     \<and> progressBar_value w' = 100
     \<and> label_files w' = files_text (int (length [(''scan.nii'', File ''S''), (''mesh.vtk'', File ''M''), (''notes.txt'', File ''N'')]))
                           (length [(''scan.nii'', File ''S''), (''mesh.vtk'', File ''M''), (''notes.txt'', File ''N'')])"
  by (rule run_progress_display)
    (simp_all add: scenario_args_def scenario_fs_def identity_io_def wf_listing_def
      clean_renaming_def rename_target_def expected_copy_def ext_spec_def model_simps
      poll_form_def form0_def)

end
